theory Spec2Isabelle
  imports Complex_Main "HOL-Library.Sublist"
begin

section \<open>Conventions of the embedding\<close>

text \<open>
  The repository is Python. Python \<open>int\<close> values are modelled as \<^typ>\<open>int\<close>, Python
  \<open>str\<close> values as \<^typ>\<open>string\<close>, Python lists as HOL lists. A Python \<open>float\<close> is an
  IEEE-754 binary64 number: a finite value, negative zero, one of the two infinities, or
  NaN. The result of an arithmetic operation on floats is the exact result rounded to the
  nearest double, ties to the even significand; a result too large for a double is an
  infinity, or the exception \<open>OverflowError\<close> where CPython raises it (conversion of an
  \<open>int\<close>, true division of two \<open>int\<close>s, and \<open>**\<close>). The power function of the C
  library, which CPython calls for \<open>**\<close> on floats, is taken to be correctly rounded.
  A Python exception is a value \<open>Inl e\<close> of a sum type; a normal return is \<open>Inr v\<close>.
\<close>

datatype py_error = ZeroDivisionError | ValueError | OverflowError

subsection \<open>Python primitives used by the sources\<close>

text \<open>\<open>str(n)\<close> for an \<open>int\<close>: decimal digits, with a minus sign for a negative one.\<close>

definition digit_char :: "nat \<Rightarrow> char" where
  "digit_char d = ''0123456789'' ! d"

fun str_nat :: "nat \<Rightarrow> string" where
  "str_nat n = (if n < 10 then [digit_char n] else str_nat (n div 10) @ [digit_char (n mod 10)])"

declare str_nat.simps [simp del]

definition str_int :: "int \<Rightarrow> string" where
  "str_int i = (if i < 0 then ''-'' @ str_nat (nat (- i)) else str_nat (nat i))"

text \<open>Rounding of a real to the nearest integer, ties to the even one.\<close>

definition round_half_even :: "real \<Rightarrow> int" where
  "round_half_even x =
     (let f = \<lfloor>x\<rfloor>; d = x - of_int f
      in if d < 1 / 2 then f
         else if d > 1 / 2 then f + 1
         else if even f then f else f + 1)"

subsection \<open>Binary64 floats\<close>

text \<open>
  \<open>exponent a\<close> is the binary exponent of a double of magnitude \<open>a\<close>: the largest \<open>e\<close>
  between \<open>-1022\<close> and \<open>1023\<close> with \<open>2 powi e \<le> a\<close>, and \<open>-1022\<close> for the subnormal
  magnitudes below \<open>2 powi (-1022)\<close>. The doubles of that exponent are the multiples
  of \<open>2 powi (e - 52)\<close>, and \<open>round_real x\<close> is the multiple nearest to \<open>x\<close>, ties to the
  even one. \<open>round_double\<close> adds the range: a rounded magnitude of \<open>2 ^ 1024\<close> or more
  is an infinity, and a negative value that rounds to zero is negative zero.
\<close>

fun exp_search :: "real \<Rightarrow> int \<Rightarrow> nat \<Rightarrow> int" where
  "exp_search a lo 0 = lo"
| "exp_search a lo (Suc n) =
     (if 2 powi (lo + int (Suc n)) \<le> a then lo + int (Suc n) else exp_search a lo n)"

definition exponent :: "real \<Rightarrow> int" where
  "exponent a = exp_search a (- 1022) 2045"

definition round_real :: "real \<Rightarrow> real" where
  "round_real x =
     (let u = 2 powi (exponent \<bar>x\<bar> - 52)
      in of_int (round_half_even (x / u)) * u)"

datatype py_float = Finite real | NegZero | PosInf | NegInf | NaN

definition round_double :: "real \<Rightarrow> py_float" where
  "round_double x =
     (let r = round_real x
      in if 2 ^ 1024 \<le> r then PosInf
         else if r \<le> - (2 ^ 1024) then NegInf
         else if r = 0 \<and> x < 0 then NegZero
         else Finite r)"

text \<open>\<open>Finite 0\<close> is the positive zero. \<open>sign_bit\<close> is the sign bit of a float that is not NaN.\<close>

definition is_zero :: "py_float \<Rightarrow> bool" where
  "is_zero f = (f = Finite 0 \<or> f = NegZero)"

definition is_inf :: "py_float \<Rightarrow> bool" where
  "is_inf f = (f = PosInf \<or> f = NegInf)"

definition sign_bit :: "py_float \<Rightarrow> bool" where
  "sign_bit f = (case f of Finite x \<Rightarrow> x < 0 | NegZero \<Rightarrow> True | NegInf \<Rightarrow> True
                 | PosInf \<Rightarrow> False | NaN \<Rightarrow> False)"

definition fval :: "py_float \<Rightarrow> real" where
  "fval f = (case f of Finite x \<Rightarrow> x | _ \<Rightarrow> 0)"

definition fzero :: "bool \<Rightarrow> py_float" where
  "fzero neg = (if neg then NegZero else Finite 0)"

definition finf :: "bool \<Rightarrow> py_float" where
  "finf neg = (if neg then NegInf else PosInf)"

definition float_neg :: "py_float \<Rightarrow> py_float" where
  "float_neg f = (case f of Finite x \<Rightarrow> (if x = 0 then NegZero else Finite (- x))
                  | NegZero \<Rightarrow> Finite 0 | PosInf \<Rightarrow> NegInf | NegInf \<Rightarrow> PosInf
                  | NaN \<Rightarrow> NaN)"

text \<open>Addition, multiplication and division of two floats, as IEEE-754 defines them.\<close>

definition float_add :: "py_float \<Rightarrow> py_float \<Rightarrow> py_float" where
  "float_add a b =
     (if a = NaN \<or> b = NaN then NaN
      else if is_inf a then (if is_inf b \<and> b \<noteq> a then NaN else a)
      else if is_inf b then b
      else if is_zero a \<and> is_zero b
      then (if a = NegZero \<and> b = NegZero then NegZero else Finite 0)
      else round_double (fval a + fval b))"

definition float_mul :: "py_float \<Rightarrow> py_float \<Rightarrow> py_float" where
  "float_mul a b =
     (if a = NaN \<or> b = NaN then NaN
      else if is_inf a \<or> is_inf b
      then (if is_zero a \<or> is_zero b then NaN else finf (sign_bit a \<noteq> sign_bit b))
      else if is_zero a \<or> is_zero b then fzero (sign_bit a \<noteq> sign_bit b)
      else round_double (fval a * fval b))"

text \<open>Python raises \<open>ZeroDivisionError\<close> for a zero divisor, whatever the dividend.\<close>

definition float_div :: "py_float \<Rightarrow> py_float \<Rightarrow> py_error + py_float" where
  "float_div a b =
     (if is_zero b then Inl ZeroDivisionError
      else Inr (if a = NaN \<or> b = NaN then NaN
                else if is_inf a
                then (if is_inf b then NaN else finf (sign_bit a \<noteq> sign_bit b))
                else if is_inf b \<or> is_zero a then fzero (sign_bit a \<noteq> sign_bit b)
                else round_double (fval a / fval b)))"

text \<open>\<open>float(n)\<close> for an \<open>int\<close>: the nearest double, \<open>OverflowError\<close> beyond the range.\<close>

definition float_of_int :: "int \<Rightarrow> py_error + py_float" where
  "float_of_int n =
     (case round_double (of_int n) of
        PosInf \<Rightarrow> Inl OverflowError
      | NegInf \<Rightarrow> Inl OverflowError
      | f \<Rightarrow> Inr f)"

text \<open>
  \<open>x ** n\<close> for a float \<open>x\<close> and an \<open>int\<close> \<open>n\<close>, in the order of CPython's \<open>float_pow\<close>:
  the exponent is converted to a float \<open>w\<close>; \<open>w = 0\<close> gives \<open>1.0\<close>; NaN gives NaN; an
  infinite base gives an infinity or a zero; a zero base raises \<open>ZeroDivisionError\<close> for
  \<open>w < 0\<close> and gives a zero otherwise; in every other case the power of the magnitude is
  rounded, an infinite result raises \<open>OverflowError\<close>, and the result is negated for a
  negative base and an odd \<open>w\<close>.
\<close>

definition float_pow :: "py_float \<Rightarrow> int \<Rightarrow> py_error + py_float" where
  "float_pow x n =
     (case float_of_int n of
        Inl e \<Rightarrow> Inl e
      | Inr fw \<Rightarrow>
          (let w = \<lfloor>fval fw\<rfloor>
           in if w = 0 then Inr (Finite 1)
              else if x = NaN then Inr NaN
              else if is_inf x
              then Inr (if 0 < w then (if odd w then x else PosInf)
                        else (if odd w then fzero (sign_bit x) else Finite 0))
              else if is_zero x
              then (if w < 0 then Inl ZeroDivisionError
                    else Inr (if odd w then x else Finite 0))
              else (let r = round_double (\<bar>fval x\<bar> powi w)
                    in if r = PosInf then Inl OverflowError
                       else Inr (if fval x < 0 \<and> odd w then float_neg r else r))))"

subsection \<open>Python numbers\<close>

text \<open>
  A number is an \<open>int\<close> or a \<open>float\<close>. \<open>+\<close> and \<open>*\<close> of two \<open>int\<close>s are exact; in every
  other case both operands are converted to floats, the left one first. \<open>/\<close> of two
  \<open>int\<close>s is the double nearest to the exact quotient. \<open>b ** n\<close> of two \<open>int\<close>s is exact
  for \<open>n \<ge> 0\<close> and the float power otherwise.
\<close>

datatype py_num = PyInt int | PyFloat py_float

definition to_float :: "py_num \<Rightarrow> py_error + py_float" where
  "to_float a = (case a of PyInt n \<Rightarrow> float_of_int n | PyFloat f \<Rightarrow> Inr f)"

definition py_add :: "py_num \<Rightarrow> py_num \<Rightarrow> py_error + py_num" where
  "py_add a b =
     (case (a, b) of
        (PyInt n, PyInt m) \<Rightarrow> Inr (PyInt (n + m))
      | _ \<Rightarrow>
          (case to_float a of
             Inl e \<Rightarrow> Inl e
           | Inr x \<Rightarrow>
               (case to_float b of
                  Inl e \<Rightarrow> Inl e
                | Inr y \<Rightarrow> Inr (PyFloat (float_add x y)))))"

definition py_mul :: "py_num \<Rightarrow> py_num \<Rightarrow> py_error + py_num" where
  "py_mul a b =
     (case (a, b) of
        (PyInt n, PyInt m) \<Rightarrow> Inr (PyInt (n * m))
      | _ \<Rightarrow>
          (case to_float a of
             Inl e \<Rightarrow> Inl e
           | Inr x \<Rightarrow>
               (case to_float b of
                  Inl e \<Rightarrow> Inl e
                | Inr y \<Rightarrow> Inr (PyFloat (float_mul x y)))))"

definition py_truediv :: "py_num \<Rightarrow> py_num \<Rightarrow> py_error + py_num" where
  "py_truediv a b =
     (case (a, b) of
        (PyInt n, PyInt m) \<Rightarrow>
          (if m = 0 then Inl ZeroDivisionError
           else if n = 0 then Inr (PyFloat (fzero (m < 0)))
           else (case round_double (of_int n / of_int m) of
                   PosInf \<Rightarrow> Inl OverflowError
                 | NegInf \<Rightarrow> Inl OverflowError
                 | q \<Rightarrow> Inr (PyFloat q)))
      | _ \<Rightarrow>
          (case to_float a of
             Inl e \<Rightarrow> Inl e
           | Inr x \<Rightarrow>
               (case to_float b of
                  Inl e \<Rightarrow> Inl e
                | Inr y \<Rightarrow>
                    (case float_div x y of
                       Inl e \<Rightarrow> Inl e
                     | Inr q \<Rightarrow> Inr (PyFloat q)))))"

definition py_pow :: "py_num \<Rightarrow> int \<Rightarrow> py_error + py_num" where
  "py_pow a n =
     (case a of
        PyInt b \<Rightarrow>
          (if 0 \<le> n then Inr (PyInt (b ^ nat n))
           else (case float_of_int b of
                   Inl e \<Rightarrow> Inl e
                 | Inr x \<Rightarrow>
                     (case float_pow x n of
                        Inl e \<Rightarrow> Inl e
                      | Inr p \<Rightarrow> Inr (PyFloat p))))
      | PyFloat x \<Rightarrow>
          (case float_pow x n of
             Inl e \<Rightarrow> Inl e
           | Inr p \<Rightarrow> Inr (PyFloat p)))"

text \<open>
  Comparison of two numbers is exact, also between an \<open>int\<close> and a \<open>float\<close>; the two
  zeros are equal, and every comparison with NaN is false. \<open>num_key\<close> places a number
  that is not NaN: below, among or above the finite values.
\<close>

definition num_key :: "py_num \<Rightarrow> (int \<times> real) option" where
  "num_key a =
     (case a of
        PyInt n \<Rightarrow> Some (0, of_int n)
      | PyFloat (Finite x) \<Rightarrow> Some (0, x)
      | PyFloat NegZero \<Rightarrow> Some (0, 0)
      | PyFloat PosInf \<Rightarrow> Some (1, 0)
      | PyFloat NegInf \<Rightarrow> Some (- 1, 0)
      | PyFloat NaN \<Rightarrow> None)"

definition py_lt :: "py_num \<Rightarrow> py_num \<Rightarrow> bool" where
  "py_lt a b =
     (case (num_key a, num_key b) of
        (Some (i, x), Some (j, y)) \<Rightarrow> i < j \<or> (i = j \<and> x < y)
      | _ \<Rightarrow> False)"

definition py_le :: "py_num \<Rightarrow> py_num \<Rightarrow> bool" where
  "py_le a b =
     (case (num_key a, num_key b) of
        (Some (i, x), Some (j, y)) \<Rightarrow> i < j \<or> (i = j \<and> x \<le> y)
      | _ \<Rightarrow> False)"

definition py_gt :: "py_num \<Rightarrow> py_num \<Rightarrow> bool" where
  "py_gt a b = py_lt b a"

definition py_ge :: "py_num \<Rightarrow> py_num \<Rightarrow> bool" where
  "py_ge a b = py_le b a"

text \<open>
  The format specification \<open>.2f\<close> applied to a float: sign, integer digits, a point and
  exactly two fractional digits, the exact value of the double rounded to the nearest
  hundredth, ties to even; \<open>inf\<close> and \<open>nan\<close> for the values that are not finite.
  \<open>,.0f\<close> rounds to an integer and separates groups of three digits by commas. Applied
  to an \<open>int\<close>, both convert it to a float first.
\<close>

definition format_2f :: "py_float \<Rightarrow> string" where
  "format_2f f =
     (case f of
        Finite x \<Rightarrow>
          (let c = nat (round_half_even (\<bar>x\<bar> * 100))
           in (if x < 0 then ''-'' else [])
              @ str_nat (c div 100) @ ''.''
              @ [digit_char (c mod 100 div 10), digit_char (c mod 10)])
      | NegZero \<Rightarrow> ''-0.00''
      | PosInf \<Rightarrow> ''inf''
      | NegInf \<Rightarrow> ''-inf''
      | NaN \<Rightarrow> ''nan'')"

definition py_format_2f :: "py_num \<Rightarrow> py_error + string" where
  "py_format_2f a = (case to_float a of Inl e \<Rightarrow> Inl e | Inr f \<Rightarrow> Inr (format_2f f))"

fun comma_rev :: "string \<Rightarrow> string" where
  "comma_rev (a # b # c # d # rest) = a # b # c # CHR '','' # comma_rev (d # rest)"
| "comma_rev s = s"

definition format_comma_0f :: "py_float \<Rightarrow> string" where
  "format_comma_0f f =
     (case f of
        Finite x \<Rightarrow>
          (if x < 0 then ''-'' else [])
          @ rev (comma_rev (rev (str_nat (nat (round_half_even \<bar>x\<bar>)))))
      | NegZero \<Rightarrow> ''-0''
      | PosInf \<Rightarrow> ''inf''
      | NegInf \<Rightarrow> ''-inf''
      | NaN \<Rightarrow> ''nan'')"

definition py_format_comma_0f :: "py_num \<Rightarrow> py_error + string" where
  "py_format_comma_0f a =
     (case to_float a of Inl e \<Rightarrow> Inl e | Inr f \<Rightarrow> Inr (format_comma_0f f))"

text \<open>
  \<open>round(x, 2)\<close> for a float: the double nearest to the exact value of \<open>x\<close> rounded to
  the nearest hundredth, with the sign of \<open>x\<close> when that is zero; a value that is not
  finite is returned as it is.
\<close>

definition py_round2 :: "py_float \<Rightarrow> py_float" where
  "py_round2 f =
     (case f of
        Finite x \<Rightarrow>
          (let c = round_half_even (x * 100)
           in if c = 0 then fzero (x < 0) else round_double (of_int c / 100))
      | _ \<Rightarrow> f)"

section \<open>utils.py\<close>

subsection \<open>Compound growth and the ROI scenarios\<close>

text \<open>
  \<open>calculate_compound_growth(principal, rate, years)\<close> is
  \<open>principal * (1 + rate) ** years\<close>: the sum first, then the power, then the product;
  an exception of one step is the exception of the call. \<open>years\<close> is an \<open>int\<close>.
\<close>

definition calculate_compound_growth :: "py_num \<Rightarrow> py_num \<Rightarrow> int \<Rightarrow> py_error + py_num" where
  "calculate_compound_growth princ rate years =
     (case py_add (PyInt 1) rate of
        Inl e \<Rightarrow> Inl e
      | Inr b \<Rightarrow>
          (case py_pow b years of
             Inl e \<Rightarrow> Inl e
           | Inr p \<Rightarrow> py_mul princ p))"

text \<open>
  The dictionary \<open>scenarios\<close> of \<open>generate_roi_scenarios\<close> has four fixed keys and is a
  record (key \<open>'years'\<close> is field \<open>sc_years\<close>). The three rates are float literals, each the
  double nearest to its decimal. The \<open>for\<close> loop over \<open>scenarios['years']\<close> is
  \<open>roi_loop\<close>: each round appends one value to each of the three lists; an exception of
  \<open>calculate_compound_growth\<close> leaves the loop.
\<close>

record roi_scenarios =
  sc_years :: "int list"
  sc_conservative :: "py_num list"
  sc_moderate :: "py_num list"
  sc_aggressive :: "py_num list"

definition conservative_rate :: py_num where
  "conservative_rate = PyFloat (round_double 0.05)"

definition moderate_rate :: py_num where
  "moderate_rate = PyFloat (round_double 0.085)"

definition aggressive_rate :: py_num where
  "aggressive_rate = PyFloat (round_double 0.135)"

fun roi_loop :: "py_num \<Rightarrow> int list \<Rightarrow> roi_scenarios \<Rightarrow> py_error + roi_scenarios" where
  "roi_loop amount [] scenarios = Inr scenarios"
| "roi_loop amount (year # rest) scenarios =
     (case calculate_compound_growth amount conservative_rate year of
        Inl e \<Rightarrow> Inl e
      | Inr c \<Rightarrow>
     (case calculate_compound_growth amount moderate_rate year of
        Inl e \<Rightarrow> Inl e
      | Inr m \<Rightarrow>
     (case calculate_compound_growth amount aggressive_rate year of
        Inl e \<Rightarrow> Inl e
      | Inr a \<Rightarrow>
          roi_loop amount rest
            (scenarios\<lparr> sc_conservative := sc_conservative scenarios @ [c],
                         sc_moderate := sc_moderate scenarios @ [m],
                         sc_aggressive := sc_aggressive scenarios @ [a] \<rparr>))))"

text \<open>\<open>list(range(1, years + 1))\<close> is \<open>[1..years]\<close>, empty when \<open>years < 1\<close>.\<close>

definition generate_roi_scenarios :: "py_num \<Rightarrow> int \<Rightarrow> py_error + roi_scenarios" where
  "generate_roi_scenarios amount years =
     (let scenarios = \<lparr> sc_years = [1..years], sc_conservative = [],
                        sc_moderate = [], sc_aggressive = [] \<rparr>
      in roi_loop amount (sc_years scenarios) scenarios)"

text \<open>
  \<open>create_detailed_roi_chart(amount, years, currency)\<close>: three traces over the lists of
  \<open>generate_roi_scenarios\<close>, a horizontal line at the amount with its annotation, and the
  titles. The records hold the data and the texts handed to the plotting library; colours
  and sizes are left out.
\<close>

record scatter =
  tr_name :: string
  tr_x :: "int list"
  tr_y :: "py_num list"
  tr_hovertemplate :: string

record roi_figure =
  fig_traces :: "scatter list"
  fig_hline :: py_num
  fig_annotation :: string
  fig_title :: string
  fig_yaxis_title :: string

definition create_detailed_roi_chart ::
  "py_num \<Rightarrow> int \<Rightarrow> string \<Rightarrow> py_error + roi_figure" where
  "create_detailed_roi_chart amount years currency =
     (case generate_roi_scenarios amount years of
        Inl e \<Rightarrow> Inl e
      | Inr scenarios \<Rightarrow>
          (let hover = ''Year %{x}<br>'' @ currency @ '' %{y:,.0f}<extra></extra>'';
               traces =
                 [\<lparr> tr_name = ''Conservative (5% avg)'', tr_x = sc_years scenarios,
                     tr_y = sc_conservative scenarios, tr_hovertemplate = hover \<rparr>,
                  \<lparr> tr_name = ''Moderate (8.5% avg)'', tr_x = sc_years scenarios,
                     tr_y = sc_moderate scenarios, tr_hovertemplate = hover \<rparr>,
                  \<lparr> tr_name = ''Aggressive (13.5% avg)'', tr_x = sc_years scenarios,
                     tr_y = sc_aggressive scenarios, tr_hovertemplate = hover \<rparr>]
           in case py_format_comma_0f amount of
                Inl e \<Rightarrow> Inl e
              | Inr shown \<Rightarrow>
                  Inr \<lparr> fig_traces = traces,
                        fig_hline = amount,
                        fig_annotation = ''Initial: '' @ currency @ '' '' @ shown,
                        fig_title = ''Investment Growth Projection ('' @ str_int years
                                    @ '' Years)'',
                        fig_yaxis_title = ''Portfolio Value ('' @ currency @ '')'' \<rparr>))"

subsection \<open>Input validation\<close>

text \<open>
  \<open>validate_investment_inputs(amount, preferences, geography)\<close>: four independent
  \<open>if\<close> statements, each appending one message. \<open>not preferences\<close> is Python
  truthiness of a sequence: it holds exactly for the empty one.
\<close>

definition validate_investment_inputs :: "py_num \<Rightarrow> 'a list \<Rightarrow> 'b list \<Rightarrow> string list" where
  "validate_investment_inputs amount preferences geography =
     (let errors = [];
          errors = (if py_lt amount (PyInt 1000)
                    then errors @ [''Investment amount should be at least 1,000'']
                    else errors);
          errors = (if py_gt amount (PyInt 10000000)
                    then errors @ [''Investment amount exceeds maximum limit of 10,000,000'']
                    else errors);
          errors = (if preferences = []
                    then errors @ [''Please select at least one investment preference'']
                    else errors);
          errors = (if geography = []
                    then errors @ [''Please select at least one geographic preference'']
                    else errors)
      in errors)"

subsection \<open>Sector allocation\<close>

text \<open>
  The dictionary returned by \<open>generate_sector_allocation()\<close> has four fixed keys; it is
  a record with one field per key (key \<open>'moderate'\<close> is field \<open>al_moderate\<close>).
\<close>

record sector_allocation =
  al_sectors :: "string list"
  al_conservative :: "int list"
  al_moderate :: "int list"
  al_aggressive :: "int list"

definition generate_sector_allocation :: sector_allocation where
  "generate_sector_allocation =
     \<lparr> al_sectors = [''Technology'', ''Healthcare'', ''Finance'', ''Real Estate'',
                      ''Consumer'', ''Energy'', ''Other''],
       al_conservative = [15, 20, 25, 15, 15, 5, 5],
       al_moderate = [25, 15, 20, 15, 15, 5, 5],
       al_aggressive = [35, 15, 15, 10, 15, 5, 5] \<rparr>"

text \<open>
  \<open>create_allocation_chart(risk_tolerance)\<close> builds a pie chart; the record holds the
  data handed to the plotting library: labels, values and title.
\<close>

record pie_chart =
  pie_labels :: "string list"
  pie_values :: "int list"
  pie_title :: string

definition create_allocation_chart :: "string \<Rightarrow> pie_chart" where
  "create_allocation_chart risk_tolerance =
     (let allocation = generate_sector_allocation;
          (vals, title) =
            (if risk_tolerance \<in> set [''Very Low'', ''Low'']
             then (al_conservative allocation, ''Conservative Portfolio Allocation'')
             else if risk_tolerance \<in> set [''High'', ''Very High'']
             then (al_aggressive allocation, ''Aggressive Portfolio Allocation'')
             else (al_moderate allocation, ''Moderate Portfolio Allocation''))
      in \<lparr> pie_labels = al_sectors allocation, pie_values = vals, pie_title = title \<rparr>)"

subsection \<open>Currency formatting\<close>

text \<open>
  The dictionary \<open>symbols\<close> of \<open>format_currency\<close>. Strings are byte strings (UTF-8); the
  three symbols outside ASCII are written byte by byte, as they stand in the source file.
\<close>

definition symbols :: "string \<rightharpoonup> string" where
  "symbols =
     [''USD'' \<mapsto> ''$'',
      ''EUR'' \<mapsto> [CHR 0xE2, CHR 0x80, CHR 0x9A, CHR 0xC3, CHR 0x87, CHR 0xC2, CHR 0xA8],
      ''GBP'' \<mapsto> [CHR 0xC2, CHR 0xAC, CHR 0xC2, CHR 0xA3],
      ''PKR'' \<mapsto> ''Rs.'',
      ''INR'' \<mapsto> [CHR 0xE2, CHR 0x80, CHR 0x9A, CHR 0xC3, CHR 0x87, CHR 0xCF, CHR 0x80],
      ''AED'' \<mapsto> ''AED '']"

text \<open>
  \<open>symbols.get(currency, currency + ' ')\<close> never raises: a missing key gives the default.
  The divisions \<open>amount/1_000_000\<close> and \<open>amount/1_000\<close> and the format of an \<open>int\<close>
  can raise \<open>OverflowError\<close>.
\<close>

definition format_currency :: "py_num \<Rightarrow> string \<Rightarrow> py_error + string" where
  "format_currency amount currency =
     (let symbol = (case symbols currency of Some s \<Rightarrow> s | None \<Rightarrow> currency @ '' '')
      in if py_ge amount (PyInt 1000000)
         then (case py_truediv amount (PyInt 1000000) of
                 Inl e \<Rightarrow> Inl e
               | Inr q \<Rightarrow>
                   (case py_format_2f q of
                      Inl e \<Rightarrow> Inl e
                    | Inr body \<Rightarrow> Inr (symbol @ body @ ''M'')))
         else if py_ge amount (PyInt 1000)
         then (case py_truediv amount (PyInt 1000) of
                 Inl e \<Rightarrow> Inl e
               | Inr q \<Rightarrow>
                   (case py_format_2f q of
                      Inl e \<Rightarrow> Inl e
                    | Inr body \<Rightarrow> Inr (symbol @ body @ ''K'')))
         else (case py_format_2f amount of
                 Inl e \<Rightarrow> Inl e
               | Inr body \<Rightarrow> Inr (symbol @ body)))"

text \<open>
  The words \<open>to 2 decimal places\<close> of the specification: \<open>s\<close> is a decimal numeral with
  a sign, integer digits, a point and two fractional digits, and the hundredths it
  counts are within one half of \<open>q * 100\<close>.
\<close>

definition two_decimal_places :: "real \<Rightarrow> string \<Rightarrow> bool" where
  "two_decimal_places q s =
     (\<exists>c \<in> set [nat \<lfloor>\<bar>q\<bar> * 100\<rfloor>, nat \<lfloor>\<bar>q\<bar> * 100\<rfloor> + 1].
        \<bar>real c - \<bar>q\<bar> * 100\<bar> \<le> 1 / 2
        \<and> s = (if q < 0 then ''-'' else [])
              @ str_nat (c div 100) @ ''.''
              @ [digit_char (c mod 100 div 10), digit_char (c mod 10)])"

subsection \<open>Monthly performance data\<close>

text \<open>
  \<open>generate_monthly_performance(months)\<close> reads two sources outside the program: the
  clock (\<open>datetime.now()\<close>, once per month) and the random generator
  (\<open>np.random.normal(loc, scale)\<close>, once per row). Both are fields of the environment
  the function is run in: \<open>now_ordinal env i\<close> is the day number of the \<open>i\<close>-th clock
  reading (day 1 is 1 January of the year 1, as \<open>toordinal()\<close> counts), and
  \<open>normal env k loc scale\<close> is the \<open>k\<close>-th draw, a finite double. The rendering
  \<open>strftime('%b %Y')\<close> of a date depends on the locale of the process and is the third
  field: \<open>month_label env d\<close> renders the date with day number \<open>d\<close>.

  \<open>timedelta(days=n)\<close> raises \<open>OverflowError\<close> for a magnitude above 999999999, and
  the subtraction raises \<open>OverflowError\<close> when the result is not a date between the
  years 1 and 9999 (day numbers 1 to 3652059).
\<close>

record perf_row =
  Month :: string
  Category :: string
  Return :: py_float

record py_env =
  now_ordinal :: "nat \<Rightarrow> int"
  month_label :: "int \<Rightarrow> string"
  normal :: "nat \<Rightarrow> real \<Rightarrow> real \<Rightarrow> real"

definition timedelta_days :: "int \<Rightarrow> py_error + int" where
  "timedelta_days n = (if \<bar>n\<bar> > 999999999 then Inl OverflowError else Inr n)"

definition datetime_sub :: "int \<Rightarrow> int \<Rightarrow> py_error + int" where
  "datetime_sub ordinal days =
     (if ordinal - days < 1 \<or> ordinal - days > 3652059 then Inl OverflowError
      else Inr (ordinal - days))"

definition categories :: "string list" where
  "categories = [''Stocks'', ''Bonds'', ''Real Estate'', ''Commodities'']"

definition base_return :: "py_env \<Rightarrow> nat \<Rightarrow> string \<Rightarrow> py_float" where
  "base_return env k category =
     Finite (if category = ''Stocks'' then normal env k 1.2 2.5
             else if category = ''Bonds'' then normal env k 0.5 0.8
             else if category = ''Real Estate'' then normal env k 0.8 1.2
             else normal env k 0.3 3.0)"

fun category_loop ::
  "py_env \<Rightarrow> string \<Rightarrow> string list \<Rightarrow> nat \<times> perf_row list \<Rightarrow> nat \<times> perf_row list" where
  "category_loop env month [] (k, data) = (k, data)"
| "category_loop env month (category # rest) (k, data) =
     category_loop env month rest
       (Suc k, data @ [\<lparr> Month = month, Category = category,
                          Return = py_round2 (base_return env k category) \<rparr>])"

definition month_of :: "py_env \<Rightarrow> int \<Rightarrow> nat \<Rightarrow> py_error + string" where
  "month_of env months i =
     (case timedelta_days (30 * (months - int i)) of
        Inl e \<Rightarrow> Inl e
      | Inr days \<Rightarrow>
          (case datetime_sub (now_ordinal env i) days of
             Inl e \<Rightarrow> Inl e
           | Inr d \<Rightarrow> Inr (month_label env d)))"

fun month_loop ::
  "py_env \<Rightarrow> int \<Rightarrow> nat list \<Rightarrow> nat \<times> perf_row list \<Rightarrow> py_error + nat \<times> perf_row list" where
  "month_loop env months [] st = Inr st"
| "month_loop env months (i # rest) st =
     (case month_of env months i of
        Inl e \<Rightarrow> Inl e
      | Inr month \<Rightarrow> month_loop env months rest (category_loop env month categories st))"

text \<open>\<open>range(months)\<close> is \<open>[0..<nat months]\<close>, empty for \<open>months \<le> 0\<close>.\<close>

definition generate_monthly_performance :: "py_env \<Rightarrow> int \<Rightarrow> py_error + perf_row list" where
  "generate_monthly_performance env months =
     (case month_loop env months [0..<nat months] (0, []) of
        Inl e \<Rightarrow> Inl e
      | Inr st \<Rightarrow> Inr (snd st))"

text \<open>
  Two environments with the same clock (4 November 2026, day number 739924) and
  different draws.
\<close>

definition env_mean :: py_env where
  "env_mean = \<lparr> now_ordinal = (\<lambda>i. 739924), month_label = (\<lambda>d. ''Oct 2026''),
                normal = (\<lambda>k loc scale. loc) \<rparr>"

definition env_above :: py_env where
  "env_above = \<lparr> now_ordinal = (\<lambda>i. 739924), month_label = (\<lambda>d. ''Oct 2026''),
                 normal = (\<lambda>k loc scale. loc + scale) \<rparr>"

section \<open>The three application files\<close>

text \<open>
  \<open>investment_advisor_app.py\<close>, \<open>investment_advisor_final.py\<close> and
  \<open>investment_advisor_app_claude.py\<close> define functions of the same names; the
  definitions below carry the prefixes \<open>app_\<close>, \<open>final_\<close> and \<open>claude_\<close>.
\<close>

subsection \<open>Further Python primitives\<close>

text \<open>
  \<open>str.lower()\<close> on ASCII letters (the case mapping of other characters is outside the
  model), \<open>sub in s\<close> on strings, \<open>str.strip()\<close> of ASCII white space,
  \<open>sep.join(xs)\<close>, and list repetition \<open>xs * n\<close>.
\<close>

definition lower_char :: "char \<Rightarrow> char" where
  "lower_char c =
     (case map_of (zip ''ABCDEFGHIJKLMNOPQRSTUVWXYZ'' ''abcdefghijklmnopqrstuvwxyz'') c of
        Some l \<Rightarrow> l
      | None \<Rightarrow> c)"

definition lower :: "string \<Rightarrow> string" where
  "lower s = map lower_char s"

definition py_in :: "string \<Rightarrow> string \<Rightarrow> bool" where
  "py_in sub s = sublist sub s"

definition is_space :: "char \<Rightarrow> bool" where
  "is_space c = (c \<in> set [CHR 0x09, CHR 0x0A, CHR 0x0B, CHR 0x0C, CHR 0x0D,
                            CHR 0x1C, CHR 0x1D, CHR 0x1E, CHR 0x1F, CHR 0x20])"

definition strip :: "string \<Rightarrow> string" where
  "strip s = rev (dropWhile is_space (rev (dropWhile is_space s)))"

fun py_join :: "string \<Rightarrow> string list \<Rightarrow> string" where
  "py_join sep [] = []"
| "py_join sep [x] = x"
| "py_join sep (x # y # rest) = x @ sep @ py_join sep (y # rest)"

definition py_list_mul :: "'a list \<Rightarrow> nat \<Rightarrow> 'a list" where
  "py_list_mul xs n = concat (replicate n xs)"

text \<open>Truthiness of a value that is \<open>None\<close> or a string.\<close>

definition truthy :: "string option \<Rightarrow> bool" where
  "truthy r = (case r of None \<Rightarrow> False | Some s \<Rightarrow> s \<noteq> [])"

text \<open>
  \<open>datetime.now().strftime('%Y%m%d_%H%M%S')\<close>: the clock reading is an argument; the
  year is written in full (four digits from the year 1000 on), the other fields with
  two digits.
\<close>

record datetime =
  dt_year :: nat
  dt_month :: nat
  dt_day :: nat
  dt_hour :: nat
  dt_minute :: nat
  dt_second :: nat

definition pad2 :: "nat \<Rightarrow> string" where
  "pad2 n = (if n < 10 then ''0'' @ str_nat n else str_nat n)"

definition strftime_stamp :: "datetime \<Rightarrow> string" where
  "strftime_stamp t = str_nat (dt_year t) @ pad2 (dt_month t) @ pad2 (dt_day t) @ ''_''
                      @ pad2 (dt_hour t) @ pad2 (dt_minute t) @ pad2 (dt_second t)"

text \<open>
  The process environment is a map from names to values; \<open>os.getenv(name, default)\<close>
  reads it. \<open>st.text_input(label, value=default)\<close> returns what the user typed, or the
  default when the field was left alone.
\<close>

type_synonym environ = "string \<rightharpoonup> string"

definition getenv :: "environ \<Rightarrow> string \<Rightarrow> string \<Rightarrow> string" where
  "getenv environ name dflt = (case environ name of Some v \<Rightarrow> v | None \<Rightarrow> dflt)"

definition text_input :: "string \<Rightarrow> string option \<Rightarrow> string" where
  "text_input dflt typed = (case typed of Some v \<Rightarrow> v | None \<Rightarrow> dflt)"

text \<open>Characters outside ASCII in the messages, as their UTF-8 bytes.\<close>

definition warning_sign :: string where
  "warning_sign = [CHR 0xE2, CHR 0x9A, CHR 0xA0, CHR 0xEF, CHR 0xB8, CHR 0x8F]"

definition cross_mark :: string where
  "cross_mark = [CHR 0xE2, CHR 0x9D, CHR 0x8C]"

definition light_bulb :: string where
  "light_bulb = [CHR 0xF0, CHR 0x9F, CHR 0x92, CHR 0xA1]"

definition check_mark :: string where
  "check_mark = [CHR 0xE2, CHR 0x9C, CHR 0x85]"

definition inbox_tray :: string where
  "inbox_tray = [CHR 0xF0, CHR 0x9F, CHR 0x93, CHR 0xA5]"

definition bar_chart_sign :: string where
  "bar_chart_sign = [CHR 0xF0, CHR 0x9F, CHR 0x93, CHR 0x8A]"

definition robot_face :: string where
  "robot_face = [CHR 0xF0, CHR 0x9F, CHR 0xA4, CHR 0x96]"

definition clipboard :: string where
  "clipboard = [CHR 0xF0, CHR 0x9F, CHR 0x93, CHR 0x8B]"

definition dquote :: string where
  "dquote = [CHR 0x22]"

subsection \<open>Data handed to the orchestration library\<close>

text \<open>
  The request dictionary (key \<open>'amount'\<close> is field \<open>d_amount\<close>), the agent and task
  configuration objects, and the crew that is started. The orchestration library, the
  language model and the search service are outside the program: a run of them is a
  function \<open>crew\<close> from the request to its outcome, either an exception with the
  message \<open>str(e)\<close> or the returned value (\<open>None\<close> or the text of the result).
\<close>

record investment_data =
  d_amount :: int
  d_currency :: string
  d_geography :: string
  d_preferences :: string
  d_risk_tolerance :: string
  d_time_horizon :: int

record agent =
  ag_role :: string
  ag_goal :: string
  ag_backstory :: string
  ag_verbose :: bool
  ag_allow_delegation :: bool

record task =
  task_description :: string
  task_expected_output :: string
  task_agent :: agent

record crew_request =
  req_agents :: "agent list"
  req_tasks :: "task list"
  req_verbose :: bool
  req_model :: string
  req_api_key :: string
  req_search_key :: string

datatype crew_outcome = Raised string | Returned "string option"

definition crew_raising :: "string \<Rightarrow> crew_request \<Rightarrow> crew_outcome" where
  "crew_raising e request = Raised e"

definition crew_returning :: "string \<Rightarrow> crew_request \<Rightarrow> crew_outcome" where
  "crew_returning r request = Returned (Some r)"

text \<open>
  What a run of the page does, in order: the Streamlit calls that show something, and
  the start of the crew (\<open>Kickoff\<close>). The arguments of \<open>StDownloadButton\<close> are label,
  data, file name and mime type.
\<close>

datatype ui_event =
    StError string
  | StWarning string
  | StInfo string
  | StSuccess string
  | StBalloons
  | StSpinner string
  | StMarkdown string
  | StDownloadButton string string string string
  | Kickoff crew_request

text \<open>
  \<open>st.session_state\<close>: the flag (\<open>done\<close>, \<open>analysis_done\<close>, \<open>analysis_complete\<close>) and the
  stored report (\<open>report\<close>, \<open>results\<close>). A new session has neither key, and every run
  starts by setting the missing ones to \<open>False\<close> and \<open>None\<close>.
\<close>

record session_state =
  ss_done :: bool
  ss_report :: "string option"

definition init_session :: "session_state option \<Rightarrow> session_state" where
  "init_session session =
     (case session of
        None \<Rightarrow> \<lparr> ss_done = False, ss_report = None \<rparr>
      | Some s \<Rightarrow> s)"

text \<open>The widget values of one run of the page.\<close>

record ui_inputs =
  in_api_key :: "string option"
  in_search_key :: "string option"
  in_model_name :: string
  in_amount :: int
  in_currency :: string
  in_geography :: "string list"
  in_preferences :: "string list"
  in_risk_tolerance :: string
  in_time_horizon :: int
  in_button :: bool

definition investment_data_of :: "ui_inputs \<Rightarrow> investment_data" where
  "investment_data_of inp =
     \<lparr> d_amount = in_amount inp,
       d_currency = in_currency inp,
       d_geography = py_join '', '' (in_geography inp),
       d_preferences = py_join '', '' (in_preferences inp),
       d_risk_tolerance = in_risk_tolerance inp,
       d_time_horizon = in_time_horizon inp \<rparr>"

subsection \<open>Chart data of the application files\<close>

text \<open>
  \<open>pd.DataFrame(data)\<close> for a dictionary of three columns raises \<open>ValueError\<close> when
  the columns differ in length, and has one row per index otherwise. The returns are
  float literals.
\<close>

definition DataFrame ::
  "string list \<Rightarrow> py_float list \<Rightarrow> string list \<Rightarrow> py_error + perf_row list" where
  "DataFrame month_col return_col category_col =
     (if length month_col = length return_col \<and> length return_col = length category_col
      then Inr (map (\<lambda>(m, r, c). \<lparr> Month = m, Category = c, Return = r \<rparr>)
                  (zip month_col (zip return_col category_col)))
      else Inl ValueError)"

record bar_chart =
  bar_rows :: "perf_row list"
  bar_title :: string

definition app_create_trend_chart :: "py_error + bar_chart" where
  "app_create_trend_chart =
     (let months = [''Month 1'', ''Month 2'', ''Month 3'', ''Month 4'', ''Month 5'', ''Month 6'']
      in case DataFrame (py_list_mul months 4)
                (map round_double
                  [2.3, 1.8, 3.1, -0.5, 2.8, 4.2, 1.5, 1.2, 1.8, 1.3, 1.6, 2.1,
                   3.1, 2.5, 4.2, -1.2, 3.5, 5.1, 0.8, 0.7, 0.9, 0.8, 0.8, 1.0])
                (py_list_mul [''Equities''] 6 @ py_list_mul [''Real Estate''] 6
                 @ py_list_mul [''International''] 6 @ py_list_mul [''Fixed Income''] 6) of
           Inl e \<Rightarrow> Inl e
         | Inr df \<Rightarrow> Inr \<lparr> bar_rows = df, bar_title = ''Recent Market Performance'' \<rparr>)"

definition final_create_trend_chart :: "py_error + bar_chart" where
  "final_create_trend_chart =
     (let months = [''Month 1'', ''Month 2'', ''Month 3'', ''Month 4'', ''Month 5'', ''Month 6'']
      in case DataFrame (py_list_mul months 4)
                (map round_double
                  [2.3, 1.8, 3.1, -0.5, 2.8, 4.2,
                   1.5, 1.2, 1.8, 1.3, 1.6, 2.1,
                   3.1, 2.5, 4.2, -1.2, 3.5, 5.1,
                   0.8, 0.7, 0.9, 0.8, 0.8, 1.0])
                (py_list_mul [''Equities''] 6 @ py_list_mul [''Real Estate''] 6
                 @ py_list_mul [''International''] 6 @ py_list_mul [''Fixed Income''] 6) of
           Inl e \<Rightarrow> Inl e
         | Inr df \<Rightarrow>
             Inr \<lparr> bar_rows = df, bar_title = ''Recent Market Performance (6 Months)'' \<rparr>)"

definition claude_create_six_month_performance :: "py_error + bar_chart" where
  "claude_create_six_month_performance =
     (let months = [''Month 1'', ''Month 2'', ''Month 3'', ''Month 4'', ''Month 5'', ''Month 6'']
      in case DataFrame (py_list_mul months 4)
                (map round_double
                  [2.3, 1.8, 3.1, -0.5, 2.8, 4.2,
                   1.5, 1.2, 1.8, 1.3, 1.6, 2.1,
                   3.1, 2.5, 4.2, -1.2, 3.5, 5.1,
                   0.8, 0.7, 0.9, 0.8, 0.8, 1.0])
                (py_list_mul [''Stock Market''] 6 @ py_list_mul [''Real Estate''] 6
                 @ py_list_mul [''International''] 6 @ py_list_mul [''Bonds''] 6) of
           Inl e \<Rightarrow> Inl e
         | Inr df \<Rightarrow>
             Inr \<lparr> bar_rows = df,
                   bar_title = ''Last 6 Months Performance by Investment Category'' \<rparr>)"

text \<open>
  The projection charts. \<open>[b**i for i in years_list]\<close> is \<open>pow_list b years_list\<close>: the
  powers in the order of the list, up to the first one that raises. A trace is its name
  and its values.
\<close>

fun pow_list :: "py_float \<Rightarrow> int list \<Rightarrow> py_error + py_float list" where
  "pow_list b [] = Inr []"
| "pow_list b (i # rest) =
     (case float_pow b i of
        Inl e \<Rightarrow> Inl e
      | Inr p \<Rightarrow>
          (case pow_list b rest of
             Inl e \<Rightarrow> Inl e
           | Inr ps \<Rightarrow> Inr (p # ps)))"

record line_chart =
  line_x :: "int list"
  line_traces :: "(string \<times> py_float list) list"
  line_title :: string

definition app_create_projection_chart :: "int \<Rightarrow> py_error + line_chart" where
  "app_create_projection_chart years =
     (let years_list = [1..years]
      in case pow_list (round_double 1.05) years_list of
           Inl e \<Rightarrow> Inl e
         | Inr conservative \<Rightarrow>
        (case pow_list (round_double 1.085) years_list of
           Inl e \<Rightarrow> Inl e
         | Inr balanced \<Rightarrow>
        (case pow_list (round_double 1.135) years_list of
           Inl e \<Rightarrow> Inl e
         | Inr growth \<Rightarrow>
             Inr \<lparr> line_x = years_list,
                   line_traces = [(''Conservative (5%)'', conservative),
                                  (''Balanced (8.5%)'', balanced),
                                  (''Growth (13.5%)'', growth)],
                   line_title = ''Investment Growth Scenarios'' \<rparr>)))"

definition final_create_projection_chart :: "int \<Rightarrow> py_error + line_chart" where
  "final_create_projection_chart years =
     (let years_list = [1..years]
      in case pow_list (round_double 1.05) years_list of
           Inl e \<Rightarrow> Inl e
         | Inr conservative \<Rightarrow>
        (case pow_list (round_double 1.085) years_list of
           Inl e \<Rightarrow> Inl e
         | Inr balanced \<Rightarrow>
        (case pow_list (round_double 1.135) years_list of
           Inl e \<Rightarrow> Inl e
         | Inr growth \<Rightarrow>
             Inr \<lparr> line_x = years_list,
                   line_traces = [(''Conservative (5% avg)'', conservative),
                                  (''Balanced (8.5% avg)'', balanced),
                                  (''Growth (13.5% avg)'', growth)],
                   line_title = ''Investment Growth Scenarios'' \<rparr>)))"

definition claude_create_roi_visualization :: "int \<Rightarrow> py_error + line_chart" where
  "claude_create_roi_visualization years =
     (let years_list = [1..years]
      in case pow_list (round_double 1.08) years_list of
           Inl e \<Rightarrow> Inl e
         | Inr stock_market_roi \<Rightarrow>
        (case pow_list (round_double 1.06) years_list of
           Inl e \<Rightarrow> Inl e
         | Inr real_estate_roi \<Rightarrow>
        (case pow_list (round_double 1.10) years_list of
           Inl e \<Rightarrow> Inl e
         | Inr international_roi \<Rightarrow>
        (case pow_list (round_double 1.04) years_list of
           Inl e \<Rightarrow> Inl e
         | Inr bonds_roi \<Rightarrow>
             Inr \<lparr> line_x = years_list,
                   line_traces = [(''Stock Market (8% avg)'', stock_market_roi),
                                  (''Real Estate (6% avg)'', real_estate_roi),
                                  (''International (10% avg)'', international_roi),
                                  (''Bonds (4% avg)'', bonds_roi)],
                   line_title = ''Projected ROI Growth (Multiplier) - Next 10 Years'' \<rparr>))))"

subsection \<open>investment_advisor_app.py\<close>

text \<open>
  \<open>initialize_system\<close> writes both keys into the process environment before it builds
  the tool, the model and the four agents; the model and the tool are parts of the
  request below.
\<close>

definition app_initialize_system ::
  "string \<Rightarrow> string \<Rightarrow> environ \<Rightarrow> (agent \<times> agent \<times> agent \<times> agent) \<times> environ" where
  "app_initialize_system api_key search_key environ =
     (let environ = environ(''OPENAI_API_KEY'' \<mapsto> api_key);
          environ = environ(''SERPER_API_KEY'' \<mapsto> search_key);
          research_agent = \<lparr> ag_role = ''Investment Research Specialist'',
            ag_goal = ''Find and analyze specific investment opportunities with real data.'',
            ag_backstory = ''Experienced analyst providing concrete recommendations with specific names and current data.'',
            ag_verbose = True, ag_allow_delegation = False \<rparr>;
          analysis_agent = \<lparr> ag_role = ''Financial Analyst'',
            ag_goal = ''Create detailed projections with specific numbers.'',
            ag_backstory = ''Quantitative expert providing concrete figures and calculations.'',
            ag_verbose = True, ag_allow_delegation = False \<rparr>;
          risk_agent = \<lparr> ag_role = ''Risk Specialist'',
            ag_goal = ''Provide specific risk ratings and mitigation strategies.'',
            ag_backstory = ''Risk manager with clear assessments and actionable advice.'',
            ag_verbose = True, ag_allow_delegation = False \<rparr>;
          advisor_agent = \<lparr> ag_role = ''Investment Advisor'',
            ag_goal = ''Create clear, actionable recommendations.'',
            ag_backstory = ''Senior advisor providing specific advice with percentages and action steps.'',
            ag_verbose = True, ag_allow_delegation = False \<rparr>
      in ((research_agent, analysis_agent, risk_agent, advisor_agent), environ))"

text \<open>The f-strings of \<open>create_tasks\<close>; an \<open>int\<close> field is formatted by \<open>str\<close>.\<close>

definition app_create_tasks ::
  "agent \<times> agent \<times> agent \<times> agent \<Rightarrow> investment_data \<Rightarrow> task list" where
  "app_create_tasks agents data =
     (let (research_agent, analysis_agent, risk_agent, advisor_agent) = agents;
          task1 = \<lparr> task_description =
              ''Research 3-5 specific investments for '' @ str_int (d_amount data) @ '' ''
                @ d_currency data @ ''. ''
              @ ''Focus: '' @ d_preferences data @ ''. Geography: '' @ d_geography data @ ''. ''
              @ ''Risk: '' @ d_risk_tolerance data @ ''. ''
              @ ''Provide: names, tickers, prices, 6-month performance.'',
            task_expected_output =
              ''List with investment names, tickers, prices, and performance data.'',
            task_agent = research_agent \<rparr>;
          task2 = \<lparr> task_description =
              ''Create '' @ str_int (d_time_horizon data) @ ''-year projections for ''
                @ str_int (d_amount data) @ '' '' @ d_currency data @ ''. ''
              @ ''Calculate conservative, expected, and optimistic scenarios with specific numbers.'',
            task_expected_output =
              ''Year-by-year projections with three scenarios and final values.'',
            task_agent = analysis_agent \<rparr>;
          task3 = \<lparr> task_description =
              ''Assess risks for '' @ d_risk_tolerance data @ '' risk tolerance. ''
              @ ''Provide risk ratings and specific mitigation strategies.'',
            task_expected_output =
              ''Risk ratings and concrete mitigation steps for each investment.'',
            task_agent = risk_agent \<rparr>;
          task4 = \<lparr> task_description =
              ''Create final recommendations with: ''
              @ ''1) Ranked investments, ''
              @ ''2) Allocation percentages (totaling 100%), ''
              @ ''3) Expected returns, ''
              @ ''4) Action steps.'',
            task_expected_output =
              ''Numbered recommendations with allocations, returns, and action steps.'',
            task_agent = advisor_agent \<rparr>
      in [task1, task2, task3, task4])"

text \<open>
  \<open>run_analysis\<close>: the \<open>try\<close> body up to \<open>crew.kickoff()\<close> is the start of the crew, the
  rest of the body checks the returned text, and the \<open>except Exception\<close> clause takes
  every outcome \<open>Raised e\<close>. The result is what was shown, the returned value and the
  environment.
\<close>

definition app_run_analysis ::
  "(crew_request \<Rightarrow> crew_outcome) \<Rightarrow> investment_data \<Rightarrow> string \<Rightarrow> string \<Rightarrow> environ
     \<Rightarrow> ui_event list \<times> string option \<times> environ" where
  "app_run_analysis crew data api_key search_key environ =
     (let (agents, environ) = app_initialize_system api_key search_key environ;
          (research_agent, analysis_agent, risk_agent, advisor_agent) = agents;
          tasks = app_create_tasks agents data;
          request = \<lparr> req_agents = [research_agent, analysis_agent, risk_agent, advisor_agent],
                      req_tasks = tasks, req_verbose = True, req_model = ''gpt-3.5-turbo'',
                      req_api_key = api_key, req_search_key = search_key \<rparr>
      in case crew request of
           Returned None \<Rightarrow> ([Kickoff request], None, environ)
         | Returned (Some result_str) \<Rightarrow>
             if length (strip result_str) < 200
             then ([Kickoff request,
                    StError (cross_mark
                      @ '' Insufficient data. Try again with different parameters.'')],
                   None, environ)
             else if py_in ''absence of'' (lower result_str)
                     \<or> py_in ''unable to provide'' (lower result_str)
             then ([Kickoff request,
                    StWarning (warning_sign @ '' Could not find sufficient market data.''),
                    StInfo (light_bulb
                      @ '' Try: simpler investment types, broader regions, or wait a moment.'')],
                   None, environ)
             else ([Kickoff request], Some result_str, environ)
         | Raised e \<Rightarrow>
             (let error_msg = lower e
              in if py_in ''auth'' error_msg \<or> py_in ''key'' error_msg
                 then ([Kickoff request,
                        StError (warning_sign @ '' Authentication Error: Check your API keys.'')],
                       None, environ)
                 else if py_in ''rate'' error_msg
                 then ([Kickoff request,
                        StError (warning_sign @ '' Rate Limit: Wait 1 minute and try again.'')],
                       None, environ)
                 else ([Kickoff request, StError (warning_sign @ '' Error: '' @ e)],
                       None, environ)))"

text \<open>
  \<open>main\<close> in three blocks: the sidebar with the two credential fields, the handler of
  the button, and the display of the stored report. Static markup and the charts of the
  page are left out.
\<close>

definition app_sidebar :: "environ \<Rightarrow> ui_inputs \<Rightarrow> ui_event list \<times> string \<times> string" where
  "app_sidebar environ inp =
     (let env_key = getenv environ ''OPENAI_API_KEY'' [];
          env_search = getenv environ ''SERPER_API_KEY'' [];
          shown = (if env_key \<noteq> [] \<and> env_search \<noteq> []
                   then [StSuccess (check_mark @ '' Active'')] else []);
          api_key = text_input env_key (in_api_key inp);
          search_key = text_input env_search (in_search_key inp)
      in (shown, api_key, search_key))"

definition app_generate_report ::
  "(crew_request \<Rightarrow> crew_outcome) \<Rightarrow> ui_inputs \<Rightarrow> string \<Rightarrow> string
     \<Rightarrow> session_state \<times> environ \<Rightarrow> ui_event list \<times> session_state \<times> environ" where
  "app_generate_report crew inp api_key search_key st =
     (let (session, environ) = st
      in if api_key = [] \<or> search_key = []
         then ([StError (warning_sign @ '' Provide credentials in sidebar.'')], session, environ)
         else if in_preferences inp = [] \<or> in_geography inp = []
         then ([StError (warning_sign @ '' Select at least one type and geography.'')],
               session, environ)
         else
           (let data = investment_data_of inp;
                (shown, result, environ) =
                  app_run_analysis crew data api_key search_key environ;
                spinner = StSpinner (bar_chart_sign @ '' Analyzing... (2-3 minutes)'')
            in if truthy result
               then (spinner # shown @ [StSuccess (check_mark @ '' Complete!''), StBalloons],
                     session\<lparr> ss_report := result, ss_done := True \<rparr>, environ)
               else (spinner # shown, session, environ)))"

definition app_show_report :: "datetime \<Rightarrow> session_state \<Rightarrow> ui_event list" where
  "app_show_report now session =
     (case ss_report session of
        None \<Rightarrow> []
      | Some report \<Rightarrow>
          if ss_done session \<and> report \<noteq> []
          then [StMarkdown ''---'',
                StMarkdown (''<div class='' @ dquote @ ''section-header'' @ dquote
                            @ ''>Your Report</div>''),
                StMarkdown report,
                StDownloadButton (inbox_tray @ '' Download Report'') report
                  (''report_'' @ strftime_stamp now @ ''.md'') ''text/markdown'']
          else [])"

definition app_main ::
  "(crew_request \<Rightarrow> crew_outcome) \<Rightarrow> datetime \<Rightarrow> ui_inputs
     \<Rightarrow> session_state option \<times> environ \<Rightarrow> ui_event list \<times> session_state \<times> environ" where
  "app_main crew now inp st =
     (let (session, environ) = st;
          (shown0, api_key, search_key) = app_sidebar environ inp;
          session = init_session session;
          (shown1, session, environ) =
            (if in_button inp
             then app_generate_report crew inp api_key search_key (session, environ)
             else ([], session, environ))
      in (shown0 @ shown1 @ app_show_report now session, session, environ))"

subsection \<open>investment_advisor_final.py\<close>

definition final_initialize_system ::
  "string \<Rightarrow> string \<Rightarrow> environ \<Rightarrow> (agent \<times> agent \<times> agent \<times> agent) \<times> environ" where
  "final_initialize_system api_key search_key environ =
     (let environ = environ(''OPENAI_API_KEY'' \<mapsto> api_key);
          environ = environ(''SERPER_API_KEY'' \<mapsto> search_key);
          research_agent = \<lparr> ag_role = ''Investment Research Specialist'',
            ag_goal = ''Research and identify promising investment opportunities based on user criteria.'',
            ag_backstory = ''Experienced analyst specializing in comprehensive market research and opportunity identification.'',
            ag_verbose = False, ag_allow_delegation = True \<rparr>;
          analysis_agent = \<lparr> ag_role = ''Financial Analyst'',
            ag_goal = ''Analyze investment data and create accurate financial projections.'',
            ag_backstory = ''Quantitative expert with strong background in financial modeling and forecasting.'',
            ag_verbose = False, ag_allow_delegation = True \<rparr>;
          risk_agent = \<lparr> ag_role = ''Risk Assessment Specialist'',
            ag_goal = ''Evaluate potential risks and provide comprehensive risk analysis.'',
            ag_backstory = ''Risk management professional focused on protecting capital and optimizing risk-reward ratios.'',
            ag_verbose = False, ag_allow_delegation = True \<rparr>;
          advisor_agent = \<lparr> ag_role = ''Investment Advisor'',
            ag_goal = ''Provide clear, actionable investment recommendations.'',
            ag_backstory = ''Senior advisor with extensive experience in personalized investment strategy development.'',
            ag_verbose = False, ag_allow_delegation = True \<rparr>
      in ((research_agent, analysis_agent, risk_agent, advisor_agent), environ))"

definition final_create_tasks ::
  "agent \<times> agent \<times> agent \<times> agent \<Rightarrow> investment_data \<Rightarrow> task list" where
  "final_create_tasks agents data =
     (let (research_agent, analysis_agent, risk_agent, advisor_agent) = agents;
          task1 = \<lparr> task_description =
              ''Research investment opportunities for '' @ str_int (d_amount data) @ '' ''
              @ d_currency data @ '' focusing on '' @ d_preferences data @ '' in ''
              @ d_geography data
              @ '' markets. Find top opportunities with recent performance data.'',
            task_expected_output =
              ''List of investment opportunities with recent performance metrics and key insights.'',
            task_agent = research_agent \<rparr>;
          task2 = \<lparr> task_description =
              ''Analyze opportunities and create '' @ str_int (d_time_horizon data)
              @ ''-year ROI projections for '' @ str_int (d_amount data) @ '' ''
              @ d_currency data @ ''. Calculate multiple scenarios.'',
            task_expected_output =
              ''Detailed ROI projections with growth forecasts and scenario analysis.'',
            task_agent = analysis_agent \<rparr>;
          task3 = \<lparr> task_description =
              ''Assess risks for each option considering '' @ d_risk_tolerance data
              @ '' risk tolerance. Provide ratings and mitigation strategies.'',
            task_expected_output =
              ''Comprehensive risk assessment with ratings and recommendations.'',
            task_agent = risk_agent \<rparr>;
          task4 = \<lparr> task_description =
              ''Create final investment recommendations for '' @ str_int (d_amount data)
              @ '' '' @ d_currency data @ '' with '' @ d_risk_tolerance data
              @ '' risk tolerance and '' @ str_int (d_time_horizon data)
              @ ''-year horizon. Rank top options.'',
            task_expected_output =
              ''Ranked recommendations with allocation strategy and action steps.'',
            task_agent = advisor_agent \<rparr>
      in [task1, task2, task3, task4])"

text \<open>\<open>run_analysis\<close> returns what \<open>kickoff\<close> returned, unchecked.\<close>

definition final_run_analysis ::
  "(crew_request \<Rightarrow> crew_outcome) \<Rightarrow> investment_data \<Rightarrow> string \<Rightarrow> string \<Rightarrow> environ
     \<Rightarrow> ui_event list \<times> string option \<times> environ" where
  "final_run_analysis crew data api_key search_key environ =
     (let (agents, environ) = final_initialize_system api_key search_key environ;
          (research_agent, analysis_agent, risk_agent, advisor_agent) = agents;
          tasks = final_create_tasks agents data;
          request = \<lparr> req_agents = [research_agent, analysis_agent, risk_agent, advisor_agent],
                      req_tasks = tasks, req_verbose = False, req_model = ''gpt-3.5-turbo'',
                      req_api_key = api_key, req_search_key = search_key \<rparr>
      in case crew request of
           Returned result \<Rightarrow> ([Kickoff request], result, environ)
         | Raised e \<Rightarrow>
             (let error_msg = lower e
              in if py_in ''authentication'' error_msg \<or> py_in ''api'' error_msg
                    \<or> py_in ''key'' error_msg
                 then ([Kickoff request,
                        StError (warning_sign
                          @ '' **Authentication Error**: Please verify your access credentials and try again.''),
                        StInfo (light_bulb
                          @ '' Ensure your credentials are valid and properly configured.'')],
                       None, environ)
                 else ([Kickoff request,
                        StError (warning_sign @ '' **Analysis Error**: '' @ e)],
                       None, environ)))"

definition final_sidebar :: "environ \<Rightarrow> ui_inputs \<Rightarrow> ui_event list \<times> string \<times> string" where
  "final_sidebar environ inp =
     (let env_key = getenv environ ''OPENAI_API_KEY'' [];
          env_search = getenv environ ''SERPER_API_KEY'' [];
          shown = (if env_key \<noteq> [] \<and> env_search \<noteq> []
                   then [StSuccess (check_mark @ '' Configuration active'')] else []);
          api_key = text_input (if env_key \<noteq> [] then env_key else []) (in_api_key inp);
          search_key = text_input (if env_search \<noteq> [] then env_search else [])
                         (in_search_key inp)
      in (shown, api_key, search_key))"

definition final_generate_report ::
  "(crew_request \<Rightarrow> crew_outcome) \<Rightarrow> ui_inputs \<Rightarrow> string \<Rightarrow> string
     \<Rightarrow> session_state \<times> environ \<Rightarrow> ui_event list \<times> session_state \<times> environ" where
  "final_generate_report crew inp api_key search_key st =
     (let (session, environ) = st
      in if api_key = [] \<or> search_key = []
         then ([StError (warning_sign
                  @ '' Please provide your access credentials in the sidebar.'')],
               session, environ)
         else if in_preferences inp = []
         then ([StError (warning_sign @ '' Please select at least one investment type.'')],
               session, environ)
         else if in_geography inp = []
         then ([StError (warning_sign
                  @ '' Please select at least one geographic focus area.'')],
               session, environ)
         else
           (let investment_data = investment_data_of inp;
                (shown, result, environ) =
                  final_run_analysis crew investment_data api_key search_key environ;
                spinner = StSpinner (bar_chart_sign
                  @ '' Analyzing investment opportunities... This typically takes 2-3 minutes.'')
            in if truthy result
               then (spinner # shown
                       @ [StSuccess (check_mark @ '' Analysis complete!''), StBalloons],
                     session\<lparr> ss_report := result, ss_done := True \<rparr>, environ)
               else (spinner # shown, session, environ)))"

definition final_show_report :: "datetime \<Rightarrow> session_state \<Rightarrow> ui_event list" where
  "final_show_report now session =
     (case ss_report session of
        None \<Rightarrow> []
      | Some report \<Rightarrow>
          if ss_done session \<and> report \<noteq> []
          then [StMarkdown ''---'',
                StMarkdown (''<div class='' @ dquote @ ''section-header'' @ dquote
                            @ ''>Your Investment Report</div>''),
                StMarkdown report,
                StDownloadButton (inbox_tray @ '' Download Complete Report'') report
                  (''investment_report_'' @ strftime_stamp now @ ''.md'') ''text/markdown'']
          else [])"

definition final_main ::
  "(crew_request \<Rightarrow> crew_outcome) \<Rightarrow> datetime \<Rightarrow> ui_inputs
     \<Rightarrow> session_state option \<times> environ \<Rightarrow> ui_event list \<times> session_state \<times> environ" where
  "final_main crew now inp st =
     (let (session, environ) = st;
          (shown0, api_key, search_key) = final_sidebar environ inp;
          session = init_session session;
          (shown1, session, environ) =
            (if in_button inp
             then final_generate_report crew inp api_key search_key (session, environ)
             else ([], session, environ))
      in (shown0 @ shown1 @ final_show_report now session, session, environ))"

subsection \<open>investment_advisor_app_claude.py\<close>

definition claude_initialize_tools_and_agents ::
  "string \<Rightarrow> string \<Rightarrow> environ \<Rightarrow> (agent \<times> agent \<times> agent \<times> agent) \<times> environ" where
  "claude_initialize_tools_and_agents claude_api_key serper_key environ =
     (let environ = environ(''ANTHROPIC_API_KEY'' \<mapsto> claude_api_key);
          environ = environ(''SERPER_API_KEY'' \<mapsto> serper_key);
          market_research_agent = \<lparr> ag_role = ''Market Research Analyst'',
            ag_goal = ''Research and analyze investment opportunities across different markets ''
              @ ''including stocks, real estate, and international markets based on user preferences.'',
            ag_backstory = ''Expert in global financial markets with deep knowledge of both ''
              @ ''traditional and emerging investment opportunities. Specializes in ''
              @ ''identifying high-potential investments based on current market trends.'',
            ag_verbose = True, ag_allow_delegation = True \<rparr>;
          data_analyst_agent = \<lparr> ag_role = ''Investment Data Analyst'',
            ag_goal = ''Analyze historical performance data, market trends, and generate ''
              @ ''ROI projections for recommended investment options.'',
            ag_backstory = ''Quantitative analyst with expertise in statistical modeling and ''
              @ ''predictive analytics. Specializes in creating accurate financial ''
              @ ''projections and risk assessments.'',
            ag_verbose = True, ag_allow_delegation = True \<rparr>;
          risk_analyst_agent = \<lparr> ag_role = ''Risk Assessment Specialist'',
            ag_goal = ''Evaluate risks associated with different investment options and ''
              @ ''provide comprehensive risk analysis.'',
            ag_backstory = ''Experienced risk manager with deep understanding of market volatility, ''
              @ ''geopolitical factors, and regulatory environments affecting investments.'',
            ag_verbose = True, ag_allow_delegation = True \<rparr>;
          advisor_agent = \<lparr> ag_role = ''Senior Investment Advisor'',
            ag_goal = ''Synthesize all research and analysis to provide personalized investment ''
              @ ''recommendations with clear rationale and expected returns.'',
            ag_backstory = ''Senior financial advisor with 15+ years of experience in wealth ''
              @ ''management and portfolio optimization. Known for making sound ''
              @ ''investment recommendations tailored to client needs.'',
            ag_verbose = True, ag_allow_delegation = True \<rparr>
      in ((market_research_agent, data_analyst_agent, risk_analyst_agent, advisor_agent),
          environ))"

definition claude_create_tasks ::
  "agent \<times> agent \<times> agent \<times> agent \<Rightarrow> investment_data \<Rightarrow> task list" where
  "claude_create_tasks agents investment_data =
     (let (market_research_agent, data_analyst_agent, risk_analyst_agent, advisor_agent) = agents;
          research_task = \<lparr> task_description =
              ''Research current investment opportunities for an investment amount of ''
              @ str_int (d_amount investment_data) @ '' '' @ d_currency investment_data @ ''. ''
              @ ''Focus on: '' @ d_preferences investment_data @ ''. ''
              @ ''Geographic preference: '' @ d_geography investment_data @ ''. ''
              @ ''Find the top 5-7 investment options in each category. ''
              @ ''Include recent 6-month performance data and current market conditions. ''
              @ ''Identify top companies or opportunities in each sector.'',
            task_expected_output =
              ''A comprehensive report listing top investment opportunities with: ''
              @ ''1) Investment vehicle name/type ''
              @ ''2) Recent 6-month performance data ''
              @ ''3) Current market position ''
              @ ''4) Key companies or funds to consider ''
              @ ''5) Minimum investment requirements'',
            task_agent = market_research_agent \<rparr>;
          analysis_task = \<lparr> task_description =
              ''Analyze the investment opportunities identified and create ROI projections ''
              @ ''for 1-10 years for the investment amount of ''
              @ str_int (d_amount investment_data) @ '' '' @ d_currency investment_data @ ''. ''
              @ ''Use historical data and current market trends. ''
              @ ''Calculate best-case, average-case, and worst-case scenarios. ''
              @ ''Include factors like compound growth, dividends, and market volatility.'',
            task_expected_output =
              ''Detailed ROI projections with: ''
              @ ''1) Year-by-year projected returns for 1-10 years ''
              @ ''2) Best, average, and worst-case scenarios ''
              @ ''3) Expected annual growth rates ''
              @ ''4) Total projected value at each year milestone ''
              @ ''5) Key assumptions used in projections'',
            task_agent = data_analyst_agent \<rparr>;
          risk_task = \<lparr> task_description =
              ''Evaluate risks for each recommended investment option. ''
              @ ''Consider the user's risk tolerance: '' @ d_risk_tolerance investment_data @ ''. ''
              @ ''Analyze market volatility, liquidity, regulatory risks, and external factors. ''
              @ ''Provide risk ratings (Low/Medium/High) for each option.'',
            task_expected_output =
              ''Risk assessment report including: ''
              @ ''1) Risk rating for each investment option ''
              @ ''2) Key risk factors identified ''
              @ ''3) Risk mitigation strategies ''
              @ ''4) Suitability based on user's risk tolerance ''
              @ ''5) Diversification recommendations'',
            task_agent = risk_analyst_agent \<rparr>;
          recommendation_task = \<lparr> task_description =
              ''Synthesize all research, analysis, and risk assessments to provide ''
              @ ''final investment recommendations. Rank the top 3-5 options. ''
              @ ''Provide clear rationale for each recommendation. ''
              @ ''Consider investment amount: '' @ str_int (d_amount investment_data) @ '' ''
              @ d_currency investment_data @ '', ''
              @ ''risk tolerance: '' @ d_risk_tolerance investment_data @ '', ''
              @ ''and time horizon: '' @ str_int (d_time_horizon investment_data) @ '' years.'',
            task_expected_output =
              ''Final investment recommendation report with: ''
              @ ''1) Top 3-5 ranked investment recommendations ''
              @ ''2) Allocation strategy (% of total investment) ''
              @ ''3) Expected returns for each recommendation ''
              @ ''4) Clear rationale and supporting data ''
              @ ''5) Action steps to get started ''
              @ ''6) Summary table comparing all options'',
            task_agent = advisor_agent \<rparr>
      in [research_task, analysis_task, risk_task, recommendation_task])"

text \<open>\<open>run_investment_analysis\<close>: one message for every exception.\<close>

definition claude_run_investment_analysis ::
  "(crew_request \<Rightarrow> crew_outcome) \<Rightarrow> investment_data \<Rightarrow> string \<Rightarrow> string \<Rightarrow> string
     \<Rightarrow> environ \<Rightarrow> ui_event list \<times> string option \<times> environ" where
  "claude_run_investment_analysis crew investment_data claude_api_key serper_key model_name environ =
     (let (agents, environ) =
            claude_initialize_tools_and_agents claude_api_key serper_key environ;
          (market_research_agent, data_analyst_agent, risk_analyst_agent, advisor_agent) = agents;
          tasks = claude_create_tasks agents investment_data;
          request = \<lparr> req_agents = [market_research_agent, data_analyst_agent,
                                      risk_analyst_agent, advisor_agent],
                      req_tasks = tasks, req_verbose = True, req_model = model_name,
                      req_api_key = claude_api_key, req_search_key = serper_key \<rparr>
      in case crew request of
           Returned result \<Rightarrow> ([Kickoff request], result, environ)
         | Raised e \<Rightarrow>
             ([Kickoff request, StError (''An error occurred during analysis: '' @ e)],
              None, environ))"

definition claude_sidebar :: "environ \<Rightarrow> ui_inputs \<Rightarrow> ui_event list \<times> string \<times> string" where
  "claude_sidebar environ inp =
     (let env_claude_key = getenv environ ''ANTHROPIC_API_KEY'' [];
          env_serper_key = getenv environ ''SERPER_API_KEY'' [];
          shown = (if env_claude_key \<noteq> [] \<and> env_serper_key \<noteq> []
                   then [StSuccess (check_mark @ '' API keys loaded from .env file''),
                         StInfo ''You can override them below if needed'']
                   else []);
          claude_api_key = text_input (if env_claude_key \<noteq> [] then env_claude_key else [])
                             (in_api_key inp);
          serper_key = text_input (if env_serper_key \<noteq> [] then env_serper_key else [])
                         (in_search_key inp)
      in (shown, claude_api_key, serper_key))"

definition claude_generate_report ::
  "(crew_request \<Rightarrow> crew_outcome) \<Rightarrow> ui_inputs \<Rightarrow> string \<Rightarrow> string
     \<Rightarrow> session_state \<times> environ \<Rightarrow> ui_event list \<times> session_state \<times> environ" where
  "claude_generate_report crew inp claude_api_key serper_key st =
     (let (session, environ) = st
      in if claude_api_key = [] \<or> serper_key = []
         then ([StError (warning_sign
                  @ '' Please provide both Anthropic and Serper API keys in the sidebar.'')],
               session, environ)
         else if in_preferences inp = []
         then ([StError (warning_sign
                  @ '' Please select at least one investment preference.'')],
               session, environ)
         else if in_geography inp = []
         then ([StError (warning_sign
                  @ '' Please select at least one geographic preference.'')],
               session, environ)
         else
           (let investment_data = investment_data_of inp;
                (shown, result, environ) =
                  claude_run_investment_analysis crew investment_data claude_api_key
                    serper_key (in_model_name inp) environ;
                spinner = StSpinner (robot_face
                  @ '' Claude AI agents are analyzing investment opportunities... This may take 2-3 minutes.'')
            in if truthy result
               then (spinner # shown,
                     session\<lparr> ss_report := result, ss_done := True \<rparr>, environ)
               else (spinner # shown, session, environ)))"

definition claude_show_report :: "datetime \<Rightarrow> session_state \<Rightarrow> ui_event list" where
  "claude_show_report now session =
     (case ss_report session of
        None \<Rightarrow> []
      | Some results \<Rightarrow>
          if ss_done session \<and> results \<noteq> []
          then [StMarkdown (''<h2 class='' @ dquote @ ''sub-header'' @ dquote @ ''>''
                            @ clipboard @ '' Your Personalized Investment Report</h2>''),
                StMarkdown results,
                StDownloadButton (inbox_tray @ '' Download Report'') results
                  (''investment_report_'' @ strftime_stamp now @ ''.md'') ''text/markdown'']
          else [])"

definition claude_main ::
  "(crew_request \<Rightarrow> crew_outcome) \<Rightarrow> datetime \<Rightarrow> ui_inputs
     \<Rightarrow> session_state option \<times> environ \<Rightarrow> ui_event list \<times> session_state \<times> environ" where
  "claude_main crew now inp st =
     (let (session, environ) = st;
          session = init_session session;
          (shown0, claude_api_key, serper_key) = claude_sidebar environ inp;
          (shown1, session, environ) =
            (if in_button inp
             then claude_generate_report crew inp claude_api_key serper_key (session, environ)
             else ([], session, environ))
      in (shown0 @ shown1 @ claude_show_report now session, session, environ))"

subsection \<open>Successive runs of a page\<close>

text \<open>
  Streamlit runs the script of a page again at every interaction, with the session
  state and the process environment that the run before has left. A visit is a list of
  runs, each with the behaviour of the external call, the clock reading and the widget
  values of that run; it starts with a new session.
\<close>

type_synonym page =
  "(crew_request \<Rightarrow> crew_outcome) \<Rightarrow> datetime \<Rightarrow> ui_inputs
     \<Rightarrow> session_state option \<times> environ \<Rightarrow> ui_event list \<times> session_state \<times> environ"

fun page_runs ::
  "page \<Rightarrow> ((crew_request \<Rightarrow> crew_outcome) \<times> datetime \<times> ui_inputs) list
     \<Rightarrow> session_state option \<times> environ \<Rightarrow> session_state option \<times> environ" where
  "page_runs page [] st = st"
| "page_runs page ((crew, now, inp) # rest) st =
     (case page crew now inp st of
        (shown, session, environ) \<Rightarrow> page_runs page rest (Some session, environ))"

subsection \<open>Sample values\<close>

text \<open>Concrete inputs at which the theorems below are evaluated.\<close>

definition sample_data :: investment_data where
  "sample_data = \<lparr> d_amount = 100000, d_currency = ''USD'', d_geography = ''Regional'',
                   d_preferences = ''ETFs, Bonds'', d_risk_tolerance = ''Medium'',
                   d_time_horizon = 10 \<rparr>"

definition sample_agents :: "agent \<times> agent \<times> agent \<times> agent" where
  "sample_agents = fst (app_initialize_system ''k'' ''s'' Map.empty)"

definition empty_environ :: environ where
  "empty_environ = Map.empty"

definition sample_now :: datetime where
  "sample_now = \<lparr> dt_year = 2026, dt_month = 11, dt_day = 4,
                  dt_hour = 9, dt_minute = 5, dt_second = 0 \<rparr>"

definition sample_inputs :: ui_inputs where
  "sample_inputs =
     \<lparr> in_api_key = None, in_search_key = None,
       in_model_name = ''claude-sonnet-4-20250514'',
       in_amount = 100000, in_currency = ''USD'',
       in_geography = [''Local/Domestic''], in_preferences = [''Stock Market''],
       in_risk_tolerance = ''Medium'', in_time_horizon = 10, in_button = True \<rparr>"

definition sample_idle_inputs :: ui_inputs where
  "sample_idle_inputs = sample_inputs\<lparr> in_button := False \<rparr>"

definition sample_keyed_inputs :: ui_inputs where
  "sample_keyed_inputs = sample_inputs\<lparr> in_api_key := Some ''k'', in_search_key := Some ''s'' \<rparr>"

definition sample_session :: session_state where
  "sample_session = \<lparr> ss_done = True, ss_report = Some ''Buy index funds.'' \<rparr>"

section \<open>Properties\<close>

subsection \<open>Rounding to a double\<close>

text \<open>
  Rounding to the nearest integer and to the nearest double is monotone and symmetric; a
  double is rounded to itself; and the error of rounding a value of normal magnitude is at
  most that value times \<open>2 powi (-53)\<close>.
\<close>

lemma rhe_bounds: "of_int (round_half_even x) \<le> x + 1 / 2 \<and> x - 1 / 2 \<le> of_int (round_half_even x)"
  unfolding round_half_even_def Let_def by (auto; linarith)

lemma rhe_of_int: "round_half_even (of_int n) = n"
  unfolding round_half_even_def Let_def by simp

lemma rhe_mono: "x \<le> y \<Longrightarrow> round_half_even x \<le> round_half_even y"
proof -
  assume xy: "x \<le> y"
  have fl: "\<lfloor>x\<rfloor> \<le> \<lfloor>y\<rfloor>" using xy by (rule floor_mono)
  show ?thesis
  proof (cases "\<lfloor>x\<rfloor> = \<lfloor>y\<rfloor>")
    case True
    then show ?thesis using xy unfolding round_half_even_def Let_def by auto
  next
    case False
    then have "\<lfloor>x\<rfloor> + 1 \<le> \<lfloor>y\<rfloor>" using fl by linarith
    moreover have "round_half_even x \<le> \<lfloor>x\<rfloor> + 1" unfolding round_half_even_def Let_def by auto
    moreover have "\<lfloor>y\<rfloor> \<le> round_half_even y" unfolding round_half_even_def Let_def by auto
    ultimately show ?thesis by linarith
  qed
qed

lemma rhe_neg: "round_half_even (- x) = - round_half_even x"
proof (cases "x = of_int \<lfloor>x\<rfloor>")
  case True
  then obtain n where "x = of_int n" ..
  then show ?thesis by (simp add: rhe_of_int flip: of_int_minus)
next
  case False
  then have fl: "\<lfloor>- x\<rfloor> = - \<lfloor>x\<rfloor> - 1" by (simp add: floor_minus ceiling_altdef)
  have d: "0 < x - of_int \<lfloor>x\<rfloor>" using False by (smt (verit) of_int_floor_le)
  show ?thesis unfolding round_half_even_def Let_def fl using d by (auto; linarith)
qed

lemma rhe_le_int: "x \<le> of_int n \<Longrightarrow> round_half_even x \<le> n"
  using rhe_mono [of x "of_int n"] by (simp add: rhe_of_int)

lemma rhe_ge_int: "of_int n \<le> x \<Longrightarrow> n \<le> round_half_even x"
  using rhe_mono [of "of_int n" x] by (simp add: rhe_of_int)

lemma exp_search_range: "lo \<le> exp_search a lo n \<and> exp_search a lo n \<le> lo + int n"
  by (induction n) auto

lemma exp_search_le: "exp_search a lo n \<noteq> lo \<Longrightarrow> 2 powi (exp_search a lo n) \<le> a"
  by (induction n) (auto split: if_splits)

lemma exp_search_gt: "exp_search a lo n < k \<Longrightarrow> k \<le> lo + int n \<Longrightarrow> a < 2 powi k"
proof (induction n)
  case 0
  then show ?case by simp
next
  case (Suc n)
  then show ?case
    by (cases "k = lo + int (Suc n)") (auto split: if_splits)
qed

lemma exp_search_mono: "a \<le> b \<Longrightarrow> exp_search a lo n \<le> exp_search b lo n"
proof (induction n)
  case 0
  then show ?case by simp
next
  case (Suc n)
  then show ?case using exp_search_range [of lo b n] by auto
qed

lemma exponent_range: "- 1022 \<le> exponent a \<and> exponent a \<le> 1023"
  using exp_search_range [of "- 1022" a 2045] by (simp add: exponent_def)

lemma exponent_lower: "exponent a \<noteq> - 1022 \<Longrightarrow> 2 powi (exponent a) \<le> a"
  unfolding exponent_def by (rule exp_search_le)

lemma exponent_upper: "exponent a < k \<Longrightarrow> k \<le> 1023 \<Longrightarrow> a < 2 powi k"
  using exp_search_gt [of a "- 1022" 2045 k] by (simp add: exponent_def)

lemma exponent_mono: "a \<le> b \<Longrightarrow> exponent a \<le> exponent b"
  unfolding exponent_def by (rule exp_search_mono)

lemma round_real_neg: "round_real (- x) = - round_real x"
  by (simp add: round_real_def Let_def rhe_neg)

lemma round_real_0: "round_real 0 = 0"
  by (simp add: round_real_def Let_def rhe_of_int [of 0, simplified])

lemma round_real_nonneg: "0 \<le> x \<Longrightarrow> 0 \<le> round_real x"
proof -
  assume x: "0 \<le> x"
  have "0 \<le> round_half_even (x / 2 powi (exponent \<bar>x\<bar> - 52))"
    by (rule rhe_ge_int) (simp add: x)
  then show ?thesis by (simp add: round_real_def Let_def)
qed

lemma ulp_split: "(2::real) powi (e + 1) = 2 ^ 53 * 2 powi (e - 52)"
  and ulp_split_low: "(2::real) powi e = 2 ^ 52 * 2 powi (e - 52)"
proof -
  have "(2::real) powi (e + 1) = 2 powi (53 + (e - 52))"
    by (rule arg_cong [where f = "\<lambda>k. 2 powi k"]) simp
  also have "\<dots> = 2 powi 53 * 2 powi (e - 52)" by (subst power_int_add) simp_all
  finally show "(2::real) powi (e + 1) = 2 ^ 53 * 2 powi (e - 52)" by simp
  have "(2::real) powi e = 2 powi (52 + (e - 52))"
    by (rule arg_cong [where f = "\<lambda>k. 2 powi k"]) simp
  also have "\<dots> = 2 powi 52 * 2 powi (e - 52)" by (subst power_int_add) simp_all
  finally show "(2::real) powi e = 2 ^ 52 * 2 powi (e - 52)" by simp
qed

lemma round_real_upper:
  assumes "0 \<le> x" and "x < 2 powi (exponent x + 1)"
  shows "round_real x \<le> 2 powi (exponent x + 1)"
proof -
  define u :: real where "u = 2 powi (exponent x - 52)"
  have u: "0 < u" by (simp add: u_def)
  have "x \<le> 2 ^ 53 * u" using assms(2) by (simp add: ulp_split u_def)
  then have "x / u \<le> of_int (2 ^ 53)" using u by (simp add: field_simps)
  then have "round_half_even (x / u) \<le> 2 ^ 53" by (rule rhe_le_int)
  then have "real_of_int (round_half_even (x / u)) \<le> 2 ^ 53"
    by (metis of_int_le_iff of_int_numeral of_int_power)
  then have "real_of_int (round_half_even (x / u)) * u \<le> 2 ^ 53 * u"
    using u by simp
  then show ?thesis using assms(1) by (simp add: round_real_def Let_def u_def ulp_split)
qed

lemma round_real_lower:
  assumes "0 \<le> x" and "2 powi (exponent x) \<le> x"
  shows "2 powi (exponent x) \<le> round_real x"
proof -
  define u :: real where "u = 2 powi (exponent x - 52)"
  have u: "0 < u" by (simp add: u_def)
  have "2 ^ 52 * u \<le> x" using assms(2) by (simp add: ulp_split_low [of "exponent x"] u_def)
  then have "of_int (2 ^ 52) \<le> x / u" using u by (simp add: field_simps)
  then have "2 ^ 52 \<le> round_half_even (x / u)" by (rule rhe_ge_int)
  then have "2 ^ 52 \<le> real_of_int (round_half_even (x / u))"
    by (metis of_int_le_iff of_int_numeral of_int_power)
  then have "2 ^ 52 * u \<le> real_of_int (round_half_even (x / u)) * u"
    using u by simp
  then show ?thesis using assms(1)
    by (simp add: round_real_def Let_def u_def ulp_split_low [of "exponent x"])
qed

lemma round_real_mono_nonneg:
  assumes "0 \<le> x" and "x \<le> y"
  shows "round_real x \<le> round_real y"
proof (cases "exponent x = exponent y")
  case True
  have "x / 2 powi (exponent y - 52) \<le> y / 2 powi (exponent y - 52)"
    using assms(2) by (simp add: divide_right_mono)
  then have "round_half_even (x / 2 powi (exponent y - 52))
               \<le> round_half_even (y / 2 powi (exponent y - 52))"
    by (rule rhe_mono)
  then show ?thesis using assms True by (simp add: round_real_def Let_def)
next
  case False
  have y: "0 \<le> y" using assms by simp
  have lt: "exponent x < exponent y"
    using False exponent_mono [OF assms(2)] by simp
  have "exponent y \<le> 1023" using exponent_range [of y] by simp
  then have "x < 2 powi (exponent x + 1)"
    using lt by (intro exponent_upper) simp_all
  then have 1: "round_real x \<le> 2 powi (exponent x + 1)"
    by (rule round_real_upper [OF assms(1)])
  have "exponent y \<noteq> - 1022" using lt exponent_range [of x] by simp
  then have "2 powi (exponent y) \<le> y" by (rule exponent_lower)
  then have 2: "2 powi (exponent y) \<le> round_real y" by (rule round_real_lower [OF y])
  have 3: "(2::real) powi (exponent x + 1) \<le> 2 powi (exponent y)"
    using lt by (intro power_int_increasing) simp_all
  show ?thesis using 1 2 3 by linarith
qed

lemma round_real_mono: "x \<le> y \<Longrightarrow> round_real x \<le> round_real y"
proof -
  assume xy: "x \<le> y"
  consider "0 \<le> x" | "y \<le> 0" | "x \<le> 0" "0 \<le> y" by linarith
  then show ?thesis
  proof cases
    case 1
    then show ?thesis using xy by (rule round_real_mono_nonneg)
  next
    case 2
    then have "round_real (- y) \<le> round_real (- x)"
      using xy by (intro round_real_mono_nonneg) simp_all
    then show ?thesis by (simp add: round_real_neg)
  next
    case 3
    have "0 \<le> round_real (- x)" using 3(1) by (intro round_real_nonneg) simp
    moreover have "0 \<le> round_real y" using 3(2) by (rule round_real_nonneg)
    ultimately show ?thesis by (simp add: round_real_neg)
  qed
qed


lemma exponent_eq:
  assumes "2 powi e \<le> a" and "a < 2 powi (e + 1)" and "- 1022 \<le> e" and "e \<le> 1023"
  shows "exponent a = e"
proof (rule antisym)
  show "exponent a \<le> e"
  proof (rule ccontr)
    assume "\<not> exponent a \<le> e"
    then have gt: "e + 1 \<le> exponent a" by simp
    then have "exponent a \<noteq> - 1022" using assms(3) by simp
    then have "2 powi (exponent a) \<le> a" by (rule exponent_lower)
    moreover have "(2::real) powi (e + 1) \<le> 2 powi (exponent a)"
      using gt by (intro power_int_increasing) simp_all
    ultimately show False using assms(2) by linarith
  qed
  show "e \<le> exponent a"
  proof (rule ccontr)
    assume "\<not> e \<le> exponent a"
    then have "exponent a < e" by simp
    then have "a < 2 powi e" using assms(4) by (rule exponent_upper)
    then show False using assms(1) by linarith
  qed
qed

lemma exponent_small: "a < 2 powi (- 1021) \<Longrightarrow> exponent a = - 1022"
proof (rule ccontr)
  assume a: "a < 2 powi (- 1021)" and ne: "exponent a \<noteq> - 1022"
  from ne have "2 powi (exponent a) \<le> a" by (rule exponent_lower)
  moreover have "- 1021 \<le> exponent a" using ne exponent_range [of a] by simp
  then have "(2::real) powi (- 1021) \<le> 2 powi (exponent a)"
    by (intro power_int_increasing) simp_all
  ultimately show False using a by linarith
qed

lemma exponent_le: "2 powi (exponent a) \<le> a \<or> (exponent a = - 1022 \<and> a < 2 powi (- 1022))"
  using exponent_lower [of a] by (cases "exponent a = - 1022") auto

lemma round_real_error:
  assumes "2 powi (- 1022) \<le> \<bar>x\<bar>"
  shows "\<bar>round_real x - x\<bar> \<le> \<bar>x\<bar> * 2 powi (- 53)"
proof -
  define e where "e = exponent \<bar>x\<bar>"
  define u :: real where "u = 2 powi (e - 52)"
  have u: "0 < u" by (simp add: u_def)
  have le: "2 powi e \<le> \<bar>x\<bar>"
    using exponent_le [of "\<bar>x\<bar>"] assms unfolding e_def by auto
  have "round_real x - x = (of_int (round_half_even (x / u)) - x / u) * u"
    using u by (simp add: round_real_def Let_def u_def e_def field_simps)
  then have "\<bar>round_real x - x\<bar> = \<bar>of_int (round_half_even (x / u)) - x / u\<bar> * u"
    using u by (simp add: abs_mult)
  also have "\<dots> \<le> (1 / 2) * u"
  proof -
    have "\<bar>of_int (round_half_even (x / u)) - x / u\<bar> \<le> 1 / 2"
      using rhe_bounds [of "x / u"] by linarith
    then show ?thesis using u by (intro mult_right_mono) simp_all
  qed
  also have "\<dots> = 2 powi e * 2 powi (- 53)"
  proof -
    have "(2::real) powi (e - 52) = 2 powi (e + (- 53) + 1)"
      by (rule arg_cong [where f = "\<lambda>k. 2 powi k"]) simp
    also have "\<dots> = 2 powi (e + (- 53)) * 2" by (subst power_int_add) simp_all
    also have "\<dots> = 2 powi e * 2 powi (- 53) * 2" by (subst power_int_add) simp_all
    finally show ?thesis by (simp add: u_def)
  qed
  also have "\<dots> \<le> \<bar>x\<bar> * 2 powi (- 53)"
    using le by (intro mult_right_mono) simp_all
  finally show ?thesis .
qed

lemma round_real_exact:
  assumes "\<bar>m\<bar> < 2 ^ 53" and "- 1074 \<le> k"
  shows "round_real (of_int m * 2 powi k) = of_int m * 2 powi k"
proof -
  define x :: real where "x = of_int m * 2 powi k"
  define e where "e = exponent \<bar>x\<bar>"
  have "e - 52 \<le> k"
  proof (cases "e = - 1022")
    case True
    then show ?thesis using assms(2) by simp
  next
    case False
    then have "2 powi e \<le> \<bar>x\<bar>" unfolding e_def by (rule exponent_lower)
    also have "\<bar>x\<bar> = \<bar>of_int m\<bar> * 2 powi k" by (simp add: x_def abs_mult)
    also have "\<dots> < 2 ^ 53 * 2 powi k"
    proof -
      have "\<bar>real_of_int m\<bar> < 2 ^ 53"
        using assms(1) by (metis of_int_abs of_int_less_iff of_int_numeral of_int_power)
      then show ?thesis by (intro mult_strict_right_mono) simp_all
    qed
    also have "\<dots> = 2 powi (53 + k)" by (subst power_int_add) simp_all
    finally have "(2::real) powi e < 2 powi (53 + k)" .
    then have "e < 53 + k"
    proof (rule_tac ccontr)
      assume lt: "(2::real) powi e < 2 powi (53 + k)" and "\<not> e < 53 + k"
      then have "(2::real) powi (53 + k) \<le> 2 powi e"
        by (intro power_int_increasing) simp_all
      then show False using lt by linarith
    qed
    then show ?thesis by simp
  qed
  then obtain j :: nat where j: "k = (e - 52) + int j"
    by (metis add.commute diff_add_cancel nonneg_int_cases diff_ge_0_iff_ge zle_iff_zadd)
  have "(2::real) powi k = 2 powi (e - 52) * 2 ^ j"
    unfolding j by (subst power_int_add) (simp_all add: power_int_def)
  then have "x / 2 powi (e - 52) = of_int (m * 2 ^ j)"
    by (simp add: x_def)
  then have "round_half_even (x / 2 powi (e - 52)) = m * 2 ^ j"
    by (simp only: rhe_of_int)
  then have "round_real x = of_int (m * 2 ^ j) * 2 powi (e - 52)"
    by (simp add: round_real_def Let_def e_def)
  also have "\<dots> = x"
    using \<open>(2::real) powi k = 2 powi (e - 52) * 2 ^ j\<close> by (simp add: x_def)
  finally show ?thesis by (simp add: x_def)
qed

lemma round_real_int: "\<bar>m\<bar> < 2 ^ 53 \<Longrightarrow> round_real (of_int m) = of_int m"
  using round_real_exact [of m 0] by simp

lemma round_real_dyadic:
  "\<bar>m\<bar> < 2 ^ 53 \<Longrightarrow> j \<le> 1074 \<Longrightarrow> round_real (of_int m / 2 ^ j) = of_int m / 2 ^ j"
proof -
  assume m: "\<bar>m\<bar> < 2 ^ 53" and j: "j \<le> 1074"
  have eq: "real_of_int m / 2 ^ j = of_int m * 2 powi (- int j)"
    by (simp add: power_int_minus field_simps)
  show ?thesis unfolding eq using m j by (intro round_real_exact) simp_all
qed

lemma round_real_eval:
  "2 powi e \<le> \<bar>x\<bar> \<Longrightarrow> \<bar>x\<bar> < 2 powi (e + 1) \<Longrightarrow> - 1022 \<le> e \<Longrightarrow> e \<le> 1023 \<Longrightarrow>
   round_real x = of_int (round_half_even (x / 2 powi (e - 52))) * 2 powi (e - 52)"
  by (simp add: round_real_def exponent_eq Let_def)

lemma round_real_ge_one: "1 \<le> x \<Longrightarrow> 1 \<le> round_real x"
  using round_real_mono [of 1 x] round_real_int [of 1] by simp

lemma round_real_le_pow2:
  assumes "x \<le> 2 ^ k" and "k \<le> 1023" shows "round_real x \<le> 2 ^ k"
proof -
  have "round_real (of_int 1 * 2 powi (int k)) = of_int 1 * 2 powi (int k)"
    by (rule round_real_exact) simp_all
  then have "round_real (2 ^ k) = 2 ^ k" by (simp add: power_int_def)
  then show ?thesis using round_real_mono [OF assms(1)] by simp
qed

lemma round_double_finite:
  "\<bar>round_real x\<bar> < 2 ^ 1024 \<Longrightarrow> round_real x \<noteq> 0 \<or> 0 \<le> x \<Longrightarrow>
   round_double x = Finite (round_real x)"
  by (auto simp add: round_double_def Let_def)

lemma float_of_int_small: "\<bar>n\<bar> < 2 ^ 53 \<Longrightarrow> float_of_int n = Inr (Finite (of_int n))"
proof -
  assume n: "\<bar>n\<bar> < 2 ^ 53"
  have r: "round_real (of_int n) = of_int n" using n by (rule round_real_int)
  have "\<bar>real_of_int n\<bar> < 2 ^ 53"
    using n by (metis of_int_abs of_int_less_iff of_int_numeral of_int_power)
  then have "\<bar>real_of_int n\<bar> < 2 ^ 1024" by (rule less_le_trans) simp
  then have "round_double (of_int n) = Finite (of_int n)"
    using r by (auto simp add: round_double_def Let_def)
  then show ?thesis by (simp add: float_of_int_def)
qed

lemma round_double_pos:
  "1 \<le> y \<Longrightarrow>
   round_double y = (if 2 ^ 1024 \<le> round_real y then PosInf else Finite (round_real y))"
  using round_real_ge_one [of y] by (auto simp add: round_double_def Let_def)

lemma round_double_neg:
  "y \<le> - 1 \<Longrightarrow>
   round_double y = (if round_real y \<le> - (2 ^ 1024) then NegInf else Finite (round_real y))"
  using round_real_ge_one [of "- y"] by (auto simp add: round_double_def Let_def round_real_neg)

lemma round_double_quotient:
  assumes "1 \<le> y" and "y \<le> 2 ^ 1023"
  shows "round_double y = Finite (round_real y)"
proof -
  have "round_real y \<le> 2 ^ 1023" using assms(2) by (rule round_real_le_pow2) simp
  then have "\<not> 2 ^ 1024 \<le> round_real y" by simp
  then show ?thesis using round_double_pos [OF assms(1)] by simp
qed

lemma float_of_int_cases:
  "float_of_int n
     = (if 2 ^ 1024 \<le> round_real (of_int n) \<or> round_real (of_int n) \<le> - (2 ^ 1024)
        then Inl OverflowError else Inr (Finite (round_real (of_int n))))"
proof -
  consider "1 \<le> n" | "n = 0" | "n \<le> - 1" by linarith
  then show ?thesis
  proof cases
    case 1
    then have "1 \<le> real_of_int n" by simp
    then show ?thesis
      using round_double_pos [of "of_int n"] round_real_ge_one [of "of_int n"]
      by (simp add: float_of_int_def)
  next
    case 2
    then show ?thesis by (simp add: float_of_int_def round_double_def round_real_0)
  next
    case 3
    then have "real_of_int n \<le> - 1" by simp
    then show ?thesis
      using round_double_neg [of "of_int n"] round_real_ge_one [of "- of_int n"]
      by (simp add: float_of_int_def round_real_neg)
  qed
qed

lemma float_of_int_range:
  assumes "- (2 ^ 1023) \<le> n" and "n \<le> 2 ^ 1023"
  shows "float_of_int n = Inr (Finite (round_real (of_int n)))"
proof -
  have n: "real_of_int n \<le> 2 ^ 1023" "- (2 ^ 1023) \<le> real_of_int n"
    using assms by (metis of_int_le_iff of_int_numeral of_int_power of_int_minus)+
  have "round_real (of_int n) \<le> 2 ^ 1023" using n(1) by (rule round_real_le_pow2) simp
  moreover have "round_real (- of_int n) \<le> 2 ^ 1023"
    using n(2) by (intro round_real_le_pow2) simp_all
  ultimately show ?thesis by (simp add: float_of_int_cases round_real_neg)
qed

lemma round_real_pow2: "round_real (2 ^ k) = 2 ^ k"
proof -
  have "round_real (of_int 1 * 2 powi (int k)) = of_int 1 * 2 powi (int k)"
    by (rule round_real_exact) simp_all
  then show ?thesis by (simp add: power_int_def)
qed

lemma round_real_ge_pow2: "2 ^ k \<le> x \<Longrightarrow> 2 ^ k \<le> round_real x"
  using round_real_mono [of "2 ^ k" x] by (simp only: round_real_pow2)

lemma round_real_unit:
  "1 \<le> \<bar>x\<bar> \<Longrightarrow> \<bar>x\<bar> < 2 \<Longrightarrow>
   round_real x = of_int (round_half_even (x * 4503599627370496)) / 4503599627370496"
  using round_real_eval [of 0 x] by (simp add: power_int_minus field_simps)

subsection \<open>Input validation\<close>

text \<open>
  Claim C1, as stated, fails for a NaN amount: both comparisons of \<open>float('nan')\<close> are
  false, so no message is appended and the list is empty, although the amount is not
  between 1,000 and 10,000,000.
\<close>

theorem validate_nan_counterexample:
  "validate_investment_inputs (PyFloat NaN) [''ETFs''] [''Regional''] = []
   \<and> \<not> (py_ge (PyFloat NaN) (PyInt 1000) \<and> py_le (PyFloat NaN) (PyInt 10000000))"
  by (simp add: validate_investment_inputs_def Let_def py_lt_def py_gt_def py_ge_def py_le_def
        num_key_def)

lemma py_not_lt_ge:
  "a \<noteq> PyFloat NaN \<Longrightarrow> b \<noteq> PyFloat NaN \<Longrightarrow> (\<not> py_lt a b) = py_ge a b"
  by (auto simp add: py_lt_def py_ge_def py_le_def num_key_def
        split: py_num.splits py_float.splits)

text \<open>
  Claim C1, amended. \<open>validate_investment_inputs\<close> returns the empty list exactly when
  the amount is neither below 1,000 nor above 10,000,000 and both selections are
  non-empty. For every amount other than NaN, an \<open>int\<close> or a float, that is: the amount is
  at least 1,000 and at most 10,000,000. Each of the four messages is in the list exactly
  when its own condition holds, and the list has one message per condition that holds.
\<close>

theorem validate_investment_inputs_correct:
  "(validate_investment_inputs amount preferences geography = []
      \<longleftrightarrow> \<not> py_lt amount (PyInt 1000) \<and> \<not> py_gt amount (PyInt 10000000)
          \<and> preferences \<noteq> [] \<and> geography \<noteq> [])
   \<and> (amount \<noteq> PyFloat NaN \<longrightarrow>
        (\<not> py_lt amount (PyInt 1000) \<and> \<not> py_gt amount (PyInt 10000000)
           \<longleftrightarrow> py_ge amount (PyInt 1000) \<and> py_le amount (PyInt 10000000)))
   \<and> (''Investment amount should be at least 1,000''
          \<in> set (validate_investment_inputs amount preferences geography)
        \<longleftrightarrow> py_lt amount (PyInt 1000))
   \<and> (''Investment amount exceeds maximum limit of 10,000,000''
          \<in> set (validate_investment_inputs amount preferences geography)
        \<longleftrightarrow> py_gt amount (PyInt 10000000))
   \<and> (''Please select at least one investment preference''
          \<in> set (validate_investment_inputs amount preferences geography)
        \<longleftrightarrow> preferences = [])
   \<and> (''Please select at least one geographic preference''
          \<in> set (validate_investment_inputs amount preferences geography)
        \<longleftrightarrow> geography = [])
   \<and> length (validate_investment_inputs amount preferences geography)
       = (if py_lt amount (PyInt 1000) then 1 else 0)
         + (if py_gt amount (PyInt 10000000) then 1 else 0)
         + (if preferences = [] then 1 else 0) + (if geography = [] then 1 else 0)"
proof -
  have "amount \<noteq> PyFloat NaN \<longrightarrow>
        (\<not> py_lt amount (PyInt 1000) \<and> \<not> py_gt amount (PyInt 10000000)
           \<longleftrightarrow> py_ge amount (PyInt 1000) \<and> py_le amount (PyInt 10000000))"
    using py_not_lt_ge [of amount "PyInt 1000"] py_not_lt_ge [of "PyInt 10000000" amount]
    by (auto simp add: py_gt_def py_ge_def)
  then show ?thesis
    by (simp add: validate_investment_inputs_def Let_def)
qed

theorem validate_investment_inputs_witness:
  "validate_investment_inputs (PyInt 500) ([] :: string list) [''Regional'']
     = [''Investment amount should be at least 1,000'',
        ''Please select at least one investment preference'']
   \<and> validate_investment_inputs (PyFloat (Finite 100000)) [''ETFs''] [''Regional''] = []
   \<and> py_ge (PyFloat (Finite 100000)) (PyInt 1000)
   \<and> py_le (PyFloat (Finite 100000)) (PyInt 10000000)
   \<and> validate_investment_inputs (PyFloat PosInf) [''ETFs''] [''Regional'']
     = [''Investment amount exceeds maximum limit of 10,000,000'']"
  using validate_investment_inputs_correct [of "PyInt 500" "[] :: string list" "[''Regional'']"]
    validate_investment_inputs_correct [of "PyFloat (Finite 100000)" "[''ETFs'']" "[''Regional'']"]
  by (simp add: validate_investment_inputs_def Let_def py_lt_def py_gt_def py_ge_def py_le_def
        num_key_def)

subsection \<open>Sector allocation\<close>

text \<open>
  Claim C9. The three allocation lists of \<open>generate_sector_allocation\<close> have the length
  of the sector list, 7, and each sums to 100; so the values of
  \<open>create_allocation_chart\<close> sum to 100 for every risk tolerance, and a string that is
  none of the five risk levels gets the moderate allocation.
\<close>

theorem sector_allocation_sums:
  "length (al_sectors generate_sector_allocation) = 7
   \<and> length (al_conservative generate_sector_allocation) = 7
   \<and> length (al_moderate generate_sector_allocation) = 7
   \<and> length (al_aggressive generate_sector_allocation) = 7
   \<and> sum_list (al_conservative generate_sector_allocation) = 100
   \<and> sum_list (al_moderate generate_sector_allocation) = 100
   \<and> sum_list (al_aggressive generate_sector_allocation) = 100
   \<and> sum_list (pie_values (create_allocation_chart risk_tolerance)) = 100
   \<and> length (pie_values (create_allocation_chart risk_tolerance))
       = length (pie_labels (create_allocation_chart risk_tolerance))
   \<and> (risk_tolerance \<notin> set [''Very Low'', ''Low'', ''Medium'', ''High'', ''Very High'']
        \<longrightarrow> pie_values (create_allocation_chart risk_tolerance)
              = al_moderate generate_sector_allocation)"
  by (simp add: generate_sector_allocation_def create_allocation_chart_def Let_def)

theorem sector_allocation_sums_witness:
  "''Extreme'' \<notin> set [''Very Low'', ''Low'', ''Medium'', ''High'', ''Very High'']
   \<and> pie_values (create_allocation_chart ''Extreme'') = [25, 15, 20, 15, 15, 5, 5]
   \<and> sum_list (pie_values (create_allocation_chart ''Very High'')) = 100"
  using sector_allocation_sums [of "''Extreme''"] sector_allocation_sums [of "''Very High''"]
  by (simp add: generate_sector_allocation_def create_allocation_chart_def Let_def)

subsection \<open>Currency formatting\<close>

lemma two_decimal_places_format: "two_decimal_places q (format_2f (Finite q))"
proof -
  define c where "c = nat (round_half_even (\<bar>q\<bar> * 100))"
  have nn: "0 \<le> round_half_even (\<bar>q\<bar> * 100)" by (rule rhe_ge_int) simp
  have "\<bar>real_of_int (round_half_even (\<bar>q\<bar> * 100)) - \<bar>q\<bar> * 100\<bar> \<le> 1 / 2"
    using rhe_bounds [of "\<bar>q\<bar> * 100"] by linarith
  then have b: "\<bar>real c - \<bar>q\<bar> * 100\<bar> \<le> 1 / 2"
    using nn by (simp add: c_def)
  have "round_half_even (\<bar>q\<bar> * 100) = \<lfloor>\<bar>q\<bar> * 100\<rfloor>
        \<or> round_half_even (\<bar>q\<bar> * 100) = \<lfloor>\<bar>q\<bar> * 100\<rfloor> + 1"
    unfolding round_half_even_def Let_def by auto
  then have "c = nat \<lfloor>\<bar>q\<bar> * 100\<rfloor> \<or> c = nat \<lfloor>\<bar>q\<bar> * 100\<rfloor> + 1"
    unfolding c_def using nn by (auto simp add: nat_add_distrib)
  then show ?thesis
    unfolding two_decimal_places_def using b
    by (auto simp add: format_2f_def Let_def c_def)
qed

lemma to_float_divisors:
  "to_float (PyInt 1000000) = Inr (Finite 1000000)"
  "to_float (PyInt 1000) = Inr (Finite 1000)"
  using float_of_int_small [of 1000000] float_of_int_small [of 1000]
  by (simp_all add: to_float_def)

lemma py_ge_cases:
  "py_ge (PyFloat (Finite x)) (PyInt d) = (of_int d \<le> x)"
  "py_ge (PyInt n) (PyInt d) = (d \<le> n)"
  "py_ge (PyFloat NegZero) (PyInt d) = (d \<le> 0)"
  "py_ge (PyFloat PosInf) (PyInt d) = True"
  "py_ge (PyFloat NegInf) (PyInt d) = False"
  "py_ge (PyFloat NaN) (PyInt d) = False"
  by (simp_all add: py_ge_def py_le_def num_key_def)

lemma py_truediv_float:
  assumes "to_float (PyInt d) = Inr (Finite (of_int d))" and "d \<noteq> 0"
  shows "\<exists>q. py_truediv (PyFloat f) (PyInt d) = Inr (PyFloat q)"
  using assms by (simp add: py_truediv_def to_float_def float_div_def is_zero_def)

lemma py_truediv_finite:
  assumes "to_float (PyInt d) = Inr (Finite (of_int d))" and "2 \<le> d" and "of_int d \<le> x"
    and "x < 2 ^ 1024"
  shows "py_truediv (PyFloat (Finite x)) (PyInt d)
           = Inr (PyFloat (Finite (round_real (x / of_int d))))"
proof -
  have d: "2 \<le> real_of_int d" using assms(2) by simp
  have x: "0 \<le> x" using d assms(3) by simp
  have 1: "1 \<le> x / of_int d" using d assms(3) by (simp add: field_simps)
  have "x / of_int d \<le> x / 2" using d x by (intro divide_left_mono) simp_all
  also have "\<dots> \<le> 2 ^ 1024 / 2" using assms(4) by simp
  also have "\<dots> = 2 ^ 1023" by simp
  finally have 2: "x / of_int d \<le> 2 ^ 1023" .
  have "round_double (x / of_int d) = Finite (round_real (x / of_int d))"
    using 1 2 by (rule round_double_quotient)
  then show ?thesis
    using assms d
    by (simp add: py_truediv_def to_float_def float_div_def is_zero_def is_inf_def fval_def)
qed

lemma py_truediv_int:
  assumes "0 < d" and "d \<le> n"
  shows "py_truediv (PyInt n) (PyInt d)
           = (if 2 ^ 1024 \<le> round_real (of_int n / of_int d) then Inl OverflowError
              else Inr (PyFloat (Finite (round_real (of_int n / of_int d)))))"
proof -
  have "1 \<le> real_of_int n / real_of_int d" using assms by (simp add: field_simps)
  then have "round_double (of_int n / of_int d)
               = (if 2 ^ 1024 \<le> round_real (of_int n / of_int d) then PosInf
                  else Finite (round_real (of_int n / of_int d)))"
    by (rule round_double_pos)
  then show ?thesis using assms by (simp add: py_truediv_def)
qed

lemma quotient_bound:
  assumes "2 \<le> d" and "n \<le> 2 ^ 1023"
  shows "round_real (of_int n / of_int d) \<le> 2 ^ 1023"
proof -
  have n: "real_of_int n \<le> 2 ^ 1023"
    using assms(2) by (metis of_int_le_iff of_int_numeral of_int_power)
  have "real_of_int n / of_int d \<le> 2 ^ 1023"
  proof (cases "0 \<le> n")
    case True
    have "real_of_int n / of_int d \<le> of_int n / 1"
      using assms(1) True by (intro divide_left_mono) simp_all
    then show ?thesis using n by simp
  next
    case False
    then have "real_of_int n / of_int d \<le> 0"
      using assms(1) by (simp add: divide_le_0_iff)
    then show ?thesis by (rule order_trans) simp
  qed
  then show ?thesis by (rule round_real_le_pow2) simp
qed

lemma format_currency_float_total: "\<exists>s. format_currency (PyFloat f) currency = Inr s"
proof -
  obtain q1 where q1: "py_truediv (PyFloat f) (PyInt 1000000) = Inr (PyFloat q1)"
    using py_truediv_float [of 1000000 f] to_float_divisors by auto
  obtain q2 where q2: "py_truediv (PyFloat f) (PyInt 1000) = Inr (PyFloat q2)"
    using py_truediv_float [of 1000 f] to_float_divisors by auto
  show ?thesis
    by (simp add: format_currency_def Let_def q1 q2 py_format_2f_def to_float_def)
qed

lemma format_currency_int_error:
  "format_currency (PyInt n) currency = Inl e \<Longrightarrow> e = OverflowError"
  using py_truediv_int [of 1000000 n] py_truediv_int [of 1000 n]
  by (auto simp add: format_currency_def Let_def py_ge_cases py_format_2f_def to_float_def
        float_of_int_cases split: if_splits sum.splits)

lemma format_currency_float_M:
  assumes "1000000 \<le> x" and "x < 2 ^ 1024"
  shows "format_currency (PyFloat (Finite x)) currency
           = Inr ((case symbols currency of Some s \<Rightarrow> s | None \<Rightarrow> currency @ '' '')
                  @ format_2f (Finite (round_real (x / 1000000))) @ ''M'')"
  using py_truediv_finite [of 1000000 x] to_float_divisors assms
  by (simp add: format_currency_def Let_def py_ge_cases py_format_2f_def to_float_def)

lemma format_currency_float_K:
  assumes "1000 \<le> x" and "x < 1000000"
  shows "format_currency (PyFloat (Finite x)) currency
           = Inr ((case symbols currency of Some s \<Rightarrow> s | None \<Rightarrow> currency @ '' '')
                  @ format_2f (Finite (round_real (x / 1000))) @ ''K'')"
proof -
  have "x < 2 ^ 1024" using assms(2) by (rule less_trans) simp
  then show ?thesis
    using py_truediv_finite [of 1000 x] to_float_divisors assms
    by (simp add: format_currency_def Let_def py_ge_cases py_format_2f_def to_float_def)
qed

lemma format_currency_float_plain:
  assumes "x < 1000"
  shows "format_currency (PyFloat (Finite x)) currency
           = Inr ((case symbols currency of Some s \<Rightarrow> s | None \<Rightarrow> currency @ '' '')
                  @ format_2f (Finite x))"
  using assms
  by (simp add: format_currency_def Let_def py_ge_cases py_format_2f_def to_float_def)

lemma format_currency_int_M:
  assumes "1000000 \<le> n" and "n \<le> 2 ^ 1023"
  shows "format_currency (PyInt n) currency
           = Inr ((case symbols currency of Some s \<Rightarrow> s | None \<Rightarrow> currency @ '' '')
                  @ format_2f (Finite (round_real (of_int n / 1000000))) @ ''M'')"
proof -
  have "round_real (of_int n / of_int 1000000) \<le> 2 ^ 1023"
    using assms(2) by (intro quotient_bound) simp_all
  then have "\<not> 2 ^ 1024 \<le> round_real (of_int n / 1000000)" by simp
  then show ?thesis
    using py_truediv_int [of 1000000 n] assms
    by (simp add: format_currency_def Let_def py_ge_cases py_format_2f_def to_float_def)
qed

lemma format_currency_int_K:
  assumes "1000 \<le> n" and "n < 1000000"
  shows "format_currency (PyInt n) currency
           = Inr ((case symbols currency of Some s \<Rightarrow> s | None \<Rightarrow> currency @ '' '')
                  @ format_2f (Finite (round_real (of_int n / 1000))) @ ''K'')"
proof -
  have "n \<le> 2 ^ 1023" using assms(2) by (rule order_trans [OF less_imp_le]) simp
  then have "round_real (of_int n / of_int 1000) \<le> 2 ^ 1023"
    by (intro quotient_bound) simp_all
  then have "\<not> 2 ^ 1024 \<le> round_real (of_int n / 1000)" by simp
  then show ?thesis
    using py_truediv_int [of 1000 n] assms
    by (simp add: format_currency_def Let_def py_ge_cases py_format_2f_def to_float_def)
qed

lemma format_currency_int_plain:
  assumes "- (2 ^ 1023) \<le> n" and "n < 1000"
  shows "format_currency (PyInt n) currency
           = Inr ((case symbols currency of Some s \<Rightarrow> s | None \<Rightarrow> currency @ '' '')
                  @ format_2f (Finite (round_real (of_int n))))"
proof -
  have "n \<le> 2 ^ 1023" using assms(2) by (rule order_trans [OF less_imp_le]) simp
  then have "float_of_int n = Inr (Finite (round_real (of_int n)))"
    using assms(1) by (intro float_of_int_range)
  then show ?thesis
    using assms
    by (simp add: format_currency_def Let_def py_ge_cases py_format_2f_def to_float_def)
qed

lemma format_currency_special:
  "format_currency (PyFloat NegZero) currency
     = Inr ((case symbols currency of Some s \<Rightarrow> s | None \<Rightarrow> currency @ '' '') @ ''-0.00'')"
  "format_currency (PyFloat PosInf) currency
     = Inr ((case symbols currency of Some s \<Rightarrow> s | None \<Rightarrow> currency @ '' '') @ ''infM'')"
  "format_currency (PyFloat NegInf) currency
     = Inr ((case symbols currency of Some s \<Rightarrow> s | None \<Rightarrow> currency @ '' '') @ ''-inf'')"
  "format_currency (PyFloat NaN) currency
     = Inr ((case symbols currency of Some s \<Rightarrow> s | None \<Rightarrow> currency @ '' '') @ ''nan'')"
  using to_float_divisors
  by (simp_all add: format_currency_def Let_def py_ge_cases py_format_2f_def to_float_def
        py_truediv_def float_div_def is_zero_def is_inf_def finf_def sign_bit_def format_2f_def)

lemma format_currency_int_overflow:
  assumes "2 ^ 1024 * 1000000 \<le> n"
  shows "format_currency (PyInt n) currency = Inl OverflowError"
proof -
  have "(2 ^ 1024 * 1000000 :: real) \<le> of_int n"
    using assms by (metis of_int_le_iff of_int_mult of_int_numeral of_int_power)
  then have "(2::real) ^ 1024 \<le> of_int n / of_int 1000000" by (simp add: field_simps)
  then have big: "2 ^ 1024 \<le> round_real (of_int n / of_int 1000000)"
    by (rule round_real_ge_pow2)
  have n: "1000000 \<le> n" by (rule order_trans [OF _ assms]) simp
  have "py_truediv (PyInt n) (PyInt 1000000) = Inl OverflowError"
    using py_truediv_int [of 1000000 n] n big by simp
  then show ?thesis using n by (simp add: format_currency_def Let_def py_ge_cases)
qed

text \<open>
  Claim C10, as stated, fails: \<open>format_currency\<close> is not total. For the \<open>int\<close> amount
  \<open>10 ** 400\<close> the division \<open>amount/1_000_000\<close> raises \<open>OverflowError\<close>, since the
  quotient is too large for a float.
\<close>

theorem format_currency_overflow_counterexample:
  "format_currency (PyInt (10 ^ 400)) ''USD'' = Inl OverflowError"
  by (rule format_currency_int_overflow) simp

text \<open>
  Claim C10, amended. A currency outside the six codes has the prefix
  \<open>currency + ' '\<close>. \<open>format_currency\<close> returns a string for every float amount and for
  every \<open>int\<close> amount of magnitude at most \<open>2 ^ 1023\<close>; its only exception is
  \<open>OverflowError\<close>, raised for \<open>int\<close> amounts beyond that range only. For a finite
  amount of at least 1,000,000 the result is the prefix, the double nearest to
  \<open>amount/1,000,000\<close> to 2 decimal places, and \<open>M\<close>; from 1,000 up to 1,000,000 it
  is the double nearest to \<open>amount/1,000\<close> to 2 decimal places and \<open>K\<close>; below 1,000 it
  is the amount (an \<open>int\<close> converted to a float) to 2 decimal places. The amounts that
  are not finite give \<open>-0.00\<close>, \<open>infM\<close>, \<open>-inf\<close> and \<open>nan\<close> after the prefix.
\<close>

theorem format_currency_cases:
  "(currency \<notin> set [''USD'', ''EUR'', ''GBP'', ''PKR'', ''INR'', ''AED'']
      \<longrightarrow> symbols currency = None)
   \<and> (\<exists>s. format_currency (PyFloat f) currency = Inr s)
   \<and> (- (2 ^ 1023) \<le> n \<and> n \<le> 2 ^ 1023
        \<longrightarrow> (\<exists>s. format_currency (PyInt n) currency = Inr s))
   \<and> (format_currency amount currency = Inl e
        \<longrightarrow> e = OverflowError
            \<and> (\<exists>k. amount = PyInt k \<and> (k < - (2 ^ 1023) \<or> 2 ^ 1023 < k)))
   \<and> (1000000 \<le> x \<and> x < 2 ^ 1024
        \<longrightarrow> (\<exists>body. format_currency (PyFloat (Finite x)) currency
                      = Inr ((case symbols currency of Some s \<Rightarrow> s | None \<Rightarrow> currency @ '' '')
                             @ body @ ''M'')
                    \<and> two_decimal_places (round_real (x / 1000000)) body))
   \<and> (1000 \<le> x \<and> x < 1000000
        \<longrightarrow> (\<exists>body. format_currency (PyFloat (Finite x)) currency
                      = Inr ((case symbols currency of Some s \<Rightarrow> s | None \<Rightarrow> currency @ '' '')
                             @ body @ ''K'')
                    \<and> two_decimal_places (round_real (x / 1000)) body))
   \<and> (x < 1000
        \<longrightarrow> (\<exists>body. format_currency (PyFloat (Finite x)) currency
                      = Inr ((case symbols currency of Some s \<Rightarrow> s | None \<Rightarrow> currency @ '' '')
                             @ body)
                    \<and> two_decimal_places x body))
   \<and> (1000000 \<le> n \<and> n \<le> 2 ^ 1023
        \<longrightarrow> (\<exists>body. format_currency (PyInt n) currency
                      = Inr ((case symbols currency of Some s \<Rightarrow> s | None \<Rightarrow> currency @ '' '')
                             @ body @ ''M'')
                    \<and> two_decimal_places (round_real (of_int n / 1000000)) body))
   \<and> (1000 \<le> n \<and> n < 1000000
        \<longrightarrow> (\<exists>body. format_currency (PyInt n) currency
                      = Inr ((case symbols currency of Some s \<Rightarrow> s | None \<Rightarrow> currency @ '' '')
                             @ body @ ''K'')
                    \<and> two_decimal_places (round_real (of_int n / 1000)) body))
   \<and> (- (2 ^ 1023) \<le> n \<and> n < 1000
        \<longrightarrow> (\<exists>body. format_currency (PyInt n) currency
                      = Inr ((case symbols currency of Some s \<Rightarrow> s | None \<Rightarrow> currency @ '' '')
                             @ body)
                    \<and> two_decimal_places (round_real (of_int n)) body))
   \<and> format_currency (PyFloat NegZero) currency
       = Inr ((case symbols currency of Some s \<Rightarrow> s | None \<Rightarrow> currency @ '' '') @ ''-0.00'')
   \<and> format_currency (PyFloat PosInf) currency
       = Inr ((case symbols currency of Some s \<Rightarrow> s | None \<Rightarrow> currency @ '' '') @ ''infM'')
   \<and> format_currency (PyFloat NegInf) currency
       = Inr ((case symbols currency of Some s \<Rightarrow> s | None \<Rightarrow> currency @ '' '') @ ''-inf'')
   \<and> format_currency (PyFloat NaN) currency
       = Inr ((case symbols currency of Some s \<Rightarrow> s | None \<Rightarrow> currency @ '' '') @ ''nan'')"
proof -
  have sym: "currency \<notin> set [''USD'', ''EUR'', ''GBP'', ''PKR'', ''INR'', ''AED'']
               \<longrightarrow> symbols currency = None"
    by (simp add: symbols_def)
  have int_total: "\<exists>s. format_currency (PyInt k) currency = Inr s"
    if "- (2 ^ 1023) \<le> k" and "k \<le> 2 ^ 1023" for k
  proof -
    consider "1000000 \<le> k" | "1000 \<le> k" "k < 1000000" | "k < 1000" by linarith
    then show ?thesis
    proof cases
      case 1
      then show ?thesis using format_currency_int_M [of k currency] that by simp
    next
      case 2
      then show ?thesis using format_currency_int_K [of k currency] by simp
    next
      case 3
      then show ?thesis using format_currency_int_plain [of k currency] that by simp
    qed
  qed
  have err: "format_currency amount currency = Inl e
        \<longrightarrow> e = OverflowError
            \<and> (\<exists>k. amount = PyInt k \<and> (k < - (2 ^ 1023) \<or> 2 ^ 1023 < k))"
  proof
    assume a: "format_currency amount currency = Inl e"
    show "e = OverflowError \<and> (\<exists>k. amount = PyInt k \<and> (k < - (2 ^ 1023) \<or> 2 ^ 1023 < k))"
    proof (cases amount)
      case (PyInt k)
      have "e = OverflowError" using a PyInt format_currency_int_error by simp
      moreover have "k < - (2 ^ 1023) \<or> 2 ^ 1023 < k"
      proof (rule ccontr)
        assume "\<not> (k < - (2 ^ 1023) \<or> 2 ^ 1023 < k)"
        then have "\<exists>s. format_currency (PyInt k) currency = Inr s"
          by (intro int_total) simp_all
        then show False using a PyInt by simp
      qed
      ultimately show ?thesis using PyInt by simp
    next
      case (PyFloat g)
      then show ?thesis using a format_currency_float_total [of g currency] by simp
    qed
  qed
  show ?thesis
    by (intro conjI impI sym err format_currency_float_total format_currency_special)
      (use int_total in simp,
       (simp only: format_currency_float_M format_currency_float_K format_currency_float_plain
          format_currency_int_M format_currency_int_K format_currency_int_plain
          sum.inject append_same_eq same_append_eq,
        rule exI, rule conjI, rule refl, rule two_decimal_places_format)+)
qed

lemma format_currency_samples:
  "format_currency (PyInt 1015) ''USD'' = Inr ''$1.01K''"
  "format_currency (PyInt 1500000) ''USD'' = Inr ''$1.50M''"
  "format_currency (PyFloat (Finite 0.125)) ''CHF'' = Inr ''CHF 0.12''"
proof -
  have r: "round_real (203 / 200) = 4571153621781053 / 4503599627370496"
    "round_real (3 / 2) = 3 / 2"
    by (simp_all add: round_real_unit round_half_even_def Let_def)
  show "format_currency (PyInt 1015) ''USD'' = Inr ''$1.01K''"
    using format_currency_int_K [of 1015 "''USD''"]
    by (simp add: r format_2f_def round_half_even_def str_nat.simps digit_char_def symbols_def
          Let_def)
  show "format_currency (PyInt 1500000) ''USD'' = Inr ''$1.50M''"
    using format_currency_int_M [of 1500000 "''USD''"]
    by (simp add: r format_2f_def round_half_even_def str_nat.simps digit_char_def symbols_def
          Let_def)
  show "format_currency (PyFloat (Finite 0.125)) ''CHF'' = Inr ''CHF 0.12''"
    using format_currency_float_plain [of "0.125" "''CHF''"]
    by (simp add: format_2f_def round_half_even_def str_nat.simps digit_char_def symbols_def
          Let_def)
qed

theorem format_currency_witness:
  "format_currency (PyInt 1015) ''USD'' = Inr ''$1.01K''
   \<and> format_currency (PyInt 1500000) ''USD'' = Inr ''$1.50M''
   \<and> format_currency (PyFloat (Finite 0.125)) ''CHF'' = Inr ''CHF 0.12''
   \<and> (\<exists>body. format_currency (PyInt 1015) ''USD'' = Inr (''$'' @ body @ ''K'')
              \<and> two_decimal_places (round_real (of_int 1015 / 1000)) body)
   \<and> symbols ''CHF'' = None"
proof -
  note c = format_currency_cases [where n = 1015 and currency = "''USD''"]
  note k = c [THEN conjunct2, THEN conjunct2, THEN conjunct2, THEN conjunct2,
              THEN conjunct2, THEN conjunct2, THEN conjunct2, THEN conjunct2, THEN conjunct1]
  have "\<exists>body. format_currency (PyInt 1015) ''USD''
                 = Inr ((case symbols ''USD'' of Some s \<Rightarrow> s | None \<Rightarrow> ''USD'' @ '' '')
                        @ body @ ''K'')
              \<and> two_decimal_places (round_real (of_int 1015 / 1000)) body"
    by (rule k [THEN mp]) simp
  then have 1: "\<exists>body. format_currency (PyInt 1015) ''USD'' = Inr (''$'' @ body @ ''K'')
              \<and> two_decimal_places (round_real (of_int 1015 / 1000)) body"
    by (simp add: symbols_def)
  have 2: "symbols ''CHF'' = None"
    by (rule format_currency_cases [where currency = "''CHF''", THEN conjunct1, THEN mp]) simp
  show ?thesis
    by (intro conjI) (rule format_currency_samples 1 2)+
qed

subsection \<open>Task descriptions\<close>

lemma sublist_skip: "sublist x ys \<Longrightarrow> sublist x (p @ ys)"
  by (metis append.assoc sublist_def)

lemma sublist_skip_char: "sublist x ys \<Longrightarrow> sublist x (c # ys)"
  by (simp add: sublist_Cons_right)

lemma app_create_tasks_fields:
  "length (app_create_tasks agents data) = 4"
  "sublist (str_int (d_amount data)) (task_description (app_create_tasks agents data ! 0))"
  "sublist (d_currency data) (task_description (app_create_tasks agents data ! 0))"
  "sublist (d_geography data) (task_description (app_create_tasks agents data ! 0))"
  "sublist (d_preferences data) (task_description (app_create_tasks agents data ! 0))"
  "sublist (d_risk_tolerance data) (task_description (app_create_tasks agents data ! 0))"
  "sublist (str_int (d_time_horizon data)) (task_description (app_create_tasks agents data ! 1))"
  unfolding app_create_tasks_def Let_def
  by (cases agents; simp;
      (rule sublist_append_rightI | rule sublist_skip_char | rule sublist_skip)+)+

lemma final_create_tasks_fields:
  "length (final_create_tasks agents data) = 4"
  "sublist (str_int (d_amount data)) (task_description (final_create_tasks agents data ! 0))"
  "sublist (d_currency data) (task_description (final_create_tasks agents data ! 0))"
  "sublist (d_geography data) (task_description (final_create_tasks agents data ! 0))"
  "sublist (d_preferences data) (task_description (final_create_tasks agents data ! 0))"
  "sublist (d_risk_tolerance data) (task_description (final_create_tasks agents data ! 2))"
  "sublist (str_int (d_time_horizon data)) (task_description (final_create_tasks agents data ! 1))"
  unfolding final_create_tasks_def Let_def
  by (cases agents; simp;
      (rule sublist_append_rightI | rule sublist_skip_char | rule sublist_skip)+)+

lemma claude_create_tasks_fields:
  "length (claude_create_tasks agents data) = 4"
  "sublist (str_int (d_amount data)) (task_description (claude_create_tasks agents data ! 0))"
  "sublist (d_currency data) (task_description (claude_create_tasks agents data ! 0))"
  "sublist (d_geography data) (task_description (claude_create_tasks agents data ! 0))"
  "sublist (d_preferences data) (task_description (claude_create_tasks agents data ! 0))"
  "sublist (d_risk_tolerance data) (task_description (claude_create_tasks agents data ! 2))"
  "sublist (str_int (d_time_horizon data)) (task_description (claude_create_tasks agents data ! 3))"
  unfolding claude_create_tasks_def Let_def
  by (cases agents; simp;
      (rule sublist_append_rightI | rule sublist_skip_char | rule sublist_skip)+)+

lemma description_in_tasks:
  "i < length tasks \<Longrightarrow> sublist v (task_description (tasks ! i))
     \<Longrightarrow> \<exists>t \<in> set tasks. sublist v (task_description t)"
  using nth_mem by blast

lemma app_create_tasks_mentions:
  "\<exists>t \<in> set (app_create_tasks agents data). sublist (str_int (d_amount data)) (task_description t)"
  "\<exists>t \<in> set (app_create_tasks agents data). sublist (d_currency data) (task_description t)"
  "\<exists>t \<in> set (app_create_tasks agents data). sublist (d_geography data) (task_description t)"
  "\<exists>t \<in> set (app_create_tasks agents data). sublist (d_preferences data) (task_description t)"
  "\<exists>t \<in> set (app_create_tasks agents data). sublist (d_risk_tolerance data) (task_description t)"
  "\<exists>t \<in> set (app_create_tasks agents data). sublist (str_int (d_time_horizon data)) (task_description t)"
  by ((rule description_in_tasks [OF _ app_create_tasks_fields(2)] description_in_tasks [OF _ app_create_tasks_fields(3)] description_in_tasks [OF _ app_create_tasks_fields(4)] description_in_tasks [OF _ app_create_tasks_fields(5)] description_in_tasks [OF _ app_create_tasks_fields(6)] description_in_tasks [OF _ app_create_tasks_fields(7)],
       simp add: app_create_tasks_fields(1))+)

lemma final_create_tasks_mentions:
  "\<exists>t \<in> set (final_create_tasks agents data). sublist (str_int (d_amount data)) (task_description t)"
  "\<exists>t \<in> set (final_create_tasks agents data). sublist (d_currency data) (task_description t)"
  "\<exists>t \<in> set (final_create_tasks agents data). sublist (d_geography data) (task_description t)"
  "\<exists>t \<in> set (final_create_tasks agents data). sublist (d_preferences data) (task_description t)"
  "\<exists>t \<in> set (final_create_tasks agents data). sublist (d_risk_tolerance data) (task_description t)"
  "\<exists>t \<in> set (final_create_tasks agents data). sublist (str_int (d_time_horizon data)) (task_description t)"
  by ((rule description_in_tasks [OF _ final_create_tasks_fields(2)] description_in_tasks [OF _ final_create_tasks_fields(3)] description_in_tasks [OF _ final_create_tasks_fields(4)] description_in_tasks [OF _ final_create_tasks_fields(5)] description_in_tasks [OF _ final_create_tasks_fields(6)] description_in_tasks [OF _ final_create_tasks_fields(7)],
       simp add: final_create_tasks_fields(1))+)

lemma claude_create_tasks_mentions:
  "\<exists>t \<in> set (claude_create_tasks agents data). sublist (str_int (d_amount data)) (task_description t)"
  "\<exists>t \<in> set (claude_create_tasks agents data). sublist (d_currency data) (task_description t)"
  "\<exists>t \<in> set (claude_create_tasks agents data). sublist (d_geography data) (task_description t)"
  "\<exists>t \<in> set (claude_create_tasks agents data). sublist (d_preferences data) (task_description t)"
  "\<exists>t \<in> set (claude_create_tasks agents data). sublist (d_risk_tolerance data) (task_description t)"
  "\<exists>t \<in> set (claude_create_tasks agents data). sublist (str_int (d_time_horizon data)) (task_description t)"
  by ((rule description_in_tasks [OF _ claude_create_tasks_fields(2)] description_in_tasks [OF _ claude_create_tasks_fields(3)] description_in_tasks [OF _ claude_create_tasks_fields(4)] description_in_tasks [OF _ claude_create_tasks_fields(5)] description_in_tasks [OF _ claude_create_tasks_fields(6)] description_in_tasks [OF _ claude_create_tasks_fields(7)],
       simp add: claude_create_tasks_fields(1))+)

text \<open>
  Claim C7. In each application file \<open>create_tasks\<close> builds four tasks, and each of
  the six values of the request (the two numbers as \<open>str\<close> writes them) is a
  substring of the description of one of them.
\<close>

theorem create_tasks_embed_request:
  "length (app_create_tasks agents data) = 4
   \<and> length (final_create_tasks agents data) = 4
   \<and> length (claude_create_tasks agents data) = 4
   \<and> (\<forall>v \<in> set [str_int (d_amount data), d_currency data, d_geography data,
                  d_preferences data, d_risk_tolerance data, str_int (d_time_horizon data)].
        (\<exists>t \<in> set (app_create_tasks agents data). sublist v (task_description t))
      \<and> (\<exists>t \<in> set (final_create_tasks agents data). sublist v (task_description t))
      \<and> (\<exists>t \<in> set (claude_create_tasks agents data). sublist v (task_description t)))"
  by (simp add: app_create_tasks_fields(1) final_create_tasks_fields(1)
        claude_create_tasks_fields(1) app_create_tasks_mentions final_create_tasks_mentions
        claude_create_tasks_mentions)

theorem create_tasks_embed_request_witness:
  "str_int (d_time_horizon sample_data) = ''10''
   \<and> (\<exists>t \<in> set (app_create_tasks sample_agents sample_data).
         sublist ''10'' (task_description t))
   \<and> (\<exists>t \<in> set (final_create_tasks sample_agents sample_data).
         sublist ''10'' (task_description t))
   \<and> (\<exists>t \<in> set (claude_create_tasks sample_agents sample_data).
         sublist ''10'' (task_description t))"
proof -
  have v: "str_int (d_time_horizon sample_data) = ''10''"
    by (simp add: sample_data_def str_int_def str_nat.simps digit_char_def)
  have "str_int (d_time_horizon sample_data)
          \<in> set [str_int (d_amount sample_data), d_currency sample_data,
                   d_geography sample_data, d_preferences sample_data,
                   d_risk_tolerance sample_data, str_int (d_time_horizon sample_data)]"
    by simp
  with create_tasks_embed_request [of sample_agents sample_data]
  have "(\<exists>t \<in> set (app_create_tasks sample_agents sample_data).
            sublist (str_int (d_time_horizon sample_data)) (task_description t))
      \<and> (\<exists>t \<in> set (final_create_tasks sample_agents sample_data).
            sublist (str_int (d_time_horizon sample_data)) (task_description t))
      \<and> (\<exists>t \<in> set (claude_create_tasks sample_agents sample_data).
            sublist (str_int (d_time_horizon sample_data)) (task_description t))"
    by blast
  with v show ?thesis by simp
qed

subsection \<open>The runs of the three pages\<close>

subsubsection \<open>app: the runner, the button handler and the display\<close>

lemma app_run_kickoff:
  "\<exists>req rest. fst (app_run_analysis crew data k s env) = Kickoff req # rest
      \<and> req_api_key req = k \<and> req_search_key req = s
      \<and> (\<forall>r. Kickoff r \<notin> set rest)
      \<and> (\<forall>l d f m. StDownloadButton l d f m \<notin> set rest)"
  unfolding app_run_analysis_def Let_def
  by (auto split: prod.splits crew_outcome.splits option.splits)

lemma app_run_result:
  "fst (snd (app_run_analysis crew data k s env)) = Some r \<Longrightarrow> \<exists>req. crew req = Returned (Some r)"
  unfolding app_run_analysis_def Let_def
  by (auto split: prod.splits crew_outcome.splits option.splits if_splits)

lemma app_generate_report_events:
  "k = [] \<or> s = [] \<Longrightarrow>
     fst (app_generate_report crew inp k s st) = [StError (warning_sign @ '' Provide credentials in sidebar.'')]"
  "Kickoff req \<in> set (fst (app_generate_report crew inp k s st))
     \<Longrightarrow> k \<noteq> [] \<and> s \<noteq> [] \<and> req_api_key req = k \<and> req_search_key req = s"
  "StDownloadButton l d f m \<notin> set (fst (app_generate_report crew inp k s st))"
proof -
  obtain session environ where st: "st = (session, environ)" by (cases st)
  obtain rq rest where r:
      "fst (app_run_analysis crew (investment_data_of inp) k s environ) = Kickoff rq # rest"
      "req_api_key rq = k" "req_search_key rq = s" "\<forall>r. Kickoff r \<notin> set rest"
      "\<forall>l d f m. StDownloadButton l d f m \<notin> set rest"
    using app_run_kickoff by blast
  show "k = [] \<or> s = [] \<Longrightarrow>
     fst (app_generate_report crew inp k s st) = [StError (warning_sign @ '' Provide credentials in sidebar.'')]"
    unfolding app_generate_report_def Let_def
    by (auto split: prod.splits)
  show "Kickoff req \<in> set (fst (app_generate_report crew inp k s st))
     \<Longrightarrow> k \<noteq> [] \<and> s \<noteq> [] \<and> req_api_key req = k \<and> req_search_key req = s"
    unfolding app_generate_report_def Let_def st
    using r by (auto split: if_splits prod.splits)
  show "StDownloadButton l d f m \<notin> set (fst (app_generate_report crew inp k s st))"
    unfolding app_generate_report_def Let_def st
    using r by (auto split: if_splits prod.splits)
qed

lemma app_generate_report_session:
  "ss_report (fst (snd (app_generate_report crew inp k s (session, environ)))) = Some r
   \<Longrightarrow> ss_report session = Some r \<or> (\<exists>req. crew req = Returned (Some r))"
  unfolding app_generate_report_def Let_def
  using app_run_result [where crew = crew and data = "investment_data_of inp" and k = k
      and s = s and env = environ and r = r]
  by (auto split: if_splits prod.splits)

lemma app_show_report_events:
  "StDownloadButton l d f m \<in> set (app_show_report now session)
     \<longleftrightarrow> ss_done session \<and> ss_report session = Some d \<and> d \<noteq> []
         \<and> l = inbox_tray @ '' Download Report''
         \<and> f = ''report_'' @ strftime_stamp now @ ''.md'' \<and> m = ''text/markdown''"
  "ss_done session \<Longrightarrow> ss_report session = Some r \<Longrightarrow> r \<noteq> []
     \<Longrightarrow> StMarkdown r \<in> set (app_show_report now session)"
  "Kickoff req \<notin> set (app_show_report now session)"
  unfolding app_show_report_def
  by (auto split: option.splits)

lemma app_sidebar_events:
  "StDownloadButton l d f m \<notin> set (fst (app_sidebar environ inp))"
  "Kickoff req \<notin> set (fst (app_sidebar environ inp))"
  "StError e \<notin> set (fst (app_sidebar environ inp))"
  unfolding app_sidebar_def Let_def by simp_all

lemma app_sidebar_keys:
  "fst (snd (app_sidebar environ inp))
     = text_input (getenv environ ''OPENAI_API_KEY'' []) (in_api_key inp)"
  "snd (snd (app_sidebar environ inp))
     = text_input (getenv environ ''SERPER_API_KEY'' []) (in_search_key inp)"
  unfolding app_sidebar_def Let_def by simp_all

lemma app_main_parts:
  "fst (app_main crew now inp st) =
     fst (app_sidebar (snd st) inp)
     @ (if in_button inp
        then fst (app_generate_report crew inp (fst (snd (app_sidebar (snd st) inp)))
                    (snd (snd (app_sidebar (snd st) inp))) (init_session (fst st), snd st))
        else [])
     @ app_show_report now (fst (snd (app_main crew now inp st)))"
  "fst (snd (app_main crew now inp st)) =
     (if in_button inp
      then fst (snd (app_generate_report crew inp (fst (snd (app_sidebar (snd st) inp)))
                    (snd (snd (app_sidebar (snd st) inp))) (init_session (fst st), snd st)))
      else init_session (fst st))"
  unfolding app_main_def Let_def
  by (simp_all split: prod.splits)

lemma app_main_kickoff:
  "Kickoff req \<in> set (fst (app_main crew now inp st))
     \<Longrightarrow> in_button inp
       \<and> req_api_key req \<noteq> [] \<and> req_search_key req \<noteq> []
       \<and> req_api_key req = fst (snd (app_sidebar (snd st) inp))
       \<and> req_search_key req = snd (snd (app_sidebar (snd st) inp))"
  unfolding app_main_parts(1)
  using app_generate_report_events(2) [where req = req and crew = crew and inp = inp
      and k = "fst (snd (app_sidebar (snd st) inp))"
      and s = "snd (snd (app_sidebar (snd st) inp))"
      and st = "(init_session (fst st), snd st)"]
  by (auto simp: app_sidebar_events app_show_report_events(3) split: if_splits)

lemma app_main_blocked:
  assumes "in_button inp"
    and "fst (snd (app_sidebar (snd st) inp)) = [] \<or> snd (snd (app_sidebar (snd st) inp)) = []"
  shows "StError (warning_sign @ '' Provide credentials in sidebar.'') \<in> set (fst (app_main crew now inp st))"
    and "Kickoff req \<notin> set (fst (app_main crew now inp st))"
  unfolding app_main_parts(1)
  using assms
  by (simp_all add: app_generate_report_events(1) app_sidebar_events app_show_report_events(3))

lemma app_main_gate:
  "Kickoff req \<in> set (fst (app_main crew now inp st))
      \<longrightarrow> in_button inp \<and> req_api_key req \<noteq> [] \<and> req_search_key req \<noteq> []"
  "in_button inp
        \<and> (fst (snd (app_sidebar (snd st) inp)) = []
            \<or> snd (snd (app_sidebar (snd st) inp)) = [])
      \<longrightarrow> StError (warning_sign @ '' Provide credentials in sidebar.'')
            \<in> set (fst (app_main crew now inp st))
          \<and> (\<forall>r. Kickoff r \<notin> set (fst (app_main crew now inp st)))"
proof -
  show "Kickoff req \<in> set (fst (app_main crew now inp st))
      \<longrightarrow> in_button inp \<and> req_api_key req \<noteq> [] \<and> req_search_key req \<noteq> []"
  proof
    assume "Kickoff req \<in> set (fst (app_main crew now inp st))"
    from app_main_kickoff [OF this]
    show "in_button inp \<and> req_api_key req \<noteq> [] \<and> req_search_key req \<noteq> []"
      by (elim conjE) (intro conjI)
  qed
  show "in_button inp
        \<and> (fst (snd (app_sidebar (snd st) inp)) = []
            \<or> snd (snd (app_sidebar (snd st) inp)) = [])
      \<longrightarrow> StError (warning_sign @ '' Provide credentials in sidebar.'')
            \<in> set (fst (app_main crew now inp st))
          \<and> (\<forall>r. Kickoff r \<notin> set (fst (app_main crew now inp st)))"
  proof (intro impI conjI allI)
    fix r
    assume h: "in_button inp
        \<and> (fst (snd (app_sidebar (snd st) inp)) = []
            \<or> snd (snd (app_sidebar (snd st) inp)) = [])"
    show "StError (warning_sign @ '' Provide credentials in sidebar.'') \<in> set (fst (app_main crew now inp st))"
      by (rule app_main_blocked(1) [OF h [THEN conjunct1] h [THEN conjunct2]])
    show "Kickoff r \<notin> set (fst (app_main crew now inp st))"
      by (rule app_main_blocked(2) [OF h [THEN conjunct1] h [THEN conjunct2]])
  qed
qed

lemma app_main_download:
  "StDownloadButton l d f m \<in> set (fst (app_main crew now inp st))
     \<longleftrightarrow> ss_done (fst (snd (app_main crew now inp st)))
         \<and> ss_report (fst (snd (app_main crew now inp st))) = Some d \<and> d \<noteq> []
         \<and> l = inbox_tray @ '' Download Report''
         \<and> f = ''report_'' @ strftime_stamp now @ ''.md'' \<and> m = ''text/markdown''"
proof -
  have "StDownloadButton l d f m \<in> set (fst (app_main crew now inp st))
     \<longleftrightarrow> StDownloadButton l d f m
           \<in> set (app_show_report now (fst (snd (app_main crew now inp st))))"
    by (subst app_main_parts(1))
       (simp add: app_sidebar_events(1) app_generate_report_events(3))
  then show ?thesis
    by (simp only: app_show_report_events(1))
qed

lemma app_main_markdown:
  "ss_done (fst (snd (app_main crew now inp st)))
     \<Longrightarrow> ss_report (fst (snd (app_main crew now inp st))) = Some r \<Longrightarrow> r \<noteq> []
     \<Longrightarrow> StMarkdown r \<in> set (fst (app_main crew now inp st))"
  by (subst app_main_parts(1)) (simp add: app_show_report_events(2))

lemma app_main_report:
  "ss_report (fst (snd (app_main crew now inp st))) = Some r
     \<Longrightarrow> (\<exists>s0. fst st = Some s0 \<and> ss_report s0 = Some r)
         \<or> (\<exists>req. crew req = Returned (Some r))"
  unfolding app_main_parts(2)
  using app_generate_report_session [where crew = crew and inp = inp
      and k = "fst (snd (app_sidebar (snd st) inp))"
      and s = "snd (snd (app_sidebar (snd st) inp))"
      and session = "init_session (fst st)" and environ = "snd st" and r = r]
  by (cases "fst st") (auto simp: init_session_def split: if_splits)

lemma app_main_offer:
  "ss_done (fst (snd (app_main crew now inp st)))
     \<and> ss_report (fst (snd (app_main crew now inp st))) = Some r \<and> r \<noteq> []
   \<longrightarrow> StMarkdown r \<in> set (fst (app_main crew now inp st))
     \<and> StDownloadButton (inbox_tray @ '' Download Report'') r
         (''report_'' @ strftime_stamp now @ ''.md'') ''text/markdown''
       \<in> set (fst (app_main crew now inp st))"
  "StDownloadButton l d f m \<in> set (fst (app_main crew now inp st))
   \<longrightarrow> ss_done (fst (snd (app_main crew now inp st)))
     \<and> ss_report (fst (snd (app_main crew now inp st))) = Some d \<and> d \<noteq> []
     \<and> l = inbox_tray @ '' Download Report''
     \<and> f = ''report_'' @ strftime_stamp now @ ''.md'' \<and> m = ''text/markdown''"
  "ss_report (fst (snd (app_main crew now inp st))) = Some r
   \<longrightarrow> (\<exists>s0. fst st = Some s0 \<and> ss_report s0 = Some r)
       \<or> (\<exists>req. crew req = Returned (Some r))"
proof -
  show "ss_done (fst (snd (app_main crew now inp st)))
     \<and> ss_report (fst (snd (app_main crew now inp st))) = Some r \<and> r \<noteq> []
   \<longrightarrow> StMarkdown r \<in> set (fst (app_main crew now inp st))
     \<and> StDownloadButton (inbox_tray @ '' Download Report'') r
         (''report_'' @ strftime_stamp now @ ''.md'') ''text/markdown''
       \<in> set (fst (app_main crew now inp st))"
  proof (intro impI conjI)
    assume h: "ss_done (fst (snd (app_main crew now inp st)))
      \<and> ss_report (fst (snd (app_main crew now inp st))) = Some r \<and> r \<noteq> []"
    show "StMarkdown r \<in> set (fst (app_main crew now inp st))"
      by (rule app_main_markdown [OF h [THEN conjunct1] h [THEN conjunct2, THEN conjunct1]
            h [THEN conjunct2, THEN conjunct2]])
    show "StDownloadButton (inbox_tray @ '' Download Report'') r
         (''report_'' @ strftime_stamp now @ ''.md'') ''text/markdown''
       \<in> set (fst (app_main crew now inp st))"
      by (rule app_main_download [THEN iffD2])
         (intro conjI refl h [THEN conjunct1] h [THEN conjunct2, THEN conjunct1]
            h [THEN conjunct2, THEN conjunct2])
  qed
  show "StDownloadButton l d f m \<in> set (fst (app_main crew now inp st))
   \<longrightarrow> ss_done (fst (snd (app_main crew now inp st)))
     \<and> ss_report (fst (snd (app_main crew now inp st))) = Some d \<and> d \<noteq> []
     \<and> l = inbox_tray @ '' Download Report''
     \<and> f = ''report_'' @ strftime_stamp now @ ''.md'' \<and> m = ''text/markdown''"
    by (rule impI) (rule app_main_download [THEN iffD1])
  show "ss_report (fst (snd (app_main crew now inp st))) = Some r
   \<longrightarrow> (\<exists>s0. fst st = Some s0 \<and> ss_report s0 = Some r)
       \<or> (\<exists>req. crew req = Returned (Some r))"
    by (rule impI) (rule app_main_report)
qed

subsubsection \<open>final: the runner, the button handler and the display\<close>

lemma final_run_kickoff:
  "\<exists>req rest. fst (final_run_analysis crew data k s env) = Kickoff req # rest
      \<and> req_api_key req = k \<and> req_search_key req = s
      \<and> (\<forall>r. Kickoff r \<notin> set rest)
      \<and> (\<forall>l d f m. StDownloadButton l d f m \<notin> set rest)"
  unfolding final_run_analysis_def Let_def
  by (auto split: prod.splits crew_outcome.splits option.splits)

lemma final_run_result:
  "fst (snd (final_run_analysis crew data k s env)) = Some r \<Longrightarrow> \<exists>req. crew req = Returned (Some r)"
  unfolding final_run_analysis_def Let_def
  by (auto split: prod.splits crew_outcome.splits option.splits if_splits)

lemma final_generate_report_events:
  "k = [] \<or> s = [] \<Longrightarrow>
     fst (final_generate_report crew inp k s st) = [StError (warning_sign @ '' Please provide your access credentials in the sidebar.'')]"
  "Kickoff req \<in> set (fst (final_generate_report crew inp k s st))
     \<Longrightarrow> k \<noteq> [] \<and> s \<noteq> [] \<and> req_api_key req = k \<and> req_search_key req = s"
  "StDownloadButton l d f m \<notin> set (fst (final_generate_report crew inp k s st))"
proof -
  obtain session environ where st: "st = (session, environ)" by (cases st)
  obtain rq rest where r:
      "fst (final_run_analysis crew (investment_data_of inp) k s environ) = Kickoff rq # rest"
      "req_api_key rq = k" "req_search_key rq = s" "\<forall>r. Kickoff r \<notin> set rest"
      "\<forall>l d f m. StDownloadButton l d f m \<notin> set rest"
    using final_run_kickoff by blast
  show "k = [] \<or> s = [] \<Longrightarrow>
     fst (final_generate_report crew inp k s st) = [StError (warning_sign @ '' Please provide your access credentials in the sidebar.'')]"
    unfolding final_generate_report_def Let_def
    by (auto split: prod.splits)
  show "Kickoff req \<in> set (fst (final_generate_report crew inp k s st))
     \<Longrightarrow> k \<noteq> [] \<and> s \<noteq> [] \<and> req_api_key req = k \<and> req_search_key req = s"
    unfolding final_generate_report_def Let_def st
    using r by (auto split: if_splits prod.splits)
  show "StDownloadButton l d f m \<notin> set (fst (final_generate_report crew inp k s st))"
    unfolding final_generate_report_def Let_def st
    using r by (auto split: if_splits prod.splits)
qed

lemma final_generate_report_session:
  "ss_report (fst (snd (final_generate_report crew inp k s (session, environ)))) = Some r
   \<Longrightarrow> ss_report session = Some r \<or> (\<exists>req. crew req = Returned (Some r))"
  unfolding final_generate_report_def Let_def
  using final_run_result [where crew = crew and data = "investment_data_of inp" and k = k
      and s = s and env = environ and r = r]
  by (auto split: if_splits prod.splits)

lemma final_show_report_events:
  "StDownloadButton l d f m \<in> set (final_show_report now session)
     \<longleftrightarrow> ss_done session \<and> ss_report session = Some d \<and> d \<noteq> []
         \<and> l = inbox_tray @ '' Download Complete Report''
         \<and> f = ''investment_report_'' @ strftime_stamp now @ ''.md'' \<and> m = ''text/markdown''"
  "ss_done session \<Longrightarrow> ss_report session = Some r \<Longrightarrow> r \<noteq> []
     \<Longrightarrow> StMarkdown r \<in> set (final_show_report now session)"
  "Kickoff req \<notin> set (final_show_report now session)"
  unfolding final_show_report_def
  by (auto split: option.splits)

lemma final_sidebar_events:
  "StDownloadButton l d f m \<notin> set (fst (final_sidebar environ inp))"
  "Kickoff req \<notin> set (fst (final_sidebar environ inp))"
  "StError e \<notin> set (fst (final_sidebar environ inp))"
  unfolding final_sidebar_def Let_def by simp_all

lemma final_sidebar_keys:
  "fst (snd (final_sidebar environ inp))
     = text_input (getenv environ ''OPENAI_API_KEY'' []) (in_api_key inp)"
  "snd (snd (final_sidebar environ inp))
     = text_input (getenv environ ''SERPER_API_KEY'' []) (in_search_key inp)"
  unfolding final_sidebar_def Let_def by simp_all

lemma final_main_parts:
  "fst (final_main crew now inp st) =
     fst (final_sidebar (snd st) inp)
     @ (if in_button inp
        then fst (final_generate_report crew inp (fst (snd (final_sidebar (snd st) inp)))
                    (snd (snd (final_sidebar (snd st) inp))) (init_session (fst st), snd st))
        else [])
     @ final_show_report now (fst (snd (final_main crew now inp st)))"
  "fst (snd (final_main crew now inp st)) =
     (if in_button inp
      then fst (snd (final_generate_report crew inp (fst (snd (final_sidebar (snd st) inp)))
                    (snd (snd (final_sidebar (snd st) inp))) (init_session (fst st), snd st)))
      else init_session (fst st))"
  unfolding final_main_def Let_def
  by (simp_all split: prod.splits)

lemma final_main_kickoff:
  "Kickoff req \<in> set (fst (final_main crew now inp st))
     \<Longrightarrow> in_button inp
       \<and> req_api_key req \<noteq> [] \<and> req_search_key req \<noteq> []
       \<and> req_api_key req = fst (snd (final_sidebar (snd st) inp))
       \<and> req_search_key req = snd (snd (final_sidebar (snd st) inp))"
  unfolding final_main_parts(1)
  using final_generate_report_events(2) [where req = req and crew = crew and inp = inp
      and k = "fst (snd (final_sidebar (snd st) inp))"
      and s = "snd (snd (final_sidebar (snd st) inp))"
      and st = "(init_session (fst st), snd st)"]
  by (auto simp: final_sidebar_events final_show_report_events(3) split: if_splits)

lemma final_main_blocked:
  assumes "in_button inp"
    and "fst (snd (final_sidebar (snd st) inp)) = [] \<or> snd (snd (final_sidebar (snd st) inp)) = []"
  shows "StError (warning_sign @ '' Please provide your access credentials in the sidebar.'') \<in> set (fst (final_main crew now inp st))"
    and "Kickoff req \<notin> set (fst (final_main crew now inp st))"
  unfolding final_main_parts(1)
  using assms
  by (simp_all add: final_generate_report_events(1) final_sidebar_events final_show_report_events(3))

lemma final_main_gate:
  "Kickoff req \<in> set (fst (final_main crew now inp st))
      \<longrightarrow> in_button inp \<and> req_api_key req \<noteq> [] \<and> req_search_key req \<noteq> []"
  "in_button inp
        \<and> (fst (snd (final_sidebar (snd st) inp)) = []
            \<or> snd (snd (final_sidebar (snd st) inp)) = [])
      \<longrightarrow> StError (warning_sign @ '' Please provide your access credentials in the sidebar.'')
            \<in> set (fst (final_main crew now inp st))
          \<and> (\<forall>r. Kickoff r \<notin> set (fst (final_main crew now inp st)))"
proof -
  show "Kickoff req \<in> set (fst (final_main crew now inp st))
      \<longrightarrow> in_button inp \<and> req_api_key req \<noteq> [] \<and> req_search_key req \<noteq> []"
  proof
    assume "Kickoff req \<in> set (fst (final_main crew now inp st))"
    from final_main_kickoff [OF this]
    show "in_button inp \<and> req_api_key req \<noteq> [] \<and> req_search_key req \<noteq> []"
      by (elim conjE) (intro conjI)
  qed
  show "in_button inp
        \<and> (fst (snd (final_sidebar (snd st) inp)) = []
            \<or> snd (snd (final_sidebar (snd st) inp)) = [])
      \<longrightarrow> StError (warning_sign @ '' Please provide your access credentials in the sidebar.'')
            \<in> set (fst (final_main crew now inp st))
          \<and> (\<forall>r. Kickoff r \<notin> set (fst (final_main crew now inp st)))"
  proof (intro impI conjI allI)
    fix r
    assume h: "in_button inp
        \<and> (fst (snd (final_sidebar (snd st) inp)) = []
            \<or> snd (snd (final_sidebar (snd st) inp)) = [])"
    show "StError (warning_sign @ '' Please provide your access credentials in the sidebar.'') \<in> set (fst (final_main crew now inp st))"
      by (rule final_main_blocked(1) [OF h [THEN conjunct1] h [THEN conjunct2]])
    show "Kickoff r \<notin> set (fst (final_main crew now inp st))"
      by (rule final_main_blocked(2) [OF h [THEN conjunct1] h [THEN conjunct2]])
  qed
qed

lemma final_main_download:
  "StDownloadButton l d f m \<in> set (fst (final_main crew now inp st))
     \<longleftrightarrow> ss_done (fst (snd (final_main crew now inp st)))
         \<and> ss_report (fst (snd (final_main crew now inp st))) = Some d \<and> d \<noteq> []
         \<and> l = inbox_tray @ '' Download Complete Report''
         \<and> f = ''investment_report_'' @ strftime_stamp now @ ''.md'' \<and> m = ''text/markdown''"
proof -
  have "StDownloadButton l d f m \<in> set (fst (final_main crew now inp st))
     \<longleftrightarrow> StDownloadButton l d f m
           \<in> set (final_show_report now (fst (snd (final_main crew now inp st))))"
    by (subst final_main_parts(1))
       (simp add: final_sidebar_events(1) final_generate_report_events(3))
  then show ?thesis
    by (simp only: final_show_report_events(1))
qed

lemma final_main_markdown:
  "ss_done (fst (snd (final_main crew now inp st)))
     \<Longrightarrow> ss_report (fst (snd (final_main crew now inp st))) = Some r \<Longrightarrow> r \<noteq> []
     \<Longrightarrow> StMarkdown r \<in> set (fst (final_main crew now inp st))"
  by (subst final_main_parts(1)) (simp add: final_show_report_events(2))

lemma final_main_report:
  "ss_report (fst (snd (final_main crew now inp st))) = Some r
     \<Longrightarrow> (\<exists>s0. fst st = Some s0 \<and> ss_report s0 = Some r)
         \<or> (\<exists>req. crew req = Returned (Some r))"
  unfolding final_main_parts(2)
  using final_generate_report_session [where crew = crew and inp = inp
      and k = "fst (snd (final_sidebar (snd st) inp))"
      and s = "snd (snd (final_sidebar (snd st) inp))"
      and session = "init_session (fst st)" and environ = "snd st" and r = r]
  by (cases "fst st") (auto simp: init_session_def split: if_splits)

lemma final_main_offer:
  "ss_done (fst (snd (final_main crew now inp st)))
     \<and> ss_report (fst (snd (final_main crew now inp st))) = Some r \<and> r \<noteq> []
   \<longrightarrow> StMarkdown r \<in> set (fst (final_main crew now inp st))
     \<and> StDownloadButton (inbox_tray @ '' Download Complete Report'') r
         (''investment_report_'' @ strftime_stamp now @ ''.md'') ''text/markdown''
       \<in> set (fst (final_main crew now inp st))"
  "StDownloadButton l d f m \<in> set (fst (final_main crew now inp st))
   \<longrightarrow> ss_done (fst (snd (final_main crew now inp st)))
     \<and> ss_report (fst (snd (final_main crew now inp st))) = Some d \<and> d \<noteq> []
     \<and> l = inbox_tray @ '' Download Complete Report''
     \<and> f = ''investment_report_'' @ strftime_stamp now @ ''.md'' \<and> m = ''text/markdown''"
  "ss_report (fst (snd (final_main crew now inp st))) = Some r
   \<longrightarrow> (\<exists>s0. fst st = Some s0 \<and> ss_report s0 = Some r)
       \<or> (\<exists>req. crew req = Returned (Some r))"
proof -
  show "ss_done (fst (snd (final_main crew now inp st)))
     \<and> ss_report (fst (snd (final_main crew now inp st))) = Some r \<and> r \<noteq> []
   \<longrightarrow> StMarkdown r \<in> set (fst (final_main crew now inp st))
     \<and> StDownloadButton (inbox_tray @ '' Download Complete Report'') r
         (''investment_report_'' @ strftime_stamp now @ ''.md'') ''text/markdown''
       \<in> set (fst (final_main crew now inp st))"
  proof (intro impI conjI)
    assume h: "ss_done (fst (snd (final_main crew now inp st)))
      \<and> ss_report (fst (snd (final_main crew now inp st))) = Some r \<and> r \<noteq> []"
    show "StMarkdown r \<in> set (fst (final_main crew now inp st))"
      by (rule final_main_markdown [OF h [THEN conjunct1] h [THEN conjunct2, THEN conjunct1]
            h [THEN conjunct2, THEN conjunct2]])
    show "StDownloadButton (inbox_tray @ '' Download Complete Report'') r
         (''investment_report_'' @ strftime_stamp now @ ''.md'') ''text/markdown''
       \<in> set (fst (final_main crew now inp st))"
      by (rule final_main_download [THEN iffD2])
         (intro conjI refl h [THEN conjunct1] h [THEN conjunct2, THEN conjunct1]
            h [THEN conjunct2, THEN conjunct2])
  qed
  show "StDownloadButton l d f m \<in> set (fst (final_main crew now inp st))
   \<longrightarrow> ss_done (fst (snd (final_main crew now inp st)))
     \<and> ss_report (fst (snd (final_main crew now inp st))) = Some d \<and> d \<noteq> []
     \<and> l = inbox_tray @ '' Download Complete Report''
     \<and> f = ''investment_report_'' @ strftime_stamp now @ ''.md'' \<and> m = ''text/markdown''"
    by (rule impI) (rule final_main_download [THEN iffD1])
  show "ss_report (fst (snd (final_main crew now inp st))) = Some r
   \<longrightarrow> (\<exists>s0. fst st = Some s0 \<and> ss_report s0 = Some r)
       \<or> (\<exists>req. crew req = Returned (Some r))"
    by (rule impI) (rule final_main_report)
qed

subsubsection \<open>claude: the runner, the button handler and the display\<close>

lemma claude_run_kickoff:
  "\<exists>req rest. fst (claude_run_investment_analysis crew data k s mn env) = Kickoff req # rest
      \<and> req_api_key req = k \<and> req_search_key req = s
      \<and> (\<forall>r. Kickoff r \<notin> set rest)
      \<and> (\<forall>l d f m. StDownloadButton l d f m \<notin> set rest)"
  unfolding claude_run_investment_analysis_def Let_def
  by (auto split: prod.splits crew_outcome.splits option.splits)

lemma claude_run_result:
  "fst (snd (claude_run_investment_analysis crew data k s mn env)) = Some r \<Longrightarrow> \<exists>req. crew req = Returned (Some r)"
  unfolding claude_run_investment_analysis_def Let_def
  by (auto split: prod.splits crew_outcome.splits option.splits if_splits)

lemma claude_generate_report_events:
  "k = [] \<or> s = [] \<Longrightarrow>
     fst (claude_generate_report crew inp k s st) = [StError (warning_sign @ '' Please provide both Anthropic and Serper API keys in the sidebar.'')]"
  "Kickoff req \<in> set (fst (claude_generate_report crew inp k s st))
     \<Longrightarrow> k \<noteq> [] \<and> s \<noteq> [] \<and> req_api_key req = k \<and> req_search_key req = s"
  "StDownloadButton l d f m \<notin> set (fst (claude_generate_report crew inp k s st))"
proof -
  obtain session environ where st: "st = (session, environ)" by (cases st)
  obtain rq rest where r:
      "fst (claude_run_investment_analysis crew (investment_data_of inp) k s (in_model_name inp) environ) = Kickoff rq # rest"
      "req_api_key rq = k" "req_search_key rq = s" "\<forall>r. Kickoff r \<notin> set rest"
      "\<forall>l d f m. StDownloadButton l d f m \<notin> set rest"
    using claude_run_kickoff by blast
  show "k = [] \<or> s = [] \<Longrightarrow>
     fst (claude_generate_report crew inp k s st) = [StError (warning_sign @ '' Please provide both Anthropic and Serper API keys in the sidebar.'')]"
    unfolding claude_generate_report_def Let_def
    by (auto split: prod.splits)
  show "Kickoff req \<in> set (fst (claude_generate_report crew inp k s st))
     \<Longrightarrow> k \<noteq> [] \<and> s \<noteq> [] \<and> req_api_key req = k \<and> req_search_key req = s"
    unfolding claude_generate_report_def Let_def st
    using r by (auto split: if_splits prod.splits)
  show "StDownloadButton l d f m \<notin> set (fst (claude_generate_report crew inp k s st))"
    unfolding claude_generate_report_def Let_def st
    using r by (auto split: if_splits prod.splits)
qed

lemma claude_generate_report_session:
  "ss_report (fst (snd (claude_generate_report crew inp k s (session, environ)))) = Some r
   \<Longrightarrow> ss_report session = Some r \<or> (\<exists>req. crew req = Returned (Some r))"
  unfolding claude_generate_report_def Let_def
  using claude_run_result [where crew = crew and data = "investment_data_of inp" and k = k
      and s = s and env = environ and r = r and mn = "in_model_name inp"]
  by (auto split: if_splits prod.splits)

lemma claude_show_report_events:
  "StDownloadButton l d f m \<in> set (claude_show_report now session)
     \<longleftrightarrow> ss_done session \<and> ss_report session = Some d \<and> d \<noteq> []
         \<and> l = inbox_tray @ '' Download Report''
         \<and> f = ''investment_report_'' @ strftime_stamp now @ ''.md'' \<and> m = ''text/markdown''"
  "ss_done session \<Longrightarrow> ss_report session = Some r \<Longrightarrow> r \<noteq> []
     \<Longrightarrow> StMarkdown r \<in> set (claude_show_report now session)"
  "Kickoff req \<notin> set (claude_show_report now session)"
  unfolding claude_show_report_def
  by (auto split: option.splits)

lemma claude_sidebar_events:
  "StDownloadButton l d f m \<notin> set (fst (claude_sidebar environ inp))"
  "Kickoff req \<notin> set (fst (claude_sidebar environ inp))"
  "StError e \<notin> set (fst (claude_sidebar environ inp))"
  unfolding claude_sidebar_def Let_def by simp_all

lemma claude_sidebar_keys:
  "fst (snd (claude_sidebar environ inp))
     = text_input (getenv environ ''ANTHROPIC_API_KEY'' []) (in_api_key inp)"
  "snd (snd (claude_sidebar environ inp))
     = text_input (getenv environ ''SERPER_API_KEY'' []) (in_search_key inp)"
  unfolding claude_sidebar_def Let_def by simp_all

lemma claude_main_parts:
  "fst (claude_main crew now inp st) =
     fst (claude_sidebar (snd st) inp)
     @ (if in_button inp
        then fst (claude_generate_report crew inp (fst (snd (claude_sidebar (snd st) inp)))
                    (snd (snd (claude_sidebar (snd st) inp))) (init_session (fst st), snd st))
        else [])
     @ claude_show_report now (fst (snd (claude_main crew now inp st)))"
  "fst (snd (claude_main crew now inp st)) =
     (if in_button inp
      then fst (snd (claude_generate_report crew inp (fst (snd (claude_sidebar (snd st) inp)))
                    (snd (snd (claude_sidebar (snd st) inp))) (init_session (fst st), snd st)))
      else init_session (fst st))"
  unfolding claude_main_def Let_def
  by (simp_all split: prod.splits)

lemma claude_main_kickoff:
  "Kickoff req \<in> set (fst (claude_main crew now inp st))
     \<Longrightarrow> in_button inp
       \<and> req_api_key req \<noteq> [] \<and> req_search_key req \<noteq> []
       \<and> req_api_key req = fst (snd (claude_sidebar (snd st) inp))
       \<and> req_search_key req = snd (snd (claude_sidebar (snd st) inp))"
  unfolding claude_main_parts(1)
  using claude_generate_report_events(2) [where req = req and crew = crew and inp = inp
      and k = "fst (snd (claude_sidebar (snd st) inp))"
      and s = "snd (snd (claude_sidebar (snd st) inp))"
      and st = "(init_session (fst st), snd st)"]
  by (auto simp: claude_sidebar_events claude_show_report_events(3) split: if_splits)

lemma claude_main_blocked:
  assumes "in_button inp"
    and "fst (snd (claude_sidebar (snd st) inp)) = [] \<or> snd (snd (claude_sidebar (snd st) inp)) = []"
  shows "StError (warning_sign @ '' Please provide both Anthropic and Serper API keys in the sidebar.'') \<in> set (fst (claude_main crew now inp st))"
    and "Kickoff req \<notin> set (fst (claude_main crew now inp st))"
  unfolding claude_main_parts(1)
  using assms
  by (simp_all add: claude_generate_report_events(1) claude_sidebar_events claude_show_report_events(3))

lemma claude_main_gate:
  "Kickoff req \<in> set (fst (claude_main crew now inp st))
      \<longrightarrow> in_button inp \<and> req_api_key req \<noteq> [] \<and> req_search_key req \<noteq> []"
  "in_button inp
        \<and> (fst (snd (claude_sidebar (snd st) inp)) = []
            \<or> snd (snd (claude_sidebar (snd st) inp)) = [])
      \<longrightarrow> StError (warning_sign @ '' Please provide both Anthropic and Serper API keys in the sidebar.'')
            \<in> set (fst (claude_main crew now inp st))
          \<and> (\<forall>r. Kickoff r \<notin> set (fst (claude_main crew now inp st)))"
proof -
  show "Kickoff req \<in> set (fst (claude_main crew now inp st))
      \<longrightarrow> in_button inp \<and> req_api_key req \<noteq> [] \<and> req_search_key req \<noteq> []"
  proof
    assume "Kickoff req \<in> set (fst (claude_main crew now inp st))"
    from claude_main_kickoff [OF this]
    show "in_button inp \<and> req_api_key req \<noteq> [] \<and> req_search_key req \<noteq> []"
      by (elim conjE) (intro conjI)
  qed
  show "in_button inp
        \<and> (fst (snd (claude_sidebar (snd st) inp)) = []
            \<or> snd (snd (claude_sidebar (snd st) inp)) = [])
      \<longrightarrow> StError (warning_sign @ '' Please provide both Anthropic and Serper API keys in the sidebar.'')
            \<in> set (fst (claude_main crew now inp st))
          \<and> (\<forall>r. Kickoff r \<notin> set (fst (claude_main crew now inp st)))"
  proof (intro impI conjI allI)
    fix r
    assume h: "in_button inp
        \<and> (fst (snd (claude_sidebar (snd st) inp)) = []
            \<or> snd (snd (claude_sidebar (snd st) inp)) = [])"
    show "StError (warning_sign @ '' Please provide both Anthropic and Serper API keys in the sidebar.'') \<in> set (fst (claude_main crew now inp st))"
      by (rule claude_main_blocked(1) [OF h [THEN conjunct1] h [THEN conjunct2]])
    show "Kickoff r \<notin> set (fst (claude_main crew now inp st))"
      by (rule claude_main_blocked(2) [OF h [THEN conjunct1] h [THEN conjunct2]])
  qed
qed

lemma claude_main_download:
  "StDownloadButton l d f m \<in> set (fst (claude_main crew now inp st))
     \<longleftrightarrow> ss_done (fst (snd (claude_main crew now inp st)))
         \<and> ss_report (fst (snd (claude_main crew now inp st))) = Some d \<and> d \<noteq> []
         \<and> l = inbox_tray @ '' Download Report''
         \<and> f = ''investment_report_'' @ strftime_stamp now @ ''.md'' \<and> m = ''text/markdown''"
proof -
  have "StDownloadButton l d f m \<in> set (fst (claude_main crew now inp st))
     \<longleftrightarrow> StDownloadButton l d f m
           \<in> set (claude_show_report now (fst (snd (claude_main crew now inp st))))"
    by (subst claude_main_parts(1))
       (simp add: claude_sidebar_events(1) claude_generate_report_events(3))
  then show ?thesis
    by (simp only: claude_show_report_events(1))
qed

lemma claude_main_markdown:
  "ss_done (fst (snd (claude_main crew now inp st)))
     \<Longrightarrow> ss_report (fst (snd (claude_main crew now inp st))) = Some r \<Longrightarrow> r \<noteq> []
     \<Longrightarrow> StMarkdown r \<in> set (fst (claude_main crew now inp st))"
  by (subst claude_main_parts(1)) (simp add: claude_show_report_events(2))

lemma claude_main_report:
  "ss_report (fst (snd (claude_main crew now inp st))) = Some r
     \<Longrightarrow> (\<exists>s0. fst st = Some s0 \<and> ss_report s0 = Some r)
         \<or> (\<exists>req. crew req = Returned (Some r))"
  unfolding claude_main_parts(2)
  using claude_generate_report_session [where crew = crew and inp = inp
      and k = "fst (snd (claude_sidebar (snd st) inp))"
      and s = "snd (snd (claude_sidebar (snd st) inp))"
      and session = "init_session (fst st)" and environ = "snd st" and r = r]
  by (cases "fst st") (auto simp: init_session_def split: if_splits)

lemma claude_main_offer:
  "ss_done (fst (snd (claude_main crew now inp st)))
     \<and> ss_report (fst (snd (claude_main crew now inp st))) = Some r \<and> r \<noteq> []
   \<longrightarrow> StMarkdown r \<in> set (fst (claude_main crew now inp st))
     \<and> StDownloadButton (inbox_tray @ '' Download Report'') r
         (''investment_report_'' @ strftime_stamp now @ ''.md'') ''text/markdown''
       \<in> set (fst (claude_main crew now inp st))"
  "StDownloadButton l d f m \<in> set (fst (claude_main crew now inp st))
   \<longrightarrow> ss_done (fst (snd (claude_main crew now inp st)))
     \<and> ss_report (fst (snd (claude_main crew now inp st))) = Some d \<and> d \<noteq> []
     \<and> l = inbox_tray @ '' Download Report''
     \<and> f = ''investment_report_'' @ strftime_stamp now @ ''.md'' \<and> m = ''text/markdown''"
  "ss_report (fst (snd (claude_main crew now inp st))) = Some r
   \<longrightarrow> (\<exists>s0. fst st = Some s0 \<and> ss_report s0 = Some r)
       \<or> (\<exists>req. crew req = Returned (Some r))"
proof -
  show "ss_done (fst (snd (claude_main crew now inp st)))
     \<and> ss_report (fst (snd (claude_main crew now inp st))) = Some r \<and> r \<noteq> []
   \<longrightarrow> StMarkdown r \<in> set (fst (claude_main crew now inp st))
     \<and> StDownloadButton (inbox_tray @ '' Download Report'') r
         (''investment_report_'' @ strftime_stamp now @ ''.md'') ''text/markdown''
       \<in> set (fst (claude_main crew now inp st))"
  proof (intro impI conjI)
    assume h: "ss_done (fst (snd (claude_main crew now inp st)))
      \<and> ss_report (fst (snd (claude_main crew now inp st))) = Some r \<and> r \<noteq> []"
    show "StMarkdown r \<in> set (fst (claude_main crew now inp st))"
      by (rule claude_main_markdown [OF h [THEN conjunct1] h [THEN conjunct2, THEN conjunct1]
            h [THEN conjunct2, THEN conjunct2]])
    show "StDownloadButton (inbox_tray @ '' Download Report'') r
         (''investment_report_'' @ strftime_stamp now @ ''.md'') ''text/markdown''
       \<in> set (fst (claude_main crew now inp st))"
      by (rule claude_main_download [THEN iffD2])
         (intro conjI refl h [THEN conjunct1] h [THEN conjunct2, THEN conjunct1]
            h [THEN conjunct2, THEN conjunct2])
  qed
  show "StDownloadButton l d f m \<in> set (fst (claude_main crew now inp st))
   \<longrightarrow> ss_done (fst (snd (claude_main crew now inp st)))
     \<and> ss_report (fst (snd (claude_main crew now inp st))) = Some d \<and> d \<noteq> []
     \<and> l = inbox_tray @ '' Download Report''
     \<and> f = ''investment_report_'' @ strftime_stamp now @ ''.md'' \<and> m = ''text/markdown''"
    by (rule impI) (rule claude_main_download [THEN iffD1])
  show "ss_report (fst (snd (claude_main crew now inp st))) = Some r
   \<longrightarrow> (\<exists>s0. fst st = Some s0 \<and> ss_report s0 = Some r)
       \<or> (\<exists>req. crew req = Returned (Some r))"
    by (rule impI) (rule claude_main_report)
qed

subsection \<open>Exceptions of the external call\<close>

lemma app_run_raised:
  assumes "\<And>req. crew req = Raised e"
  shows "fst (snd (app_run_analysis crew data k s env)) = None"
    and "tl (fst (app_run_analysis crew data k s env)) =
        [StError (if py_in ''auth'' (lower e) \<or> py_in ''key'' (lower e)
                  then warning_sign @ '' Authentication Error: Check your API keys.''
                  else if py_in ''rate'' (lower e)
                  then warning_sign @ '' Rate Limit: Wait 1 minute and try again.''
                  else warning_sign @ '' Error: '' @ e)]"
  unfolding app_run_analysis_def Let_def
  by (simp_all add: assms split: prod.splits)

lemma final_run_raised:
  assumes "\<And>req. crew req = Raised e"
  shows "fst (snd (final_run_analysis crew data k s env)) = None"
    and "tl (fst (final_run_analysis crew data k s env)) =
        (if py_in ''authentication'' (lower e) \<or> py_in ''api'' (lower e)
            \<or> py_in ''key'' (lower e)
         then [StError (warning_sign
                 @ '' **Authentication Error**: Please verify your access credentials and try again.''),
               StInfo (light_bulb
                 @ '' Ensure your credentials are valid and properly configured.'')]
         else [StError (warning_sign @ '' **Analysis Error**: '' @ e)])"
  unfolding final_run_analysis_def Let_def
  by (simp_all add: assms split: prod.splits)

lemma claude_run_raised:
  assumes "\<And>req. crew req = Raised e"
  shows "fst (snd (claude_run_investment_analysis crew data k s mn env)) = None"
    and "tl (fst (claude_run_investment_analysis crew data k s mn env)) =
        [StError (''An error occurred during analysis: '' @ e)]"
  unfolding claude_run_investment_analysis_def Let_def
  by (simp_all add: assms split: prod.splits)

lemma lower_rate_limit: "lower ''Rate limit reached'' = ''rate limit reached''"
  by (simp add: lower_def lower_char_def)

lemma lower_api_unavailable: "lower ''API unavailable'' = ''api unavailable''"
  by (simp add: lower_def lower_char_def)

lemma lower_oauth: "lower ''OAuth token expired'' = ''oauth token expired''"
  by (simp add: lower_def lower_char_def)

text \<open>
  Claim C3, as stated, fails in two of the three files. In
  \<open>investment_advisor_final.py\<close> a message with \<open>rate\<close> in it gets the general
  message, and a message with none of \<open>auth\<close>, \<open>rate\<close>, \<open>key\<close> in it gets the canned
  authentication message (it holds \<open>api\<close>); in \<open>investment_advisor_app_claude.py\<close> a
  message with \<open>auth\<close> in it gets the general message.
\<close>

theorem analysis_runner_selection_counterexample:
  "py_in ''rate'' (lower ''Rate limit reached'')
   \<and> tl (fst (final_run_analysis (crew_raising ''Rate limit reached'')
                sample_data ''k'' ''s'' empty_environ))
       = [StError (warning_sign @ '' **Analysis Error**: Rate limit reached'')]
   \<and> \<not> py_in ''auth'' (lower ''API unavailable'')
   \<and> \<not> py_in ''rate'' (lower ''API unavailable'')
   \<and> \<not> py_in ''key'' (lower ''API unavailable'')
   \<and> tl (fst (final_run_analysis (crew_raising ''API unavailable'')
                sample_data ''k'' ''s'' empty_environ))
       = [StError (warning_sign
            @ '' **Authentication Error**: Please verify your access credentials and try again.''),
          StInfo (light_bulb @ '' Ensure your credentials are valid and properly configured.'')]
   \<and> py_in ''auth'' (lower ''OAuth token expired'')
   \<and> tl (fst (claude_run_investment_analysis (crew_raising ''OAuth token expired'')
                sample_data ''k'' ''s'' ''claude-sonnet-4-20250514'' empty_environ))
       = [StError (''An error occurred during analysis: OAuth token expired'')]"
proof -
  have a: "py_in ''rate'' (lower ''Rate limit reached'')"
    unfolding lower_rate_limit by (simp add: py_in_def sublist_code(3))
  have b: "tl (fst (final_run_analysis (crew_raising ''Rate limit reached'')
                sample_data ''k'' ''s'' empty_environ))
       = [StError (warning_sign @ '' **Analysis Error**: Rate limit reached'')]"
    by (subst final_run_raised(2) [where e = "''Rate limit reached''"])
       (simp_all add: crew_raising_def lower_rate_limit py_in_def sublist_code(3))
  have c: "\<not> py_in ''auth'' (lower ''API unavailable'')"
    "\<not> py_in ''rate'' (lower ''API unavailable'')"
    "\<not> py_in ''key'' (lower ''API unavailable'')"
    unfolding lower_api_unavailable by (simp_all add: py_in_def sublist_code(3))
  have d: "tl (fst (final_run_analysis (crew_raising ''API unavailable'')
                sample_data ''k'' ''s'' empty_environ))
       = [StError (warning_sign
            @ '' **Authentication Error**: Please verify your access credentials and try again.''),
          StInfo (light_bulb @ '' Ensure your credentials are valid and properly configured.'')]"
    by (subst final_run_raised(2) [where e = "''API unavailable''"])
       (simp_all add: crew_raising_def lower_api_unavailable py_in_def sublist_code(3))
  have e: "py_in ''auth'' (lower ''OAuth token expired'')"
    unfolding lower_oauth by (simp add: py_in_def sublist_code(3))
  have f: "tl (fst (claude_run_investment_analysis (crew_raising ''OAuth token expired'')
                sample_data ''k'' ''s'' ''claude-sonnet-4-20250514'' empty_environ))
       = [StError (''An error occurred during analysis: OAuth token expired'')]"
    by (subst claude_run_raised(2) [where e = "''OAuth token expired''"])
       (simp_all add: crew_raising_def)
  from a b c d e f show ?thesis by (intro conjI)
qed

text \<open>
  Claim C3, amended. When the external call raises an exception with message \<open>e\<close>,
  each of the three runners returns \<open>None\<close> after showing a message.
  \<open>investment_advisor_app.py\<close> shows the canned authentication message when the
  lower-cased \<open>e\<close> contains \<open>auth\<close> or \<open>key\<close>, else the canned rate-limit message when
  it contains \<open>rate\<close>, else a general message with \<open>e\<close>.
  \<open>investment_advisor_final.py\<close> tests \<open>authentication\<close>, \<open>api\<close> and \<open>key\<close>, and has
  no rate-limit message. \<open>investment_advisor_app_claude.py\<close> tests nothing and always
  shows the general message with \<open>e\<close>. (\<open>tl\<close> drops the start of the crew from what the
  runner did.)
\<close>

theorem analysis_runner_exceptions:
  assumes "\<And>req. crew req = Raised e"
  shows "fst (snd (app_run_analysis crew data k s env)) = None
    \<and> tl (fst (app_run_analysis crew data k s env)) =
        [StError (if py_in ''auth'' (lower e) \<or> py_in ''key'' (lower e)
                  then warning_sign @ '' Authentication Error: Check your API keys.''
                  else if py_in ''rate'' (lower e)
                  then warning_sign @ '' Rate Limit: Wait 1 minute and try again.''
                  else warning_sign @ '' Error: '' @ e)]
    \<and> fst (snd (final_run_analysis crew data k s env)) = None
    \<and> tl (fst (final_run_analysis crew data k s env)) =
        (if py_in ''authentication'' (lower e) \<or> py_in ''api'' (lower e)
            \<or> py_in ''key'' (lower e)
         then [StError (warning_sign
                 @ '' **Authentication Error**: Please verify your access credentials and try again.''),
               StInfo (light_bulb
                 @ '' Ensure your credentials are valid and properly configured.'')]
         else [StError (warning_sign @ '' **Analysis Error**: '' @ e)])
    \<and> fst (snd (claude_run_investment_analysis crew data k s mn env)) = None
    \<and> tl (fst (claude_run_investment_analysis crew data k s mn env)) =
        [StError (''An error occurred during analysis: '' @ e)]"
  by (intro conjI)
     (rule app_run_raised [OF assms] final_run_raised [OF assms] claude_run_raised [OF assms])+

theorem analysis_runner_exceptions_witness:
  "fst (snd (app_run_analysis (crew_raising ''Rate limit reached'')
               sample_data ''k'' ''s'' empty_environ)) = None
   \<and> tl (fst (app_run_analysis (crew_raising ''Rate limit reached'')
                sample_data ''k'' ''s'' empty_environ))
       = [StError (warning_sign @ '' Rate Limit: Wait 1 minute and try again.'')]"
proof -
  have raised: "\<And>req. crew_raising ''Rate limit reached'' req = Raised ''Rate limit reached''"
    by (simp add: crew_raising_def)
  note t = analysis_runner_exceptions [OF raised, where data = sample_data and k = "''k''"
      and s = "''s''" and env = empty_environ]
  have sel: "(if py_in ''auth'' (lower ''Rate limit reached'')
                 \<or> py_in ''key'' (lower ''Rate limit reached'')
              then warning_sign @ '' Authentication Error: Check your API keys.''
              else if py_in ''rate'' (lower ''Rate limit reached'')
              then warning_sign @ '' Rate Limit: Wait 1 minute and try again.''
              else warning_sign @ '' Error: '' @ ''Rate limit reached'')
             = warning_sign @ '' Rate Limit: Wait 1 minute and try again.''"
    unfolding lower_rate_limit by (simp add: py_in_def sublist_code(3))
  from t [THEN conjunct1] t [THEN conjunct2, THEN conjunct1] show ?thesis
    unfolding sel by (intro conjI)
qed

subsection \<open>The credential gate\<close>

text \<open>
  Claim C6. In each application file the crew is started only by a press of the
  button with both credentials non-empty; a press with an empty credential shows the
  error message and starts nothing. The credentials are the values of the two text
  fields, whose defaults are read from the process environment.
\<close>

theorem credentials_gate:
  "(Kickoff req \<in> set (fst (app_main crew now inp st))
      \<longrightarrow> in_button inp \<and> req_api_key req \<noteq> [] \<and> req_search_key req \<noteq> [])
   \<and> (in_button inp
        \<and> (fst (snd (app_sidebar (snd st) inp)) = []
            \<or> snd (snd (app_sidebar (snd st) inp)) = [])
      \<longrightarrow> StError (warning_sign @ '' Provide credentials in sidebar.'')
            \<in> set (fst (app_main crew now inp st))
          \<and> (\<forall>r. Kickoff r \<notin> set (fst (app_main crew now inp st))))
   \<and> fst (snd (app_sidebar environ inp))
       = text_input (getenv environ ''OPENAI_API_KEY'' []) (in_api_key inp)
   \<and> snd (snd (app_sidebar environ inp))
       = text_input (getenv environ ''SERPER_API_KEY'' []) (in_search_key inp)
   \<and> (Kickoff req \<in> set (fst (final_main crew now inp st))
      \<longrightarrow> in_button inp \<and> req_api_key req \<noteq> [] \<and> req_search_key req \<noteq> [])
   \<and> (in_button inp
        \<and> (fst (snd (final_sidebar (snd st) inp)) = []
            \<or> snd (snd (final_sidebar (snd st) inp)) = [])
      \<longrightarrow> StError (warning_sign
              @ '' Please provide your access credentials in the sidebar.'')
            \<in> set (fst (final_main crew now inp st))
          \<and> (\<forall>r. Kickoff r \<notin> set (fst (final_main crew now inp st))))
   \<and> fst (snd (final_sidebar environ inp))
       = text_input (getenv environ ''OPENAI_API_KEY'' []) (in_api_key inp)
   \<and> snd (snd (final_sidebar environ inp))
       = text_input (getenv environ ''SERPER_API_KEY'' []) (in_search_key inp)
   \<and> (Kickoff req \<in> set (fst (claude_main crew now inp st))
      \<longrightarrow> in_button inp \<and> req_api_key req \<noteq> [] \<and> req_search_key req \<noteq> [])
   \<and> (in_button inp
        \<and> (fst (snd (claude_sidebar (snd st) inp)) = []
            \<or> snd (snd (claude_sidebar (snd st) inp)) = [])
      \<longrightarrow> StError (warning_sign
              @ '' Please provide both Anthropic and Serper API keys in the sidebar.'')
            \<in> set (fst (claude_main crew now inp st))
          \<and> (\<forall>r. Kickoff r \<notin> set (fst (claude_main crew now inp st))))
   \<and> fst (snd (claude_sidebar environ inp))
       = text_input (getenv environ ''ANTHROPIC_API_KEY'' []) (in_api_key inp)
   \<and> snd (snd (claude_sidebar environ inp))
       = text_input (getenv environ ''SERPER_API_KEY'' []) (in_search_key inp)"
  by (intro conjI)
     (rule app_main_gate final_main_gate claude_main_gate
        app_sidebar_keys final_sidebar_keys claude_sidebar_keys)+


theorem credentials_gate_witness:
  "in_button sample_inputs
   \<and> fst (snd (app_sidebar empty_environ sample_inputs)) = []
   \<and> StError (warning_sign @ '' Provide credentials in sidebar.'')
       \<in> set (fst (app_main (crew_returning ''unused'') sample_now sample_inputs
                      (None, empty_environ)))"
proof -
  have b: "in_button sample_inputs"
    by (simp add: sample_inputs_def)
  have k: "fst (snd (app_sidebar empty_environ sample_inputs)) = []"
    by (simp add: app_sidebar_keys text_input_def getenv_def empty_environ_def
          sample_inputs_def)
  have h: "in_button sample_inputs
        \<and> (fst (snd (app_sidebar (snd (None :: session_state option, empty_environ))
                       sample_inputs)) = []
            \<or> snd (snd (app_sidebar (snd (None :: session_state option, empty_environ))
                          sample_inputs)) = [])"
    using b k by simp
  note t = credentials_gate [where crew = "crew_returning ''unused''" and now = sample_now
      and inp = sample_inputs and st = "(None, empty_environ)"]
  from t [THEN conjunct2, THEN conjunct1, THEN mp, OF h, THEN conjunct1] b k
  show ?thesis by (intro conjI)
qed

subsection \<open>The stored report over a visit\<close>

lemma page_runs_report:
  assumes step: "\<And>crew now inp st r.
      ss_report (fst (snd (page crew now inp st))) = Some r
        \<Longrightarrow> (\<exists>s0. fst st = Some s0 \<and> ss_report s0 = Some r)
            \<or> (\<exists>req. crew req = Returned (Some r))"
  shows "fst (page_runs page runs st) = Some s \<Longrightarrow> ss_report s = Some r
     \<Longrightarrow> (\<exists>s0. fst st = Some s0 \<and> ss_report s0 = Some r)
         \<or> (\<exists>run \<in> set runs. \<exists>req. fst run req = Returned (Some r))"
proof (induction runs arbitrary: st)
  case Nil
  then show ?case by simp
next
  case (Cons run runs)
  obtain crew now inp where run: "run = (crew, now, inp)" by (cases run)
  obtain shown session environ where p: "page crew now inp st = (shown, session, environ)"
    by (cases "page crew now inp st")
  from Cons.prems(1) have "fst (page_runs page runs (Some session, environ)) = Some s"
    by (simp add: run p)
  from Cons.IH [OF this Cons.prems(2)]
  consider "ss_report session = Some r"
    | "\<exists>run \<in> set runs. \<exists>req. fst run req = Returned (Some r)"
    by auto
  then show ?case
  proof cases
    case 1
    with step [of crew now inp st r] p show ?thesis
      by (auto simp: run)
  next
    case 2
    then show ?thesis by auto
  qed
qed

lemma page_runs_new_session:
  assumes step: "\<And>crew now inp st r.
      ss_report (fst (snd (page crew now inp st))) = Some r
        \<Longrightarrow> (\<exists>s0. fst st = Some s0 \<and> ss_report s0 = Some r)
            \<or> (\<exists>req. crew req = Returned (Some r))"
  shows "fst (page_runs page runs (None, environ)) = Some s \<and> ss_report s = Some r
     \<longrightarrow> (\<exists>run \<in> set runs. \<exists>req. fst run req = Returned (Some r))"
proof
  assume h: "fst (page_runs page runs (None, environ)) = Some s \<and> ss_report s = Some r"
  from page_runs_report [of page runs "(None, environ)" s r, OF step h [THEN conjunct1]
      h [THEN conjunct2]]
  show "\<exists>run \<in> set runs. \<exists>req. fst run req = Returned (Some r)"
    by simp
qed

lemma app_visit_report:
  "fst (page_runs app_main runs (None, environ)) = Some s \<and> ss_report s = Some r
     \<longrightarrow> (\<exists>run \<in> set runs. \<exists>req. fst run req = Returned (Some r))"
  by (rule page_runs_new_session) (rule app_main_report)

lemma final_visit_report:
  "fst (page_runs final_main runs (None, environ)) = Some s \<and> ss_report s = Some r
     \<longrightarrow> (\<exists>run \<in> set runs. \<exists>req. fst run req = Returned (Some r))"
  by (rule page_runs_new_session) (rule final_main_report)

lemma claude_visit_report:
  "fst (page_runs claude_main runs (None, environ)) = Some s \<and> ss_report s = Some r
     \<longrightarrow> (\<exists>run \<in> set runs. \<exists>req. fst run req = Returned (Some r))"
  by (rule page_runs_new_session) (rule claude_main_report)

lemma final_generate_report_success:
  assumes "k \<noteq> []" "s \<noteq> []" "in_preferences inp \<noteq> []" "in_geography inp \<noteq> []"
    and "\<And>req. crew req = Returned (Some r)" and "r \<noteq> []"
  shows "fst (snd (final_generate_report crew inp k s (session, environ)))
           = session\<lparr> ss_report := Some r, ss_done := True \<rparr>"
  unfolding final_generate_report_def final_run_analysis_def Let_def
  using assms by (simp add: truthy_def split: prod.splits)

lemma page_runs_single:
  "page_runs page [(crew, now, inp)] st
     = (Some (fst (snd (page crew now inp st))), snd (snd (page crew now inp st)))"
  by (simp split: prod.splits)

lemma final_visit_sample:
  "fst (page_runs final_main [(crew_returning ''Buy index funds.'', sample_now, sample_keyed_inputs)]
          (None, empty_environ))
     = Some \<lparr> ss_done = True, ss_report = Some ''Buy index funds.'' \<rparr>"
proof -
  have g: "fst (snd (final_generate_report (crew_returning ''Buy index funds.'')
                 sample_keyed_inputs ''k'' ''s'' (init_session None, empty_environ)))
        = (init_session None)\<lparr> ss_report := Some ''Buy index funds.'', ss_done := True \<rparr>"
    by (rule final_generate_report_success)
       (simp_all add: sample_keyed_inputs_def sample_inputs_def crew_returning_def)
  have key: "fst (snd (final_sidebar empty_environ sample_keyed_inputs)) = ''k''"
    "snd (snd (final_sidebar empty_environ sample_keyed_inputs)) = ''s''"
    by (simp_all add: final_sidebar_keys text_input_def sample_keyed_inputs_def)
  have b: "in_button sample_keyed_inputs"
    by (simp add: sample_keyed_inputs_def sample_inputs_def)
  have "fst (snd (final_main (crew_returning ''Buy index funds.'') sample_now
                  sample_keyed_inputs (None, empty_environ)))
        = (init_session None)\<lparr> ss_report := Some ''Buy index funds.'', ss_done := True \<rparr>"
    by (simp only: final_main_parts(2) fst_conv snd_conv key b if_True g)
  then have m: "fst (snd (final_main (crew_returning ''Buy index funds.'') sample_now
                  sample_keyed_inputs (None, empty_environ)))
        = \<lparr> ss_done = True, ss_report = Some ''Buy index funds.'' \<rparr>"
    by (simp add: init_session_def)
  show ?thesis
    by (simp only: page_runs_single fst_conv m)
qed

subsection \<open>The offered download\<close>

text \<open>
  Claim C5. In each application file, when a run of the page ends with the flag set
  and a non-empty stored report, the report is displayed and a download is offered
  whose data is the stored report, whose file name is the prefix of the file, the
  clock reading in the format \<open>%Y%m%d_%H%M%S\<close> and \<open>.md\<close>, and whose mime type is
  \<open>text/markdown\<close>; no other download is offered; and the stored report is the one
  the session held before the run or the text the external call returned. So over
  a visit that starts with a new session, a stored report is always a text that the
  external call returned in one of the runs.
\<close>

theorem report_download:
  "(ss_done (fst (snd (app_main crew now inp st)))
     \<and> ss_report (fst (snd (app_main crew now inp st))) = Some r \<and> r \<noteq> []
   \<longrightarrow> StMarkdown r \<in> set (fst (app_main crew now inp st))
     \<and> StDownloadButton (inbox_tray @ '' Download Report'') r
         (''report_'' @ strftime_stamp now @ ''.md'') ''text/markdown''
       \<in> set (fst (app_main crew now inp st)))
   \<and> (StDownloadButton l d f m \<in> set (fst (app_main crew now inp st))
   \<longrightarrow> ss_done (fst (snd (app_main crew now inp st)))
     \<and> ss_report (fst (snd (app_main crew now inp st))) = Some d \<and> d \<noteq> []
     \<and> l = inbox_tray @ '' Download Report''
     \<and> f = ''report_'' @ strftime_stamp now @ ''.md'' \<and> m = ''text/markdown'')
   \<and> (ss_report (fst (snd (app_main crew now inp st))) = Some r
   \<longrightarrow> (\<exists>s0. fst st = Some s0 \<and> ss_report s0 = Some r)
       \<or> (\<exists>req. crew req = Returned (Some r)))
   \<and> (ss_done (fst (snd (final_main crew now inp st)))
     \<and> ss_report (fst (snd (final_main crew now inp st))) = Some r \<and> r \<noteq> []
   \<longrightarrow> StMarkdown r \<in> set (fst (final_main crew now inp st))
     \<and> StDownloadButton (inbox_tray @ '' Download Complete Report'') r
         (''investment_report_'' @ strftime_stamp now @ ''.md'') ''text/markdown''
       \<in> set (fst (final_main crew now inp st)))
   \<and> (StDownloadButton l d f m \<in> set (fst (final_main crew now inp st))
   \<longrightarrow> ss_done (fst (snd (final_main crew now inp st)))
     \<and> ss_report (fst (snd (final_main crew now inp st))) = Some d \<and> d \<noteq> []
     \<and> l = inbox_tray @ '' Download Complete Report''
     \<and> f = ''investment_report_'' @ strftime_stamp now @ ''.md'' \<and> m = ''text/markdown'')
   \<and> (ss_report (fst (snd (final_main crew now inp st))) = Some r
   \<longrightarrow> (\<exists>s0. fst st = Some s0 \<and> ss_report s0 = Some r)
       \<or> (\<exists>req. crew req = Returned (Some r)))
   \<and> (ss_done (fst (snd (claude_main crew now inp st)))
     \<and> ss_report (fst (snd (claude_main crew now inp st))) = Some r \<and> r \<noteq> []
   \<longrightarrow> StMarkdown r \<in> set (fst (claude_main crew now inp st))
     \<and> StDownloadButton (inbox_tray @ '' Download Report'') r
         (''investment_report_'' @ strftime_stamp now @ ''.md'') ''text/markdown''
       \<in> set (fst (claude_main crew now inp st)))
   \<and> (StDownloadButton l d f m \<in> set (fst (claude_main crew now inp st))
   \<longrightarrow> ss_done (fst (snd (claude_main crew now inp st)))
     \<and> ss_report (fst (snd (claude_main crew now inp st))) = Some d \<and> d \<noteq> []
     \<and> l = inbox_tray @ '' Download Report''
     \<and> f = ''investment_report_'' @ strftime_stamp now @ ''.md'' \<and> m = ''text/markdown'')
   \<and> (ss_report (fst (snd (claude_main crew now inp st))) = Some r
   \<longrightarrow> (\<exists>s0. fst st = Some s0 \<and> ss_report s0 = Some r)
       \<or> (\<exists>req. crew req = Returned (Some r)))
   \<and> (fst (page_runs app_main runs (None, environ)) = Some s \<and> ss_report s = Some r
     \<longrightarrow> (\<exists>run \<in> set runs. \<exists>req. fst run req = Returned (Some r)))
   \<and> (fst (page_runs final_main runs (None, environ)) = Some s \<and> ss_report s = Some r
     \<longrightarrow> (\<exists>run \<in> set runs. \<exists>req. fst run req = Returned (Some r)))
   \<and> (fst (page_runs claude_main runs (None, environ)) = Some s \<and> ss_report s = Some r
     \<longrightarrow> (\<exists>run \<in> set runs. \<exists>req. fst run req = Returned (Some r)))"
  by (intro conjI)
     (rule app_main_offer final_main_offer claude_main_offer
        app_visit_report final_visit_report claude_visit_report)+

theorem report_download_witness:
  "StDownloadButton (inbox_tray @ '' Download Report'') ''Buy index funds.''
     ''report_20261104_090500.md'' ''text/markdown''
     \<in> set (fst (app_main (crew_raising ''unused'') sample_now sample_idle_inputs
                    (Some sample_session, empty_environ)))
   \<and> fst (page_runs final_main
            [(crew_returning ''Buy index funds.'', sample_now, sample_keyed_inputs)]
            (None, empty_environ))
       = Some \<lparr> ss_done = True, ss_report = Some ''Buy index funds.'' \<rparr>
   \<and> (\<exists>run \<in> set [(crew_returning ''Buy index funds.'', sample_now, sample_keyed_inputs)].
         \<exists>req. fst run req = Returned (Some ''Buy index funds.''))"
proof -
  let ?S = "fst (snd (app_main (crew_raising ''unused'') sample_now sample_idle_inputs
                    (Some sample_session, empty_environ)))"
  have S: "?S = sample_session"
    by (simp add: app_main_parts(2) sample_idle_inputs_def init_session_def)
  have h: "ss_done ?S \<and> ss_report ?S = Some ''Buy index funds.''
             \<and> ''Buy index funds.'' \<noteq> []"
    unfolding S by (simp add: sample_session_def)
  have stamp: "strftime_stamp sample_now = ''20261104_090500''"
    by (simp add: strftime_stamp_def sample_now_def pad2_def str_nat.simps digit_char_def)
  note t = report_download [where crew = "crew_raising ''unused''" and now = sample_now
      and inp = sample_idle_inputs and st = "(Some sample_session, empty_environ)"
      and r = "''Buy index funds.''"
      and runs = "[(crew_returning ''Buy index funds.'', sample_now, sample_keyed_inputs)]"
      and environ = empty_environ
      and s = "\<lparr> ss_done = True, ss_report = Some ''Buy index funds.'' \<rparr>"]
  from t [THEN conjunct1, THEN mp, OF h, THEN conjunct2]
  have offered: "StDownloadButton (inbox_tray @ '' Download Report'') ''Buy index funds.''
     ''report_20261104_090500.md'' ''text/markdown''
     \<in> set (fst (app_main (crew_raising ''unused'') sample_now sample_idle_inputs
                    (Some sample_session, empty_environ)))"
    unfolding stamp by simp
  have stored: "ss_report \<lparr> ss_done = True, ss_report = Some ''Buy index funds.'' \<rparr>
      = Some ''Buy index funds.''"
    by simp
  note visit = t [THEN conjunct2, THEN conjunct2, THEN conjunct2, THEN conjunct2,
      THEN conjunct2, THEN conjunct2, THEN conjunct2, THEN conjunct2, THEN conjunct2,
      THEN conjunct2, THEN conjunct1]
  from visit [THEN mp, OF conjI [OF final_visit_sample stored]]
  have returned: "\<exists>run \<in> set [(crew_returning ''Buy index funds.'', sample_now,
                                 sample_keyed_inputs)].
         \<exists>req. fst run req = Returned (Some ''Buy index funds.'')" .
  from offered final_visit_sample returned show ?thesis by (intro conjI)
qed

end

